(* ===== verification/Prelude.thy ===== *)
theory Prelude
  imports Main
begin

text \<open>
  Shared vocabulary of the development: the names of the clock and socket types, the
  collections of rewrite rules that the component theories fill, and generic lemmas on
  lists and characters that several components use (byte arithmetic of characters,
  updates of an indexed list of objects, filtering of index ranges).
\<close>

section \<open>Types of the model\<close>

text \<open>
  A clock reading is the value of \<open>Date.now()\<close>: milliseconds since the epoch. A socket is
  named by its position in the list of \<open>WebSocket\<close> objects created so far.
\<close>

type_synonym ms = nat
type_synonym sock_id = nat

section \<open>Rule collections\<close>

named_theorems handler_simps
  "unfolding rules of the handlers of the connection hook"
named_theorems app_inv_simps
  "unfolding rules of the invariants of the composed application"

section \<open>Operations on lists\<close>

text \<open>
  The created sockets form a list that only grows; a socket is changed in place by
  \<open>upd_at\<close>, which leaves the list alone when the index is out of range.
  \<open>indices_where\<close> lists, in increasing order, the positions whose element has a property.
\<close>

definition upd_at :: "nat \<Rightarrow> ('a \<Rightarrow> 'a) \<Rightarrow> 'a list \<Rightarrow> 'a list" where
  "upd_at i f xs = (if i < length xs then xs[i := f (xs ! i)] else xs)"

definition indices_where :: "('a \<Rightarrow> bool) \<Rightarrow> 'a list \<Rightarrow> nat list" where
  "indices_where P xs = filter (\<lambda>i. P (xs ! i)) [0..<length xs]"

section \<open>Characters as bytes\<close>

text \<open>
  A \<open>string\<close> is a list of bytes: JavaScript strings are modelled by their UTF-8 encoding.
\<close>

lemma of_char_char_of_small [simp]:
  "(n::nat) < 256 \<Longrightarrow> of_char (char_of n :: char) = n"
  by simp

lemma char_of_inj_small:
  "(a::nat) < 256 \<Longrightarrow> b < 256 \<Longrightarrow> (char_of a :: char) = char_of b \<longleftrightarrow> a = b"
  by simp

section \<open>Indexed lists of objects\<close>


lemma length_upd_at [simp]: "length (upd_at i f xs) = length xs"
  by (simp add: upd_at_def)

lemma nth_upd_at [simp]:
  "j < length xs \<Longrightarrow> upd_at i f xs ! j = (if i = j then f (xs ! j) else xs ! j)"
  by (auto simp: upd_at_def)

lemma upd_at_append_old [simp]:
  "i < length xs \<Longrightarrow> upd_at i f (xs @ ys) = upd_at i f xs @ ys"
  by (simp add: upd_at_def list_update_append1 nth_append)

lemma upd_at_id:
  "(\<And>x. f x = x) \<Longrightarrow> upd_at i f xs = xs"
  by (simp add: upd_at_def)

lemma upd_at_preserves:
  "\<forall>x \<in> set xs. P x \<Longrightarrow> (\<And>x. P x \<Longrightarrow> P (f x)) \<Longrightarrow> \<forall>x \<in> set (upd_at i f xs). P x"
  by (auto simp: upd_at_def dest!: set_update_subset_insert [THEN subsetD])

lemma list_update_preserves:
  "\<forall>x \<in> set xs. P x \<Longrightarrow> P v \<Longrightarrow> \<forall>x \<in> set (xs[i := v]). P x"
  by (auto dest!: set_update_subset_insert [THEN subsetD])

lemma nth_append_length_Suc:
  "j < Suc (length xs) \<Longrightarrow> (xs @ [y]) ! j = (if j = length xs then y else xs ! j)"
  by (simp add: nth_append)

section \<open>Scanning for a delimiter\<close>

lemma takeWhile_upto_delim [simp]:
  "d \<notin> set xs \<Longrightarrow> takeWhile (\<lambda>c. c \<noteq> d) (xs @ d # ys) = xs"
  by (induction xs) auto

lemma dropWhile_upto_delim [simp]:
  "d \<notin> set xs \<Longrightarrow> dropWhile (\<lambda>c. c \<noteq> d) (xs @ d # ys) = d # ys"
  by (induction xs) auto

lemma takeWhile_no_delim [simp]:
  "d \<notin> set xs \<Longrightarrow> takeWhile (\<lambda>c. c \<noteq> d) xs = xs"
  by (induction xs) auto

section \<open>Index filters\<close>


lemma set_indices_where [simp]:
  "set (indices_where P xs) = {i. i < length xs \<and> P (xs ! i)}"
  by (auto simp: indices_where_def)

lemma indices_where_empty_iff:
  "indices_where P xs = [] \<longleftrightarrow> (\<forall>i < length xs. \<not> P (xs ! i))"
  by (auto simp: indices_where_def filter_empty_conv)

lemma distinct_indices_where [simp]: "distinct (indices_where P xs)"
  by (simp add: indices_where_def)

end
