(* ===== verification/JsRuntime.thy ===== *)
theory JsRuntime
  imports Prelude
begin

text \<open>
  The part of the JavaScript runtime that the hook \<open>src/src/hooks/useWebSocket.ts\<close> relies
  on: the values \<open>JSON.parse\<close> produces and the property reads, truthiness tests and
  \<open>||\<close> defaults the hook applies to them, \<open>Date.now().toString()\<close> and
  \<open>new Date().toISOString()\<close>. These are builtins of the language; each definition follows
  the ECMAScript specification for the cases the hook can reach, and the map names the
  source line where the builtin is called.
\<close>

section \<open>Values\<close>

text \<open>
  \<open>Undefined\<close> is the result of reading a missing property; the other constructors are the
  JSON values. Numbers are kept as integers: the hook only tests them for truthiness
  (\<open>0\<close> is falsy) and never computes with them. An object is the list of its members in
  source order; \<open>JSON.parse\<close> keeps the last of duplicate keys.
\<close>

datatype jsval =
    Undefined
  | Null
  | Bool bool
  | Num int
  | Str string
  | Arr "jsval list"
  | Obj "(string \<times> jsval) list"

text \<open>The exceptions the model can raise: reading a property of \<open>null\<close> or \<open>undefined\<close>,
  a URL the \<open>WebSocket\<close> constructor rejects, sending on a socket that is still opening.\<close>

datatype js_error = TypeError | SyntaxError | InvalidStateError

text \<open>\<open>ToBoolean\<close> (ECMAScript 7.1.2).\<close>

fun truthy :: "jsval \<Rightarrow> bool" where
  "truthy Undefined = False"
| "truthy Null = False"
| "truthy (Bool b) = b"
| "truthy (Num n) = (n \<noteq> 0)"
| "truthy (Str s) = (s \<noteq> [])"
| "truthy (Arr _) = True"
| "truthy (Obj _) = True"

text \<open>\<open>a || b\<close>: the left operand when it is truthy, otherwise the right one.\<close>

definition js_or :: "jsval \<Rightarrow> jsval \<Rightarrow> jsval" where
  "js_or a b = (if truthy a then a else b)"

text \<open>
  Property read \<open>v.k\<close>: a \<open>TypeError\<close> on \<open>null\<close> and \<open>undefined\<close>, the last member named
  \<open>k\<close> of an object, \<open>length\<close> of an array or string, and \<open>undefined\<close> otherwise (the
  prototype members of primitives are methods the hook never reads).
\<close>

fun get_prop :: "jsval \<Rightarrow> string \<Rightarrow> js_error + jsval" where
  "get_prop Undefined k = Inl TypeError"
| "get_prop Null k = Inl TypeError"
| "get_prop (Obj kvs) k = Inr (case map_of (rev kvs) k of Some v \<Rightarrow> v | None \<Rightarrow> Undefined)"
| "get_prop (Arr vs) k = Inr (if k = ''length'' then Num (int (length vs)) else Undefined)"
| "get_prop (Str s) k = Inr (if k = ''length'' then Num (int (length s)) else Undefined)"
| "get_prop (Bool b) k = Inr Undefined"
| "get_prop (Num n) k = Inr Undefined"

text \<open>The value a property read yields when it does not throw (\<open>undefined\<close> otherwise).\<close>

definition read_prop :: "jsval \<Rightarrow> string \<Rightarrow> jsval" where
  "read_prop v k = (case get_prop v k of Inl _ \<Rightarrow> Undefined | Inr w \<Rightarrow> w)"

text \<open>\<open>null\<close> and \<open>undefined\<close>, the two values whose properties cannot be read.\<close>

definition nullish :: "jsval \<Rightarrow> bool" where
  "nullish v \<longleftrightarrow> v = Null \<or> v = Undefined"

section \<open>Exceptions\<close>

text \<open>
  A computation that may throw returns \<open>js_error + 'a\<close>; \<open>js_bind\<close> runs the rest of the
  computation only when the first part returned normally, as statement sequencing does.
\<close>

definition js_bind :: "js_error + 'a \<Rightarrow> ('a \<Rightarrow> js_error + 'b) \<Rightarrow> js_error + 'b" where
  "js_bind m f = (case m of Inl e \<Rightarrow> Inl e | Inr a \<Rightarrow> f a)"

text \<open>\<open>Array.prototype.map\<close> with a callback that may throw: the callback runs on the
  elements in index order and the first exception ends the call.\<close>

fun js_map :: "('a \<Rightarrow> js_error + 'b) \<Rightarrow> 'a list \<Rightarrow> js_error + 'b list" where
  "js_map f [] = Inr []"
| "js_map f (x # xs) = js_bind (f x) (\<lambda>y. js_bind (js_map f xs) (\<lambda>ys. Inr (y # ys)))"

text \<open>A JSON value: no \<open>undefined\<close> anywhere inside (what \<open>JSON.parse\<close> can return).\<close>

fun json_value :: "jsval \<Rightarrow> bool" where
  "json_value Undefined = False"
| "json_value (Arr vs) = (\<forall>v \<in> set vs. json_value v)"
| "json_value (Obj kvs) = (\<forall>kv \<in> set kvs. json_value (snd kv))"
| "json_value _ = True"

section \<open>Number to string\<close>

text \<open>
  \<open>Number.prototype.toString()\<close> of a non-negative integer below \<open>10^21\<close>: its decimal
  digits, most significant first. \<open>Date.now()\<close> is such an integer.
\<close>

definition digit_char :: "nat \<Rightarrow> char" where
  "digit_char d = char_of (48 + d)"

fun nat_str :: "nat \<Rightarrow> string" where
  "nat_str n = (if n < 10 then [digit_char n] else nat_str (n div 10) @ [digit_char (n mod 10)])"

declare nat_str.simps [simp del]

text \<open>Reading decimal digits back (the inverse used in the round-trip lemma).\<close>

definition digit_val :: "char \<Rightarrow> nat" where
  "digit_val c = of_char c - 48"

definition str_nat :: "string \<Rightarrow> nat" where
  "str_nat s = foldl (\<lambda>acc c. 10 * acc + digit_val c) 0 s"

definition is_digit :: "char \<Rightarrow> bool" where
  "is_digit c = ((48::nat) \<le> of_char c \<and> of_char c < (58::nat))"

section \<open>Dates\<close>

text \<open>
  \<open>Date.prototype.toISOString\<close> of a time value: \<open>YYYY-MM-DDTHH:mm:ss.sssZ\<close>, with the
  expanded form \<open>+YYYYYY\<close> for years after 9999. The calendar date of a day number is
  computed by the proleptic Gregorian algorithm over 400-year eras (days from the epoch,
  shifted to start on 1 March of year 0). Clock readings are non-negative, so the year is
  at least 1970.
\<close>

definition civil_from_days :: "nat \<Rightarrow> nat \<times> nat \<times> nat" where
  "civil_from_days days =
    (let z = days + 719468;
         era = z div 146097;
         doe = z mod 146097;
         yoe = (doe - doe div 1460 + doe div 36524 - doe div 146096) div 365;
         doy = doe - (365 * yoe + yoe div 4 - yoe div 100);
         mp = (5 * doy + 2) div 153;
         d = doy - (153 * mp + 2) div 5 + 1;
         m = (if mp < 10 then mp + 3 else mp - 9);
         y = yoe + era * 400 + (if m \<le> 2 then 1 else 0)
     in (y, m, d))"

definition pad_nat :: "nat \<Rightarrow> nat \<Rightarrow> string" where
  "pad_nat w n = replicate (w - length (nat_str n)) (CHR ''0'') @ nat_str n"

definition iso_string :: "ms \<Rightarrow> string" where
  "iso_string t =
    (let days = t div 86400000; r = t mod 86400000;
         (y, m, d) = civil_from_days days;
         year = (if y \<le> 9999 then pad_nat 4 y else CHR ''+'' # pad_nat 6 y)
     in year @ ''-'' @ pad_nat 2 m @ ''-'' @ pad_nat 2 d @ ''T'' @
        pad_nat 2 (r div 3600000) @ '':'' @ pad_nat 2 (r div 60000 mod 60) @ '':'' @
        pad_nat 2 (r div 1000 mod 60) @ ''.'' @ pad_nat 3 (r mod 1000) @ ''Z'')"

section \<open>Lemmas\<close>

lemma js_bind_Inl [simp]: "js_bind (Inl e) f = Inl e"
  by (simp add: js_bind_def)

lemma js_bind_Inr [simp]: "js_bind (Inr a) f = f a"
  by (simp add: js_bind_def)

lemma get_prop_Inl_iff:
  "get_prop v k = Inl e \<longleftrightarrow> nullish v \<and> e = TypeError"
  by (cases v) (auto simp: nullish_def)

lemma get_prop_nullish [simp]:
  "nullish v \<Longrightarrow> get_prop v k = Inl TypeError"
  by (auto simp: nullish_def)

lemma get_prop_not_nullish:
  "\<not> nullish v \<Longrightarrow> \<exists>w. get_prop v k = Inr w"
  by (cases v) (auto simp: nullish_def)

lemma js_map_map:
  "(\<And>x. x \<in> set xs \<Longrightarrow> f x = Inr (g x)) \<Longrightarrow> js_map f xs = Inr (map g xs)"
  by (induction xs) auto

lemma js_map_Inr_length:
  "js_map f xs = Inr ys \<Longrightarrow> length ys = length xs"
proof (induction xs arbitrary: ys)
  case Nil
  then show ?case by simp
next
  case (Cons x xs)
  then show ?case
    by (auto simp: js_bind_def split: sum.splits)
qed

lemma js_map_Inl:
  "x \<in> set xs \<Longrightarrow> f x = Inl e \<Longrightarrow> \<exists>e'. js_map f xs = Inl e'"
  by (induction xs) (auto simp: js_bind_def split: sum.splits)

lemma js_map_Inl_elem:
  "js_map f xs = Inl e \<Longrightarrow> \<exists>x \<in> set xs. f x = Inl e"
  by (induction xs) (auto simp: js_bind_def split: sum.splits)

lemma js_map_Inr_nth:
  "js_map f xs = Inr ys \<Longrightarrow> j < length xs \<Longrightarrow> f (xs ! j) = Inr (ys ! j)"
proof (induction xs arbitrary: ys j)
  case Nil
  then show ?case by simp
next
  case (Cons x xs)
  then show ?case
    by (cases j) (auto simp: js_bind_def split: sum.splits)
qed

lemma get_prop_read_prop:
  "\<not> nullish v \<Longrightarrow> get_prop v k = Inr (read_prop v k)"
  using get_prop_not_nullish [of v k] by (auto simp: read_prop_def)

lemma truthy_js_or [simp]: "truthy a \<Longrightarrow> js_or a b = a"
  by (simp add: js_or_def)

lemma not_truthy_js_or [simp]: "\<not> truthy a \<Longrightarrow> js_or a b = b"
  by (simp add: js_or_def)

subsection \<open>Decimal digits\<close>

lemma digit_val_digit_char [simp]: "d < 10 \<Longrightarrow> digit_val (digit_char d) = d"
  by (simp add: digit_val_def digit_char_def)

lemma is_digit_digit_char [simp]: "d < 10 \<Longrightarrow> is_digit (digit_char d)"
  by (simp add: is_digit_def digit_char_def)

lemma str_nat_snoc [simp]: "str_nat (xs @ [c]) = 10 * str_nat xs + digit_val c"
  by (simp add: str_nat_def)

lemma nat_str_not_empty [simp]: "nat_str n \<noteq> []"
  by (subst nat_str.simps) simp

lemma nat_str_digits: "\<forall>c \<in> set (nat_str n). is_digit c"
proof (induction n rule: nat_str.induct)
  case (1 n)
  then show ?case by (subst nat_str.simps) auto
qed

lemma str_nat_nat_str [simp]: "str_nat (nat_str n) = n"
proof (induction n rule: nat_str.induct)
  case (1 n)
  show ?case
  proof (cases "n < 10")
    case True
    then show ?thesis by (subst nat_str.simps) (simp add: str_nat_def)
  next
    case False
    with "1" have "str_nat (nat_str (n div 10)) = n div 10" by simp
    with False show ?thesis by (subst nat_str.simps) simp
  qed
qed

lemma nat_str_inj: "nat_str m = nat_str n \<longleftrightarrow> m = n"
  by (metis str_nat_nat_str)

end
