(* ===== verification/ChatTypes.thy ===== *)
theory ChatTypes
  imports JsRuntime
begin

text \<open>
  The data model of \<open>src/src/types/chat.ts\<close>: a chat line, the connection parameters and
  the state snapshot the hook exposes to the interface. The declared TypeScript types are
  not checked at run time: a message built from an inbound frame holds whatever JSON
  value the frame carried in each field, so the fields of \<open>message\<close> are JavaScript
  values. The connection parameters come from text inputs and are strings.
\<close>

record message =
  msg_id :: jsval
  content :: jsval
  fromId :: jsval
  toId :: jsval
  timestamp :: jsval
  delivered :: jsval

record connection_config =
  serverUrl :: string
  jwtToken :: string
  userId :: string
  recipientId :: string

record chat_state =
  isConnected :: bool
  isConnecting :: bool
  messages :: "message list"
  error :: "string option"

text \<open>The state \<open>useState\<close> starts from (\<open>useWebSocket.ts\<close>, lines 6-11).\<close>

definition initial_chat_state :: chat_state where
  "initial_chat_state = \<lparr>isConnected = False, isConnecting = False, messages = [], error = None\<rparr>"

end
