(* ===== verification/MessageStore.thy ===== *)
theory MessageStore
  imports ChatTypes
begin

text \<open>
  The message store: how the \<open>onmessage\<close> handler of \<open>useWebSocket.ts\<close> (lines 59-95)
  turns an inbound frame into a new message log. A frame is a \<open>message\<close> (appended), a
  \<open>recent_messages\<close> backlog (replaces the log) or anything else (ignored); a frame that
  does not parse, or whose handling throws, is caught and leaves the state as it was.
  Only the \<open>messages\<close> field of the state is written.
\<close>

section \<open>Inbound frames\<close>

text \<open>
  The text of a frame after \<open>JSON.parse(event.data)\<close> (line 61): \<open>Frame v\<close> when it parses
  to the JSON value \<open>v\<close>, \<open>Malformed\<close> when \<open>JSON.parse\<close> throws.
\<close>

datatype inbound = Frame jsval | Malformed

section \<open>Operations\<close>

text \<open>
  The object literal of lines 64-71 and 78-85: each field read from the frame, with the
  receipt time \<open>now\<close> standing in for a falsy \<open>id\<close> (\<open>Date.now().toString()\<close>) and a
  falsy \<open>timestamp\<close> (\<open>new Date().toISOString()\<close>), and \<open>false\<close> for a falsy
  \<open>delivered\<close>. Reading a field of \<open>null\<close> or \<open>undefined\<close> throws.
\<close>

definition normalize_message :: "ms \<Rightarrow> jsval \<Rightarrow> js_error + message" where
  "normalize_message now d =
    js_bind (get_prop d ''id'') (\<lambda>i.
    js_bind (get_prop d ''content'') (\<lambda>c.
    js_bind (get_prop d ''fromId'') (\<lambda>f.
    js_bind (get_prop d ''toId'') (\<lambda>t.
    js_bind (get_prop d ''timestamp'') (\<lambda>ts.
    js_bind (get_prop d ''delivered'') (\<lambda>dl.
      Inr \<lparr>msg_id = js_or i (Str (nat_str now)), content = c, fromId = f, toId = t,
           timestamp = js_or ts (Str (iso_string now)), delivered = js_or dl (Bool False)\<rparr>))))))"

text \<open>
  The body of the \<open>try\<close> block (lines 61-91) after parsing: dispatch on \<open>data.type\<close>;
  the backlog branch is taken only when \<open>data.messages\<close> is an array.
\<close>

definition handle_frame :: "ms \<Rightarrow> jsval \<Rightarrow> chat_state \<Rightarrow> js_error + chat_state" where
  "handle_frame now data st =
    js_bind (get_prop data ''type'') (\<lambda>ty.
      if ty = Str ''message'' then
        js_bind (normalize_message now data) (\<lambda>m. Inr (st\<lparr>messages := messages st @ [m]\<rparr>))
      else if ty = Str ''recent_messages'' then
        js_bind (get_prop data ''messages'') (\<lambda>ms.
          case ms of
            Arr vs \<Rightarrow> js_bind (js_map (normalize_message now) vs) (\<lambda>msgs. Inr (st\<lparr>messages := msgs\<rparr>))
          | _ \<Rightarrow> Inr st)
      else Inr st)"

text \<open>The handler: a parse failure or an exception is caught (lines 92-94).\<close>

definition on_message :: "ms \<Rightarrow> inbound \<Rightarrow> chat_state \<Rightarrow> chat_state" where
  "on_message now fr st =
    (case fr of
      Malformed \<Rightarrow> st
    | Frame data \<Rightarrow> (case handle_frame now data st of Inl _ \<Rightarrow> st | Inr st' \<Rightarrow> st'))"

section \<open>Lemmas\<close>

lemma normalize_message_Inl:
  "normalize_message now d = Inl e \<longleftrightarrow> nullish d \<and> e = TypeError"
  by (cases d) (auto simp: normalize_message_def nullish_def)

lemma normalize_message_Inr:
  "\<not> nullish d \<Longrightarrow> normalize_message now d =
     Inr \<lparr>msg_id = js_or (read_prop d ''id'') (Str (nat_str now)), content = read_prop d ''content'',
          fromId = read_prop d ''fromId'', toId = read_prop d ''toId'',
          timestamp = js_or (read_prop d ''timestamp'') (Str (iso_string now)),
          delivered = js_or (read_prop d ''delivered'') (Bool False)\<rparr>"
  by (simp add: normalize_message_def get_prop_read_prop)

lemma normalize_message_nullish [simp]:
  "nullish d \<Longrightarrow> normalize_message now d = Inl TypeError"
  by (simp add: normalize_message_Inl)

lemma get_prop_Inr_not_nullish:
  "get_prop v k = Inr w \<Longrightarrow> \<not> nullish v"
  by (cases v) (auto simp: nullish_def)

lemma on_message_only_messages:
  "on_message now fr st = st\<lparr>messages := messages (on_message now fr st)\<rparr>"
  by (auto simp: on_message_def handle_frame_def js_bind_def
      split: inbound.splits sum.splits if_splits jsval.splits)

text \<open>
  C11: a frame of type \<open>message\<close> appends exactly one normalised message at the end of
  the log (arrival order, no deduplication) and changes nothing else in the state.
\<close>

lemma on_message_append:
  assumes "get_prop data ''type'' = Inr (Str ''message'')"
  shows "\<exists>m. normalize_message now data = Inr m \<and>
             on_message now (Frame data) st = st\<lparr>messages := messages st @ [m]\<rparr>"
proof -
  from assms have "\<not> nullish data" by (rule get_prop_Inr_not_nullish)
  then show ?thesis
    using assms by (simp add: on_message_def handle_frame_def normalize_message_Inr)
qed

text \<open>
  C12: a \<open>recent_messages\<close> frame whose \<open>messages\<close> is an array of non-null entries
  replaces the whole log by the normalised entries, one per entry and in the same order:
  the log's length afterwards is the array's length.
\<close>

lemma on_message_backlog_replaces:
  assumes "get_prop data ''type'' = Inr (Str ''recent_messages'')"
    and "get_prop data ''messages'' = Inr (Arr vs)"
    and "\<forall>v \<in> set vs. \<not> nullish v"
  shows "\<exists>msgs. js_map (normalize_message now) vs = Inr msgs \<and> length msgs = length vs \<and>
               on_message now (Frame data) st = st\<lparr>messages := msgs\<rparr>"
proof -
  have "js_map (normalize_message now) vs = Inr (map (\<lambda>v. case normalize_message now v of Inr m \<Rightarrow> m) vs)"
    using assms(3) by (intro js_map_map) (auto simp: normalize_message_Inr)
  with assms(1,2) show ?thesis
    by (simp add: on_message_def handle_frame_def)
qed

text \<open>
  C13: if a single entry of a \<open>recent_messages\<close> array is \<open>null\<close>, normalising it
  throws, the exception is caught, and the whole backlog is dropped: the state is left
  exactly as it was.
\<close>

lemma on_message_backlog_nullish_dropped:
  assumes "get_prop data ''type'' = Inr (Str ''recent_messages'')"
    and "get_prop data ''messages'' = Inr (Arr vs)"
    and "v \<in> set vs" and "nullish v"
  shows "on_message now (Frame data) st = st"
proof -
  obtain e where "js_map (normalize_message now) vs = Inl e"
    using js_map_Inl [of v vs "normalize_message now", OF assms(3)] assms(4) by auto
  with assms(1,2) show ?thesis
    by (simp add: on_message_def handle_frame_def)
qed

text \<open>
  C14: a frame that does not parse, is \<open>null\<close>, or has a type other than \<open>message\<close>
  and \<open>recent_messages\<close> leaves the state unchanged.
\<close>

lemma on_message_ignored:
  assumes "fr = Malformed \<or> (\<exists>data. fr = Frame data \<and>
             (nullish data \<or> (\<exists>ty. get_prop data ''type'' = Inr ty \<and>
                ty \<noteq> Str ''message'' \<and> ty \<noteq> Str ''recent_messages'')))"
  shows "on_message now fr st = st"
  using assms
  by (auto simp: on_message_def handle_frame_def split: sum.splits)

text \<open>
  C15: the spec's scenario: \<open>{"type":"message","content":"hi","fromId":"u2","toId":"u1"}\<close>
  received at time \<open>now\<close> appends a message with a non-empty id (the decimal time), the
  ISO text of the receipt time as timestamp, and \<open>delivered = false\<close>.
\<close>

lemma on_message_scenario:
  "nat_str now \<noteq> [] \<and> on_message now (Frame (Obj [(''type'', Str ''message''), (''content'', Str ''hi''),
                               (''fromId'', Str ''u2''), (''toId'', Str ''u1'')])) st =
   st\<lparr>messages := messages st @
      [\<lparr>msg_id = Str (nat_str now), content = Str ''hi'', fromId = Str ''u2'', toId = Str ''u1'',
        timestamp = Str (iso_string now), delivered = Bool False\<rparr>]\<rparr>"
  by (simp add: on_message_def handle_frame_def normalize_message_def js_or_def)

lemma on_message_append_witness:
  "get_prop (Obj [(''type'', Str ''message''), (''id'', Str ''m1'')]) ''type'' = Inr (Str ''message'') \<and>
   (\<exists>m. normalize_message 5 (Obj [(''type'', Str ''message''), (''id'', Str ''m1'')]) = Inr m \<and>
        on_message 5 (Frame (Obj [(''type'', Str ''message''), (''id'', Str ''m1'')])) initial_chat_state =
          initial_chat_state\<lparr>messages := [m]\<rparr>)"
  using on_message_append [of "Obj [(''type'', Str ''message''), (''id'', Str ''m1'')]" 5 initial_chat_state]
  by (simp add: initial_chat_state_def)

lemma on_message_backlog_replaces_witness:
  "\<exists>msgs. js_map (normalize_message 5) [Obj [], Obj []] = Inr msgs \<and> length msgs = Suc (Suc 0) \<and>
     on_message 5 (Frame (Obj [(''type'', Str ''recent_messages''), (''messages'', Arr [Obj [], Obj []])]))
       initial_chat_state = initial_chat_state\<lparr>messages := msgs\<rparr>"
proof -
  have "get_prop (Obj [(''type'', Str ''recent_messages''), (''messages'', Arr [Obj [], Obj []])]) ''type''
          = Inr (Str ''recent_messages'')"
    and "get_prop (Obj [(''type'', Str ''recent_messages''), (''messages'', Arr [Obj [], Obj []])]) ''messages''
          = Inr (Arr [Obj [], Obj []])"
    and "\<forall>v \<in> set [Obj [], Obj []]. \<not> nullish v"
    by (simp_all add: nullish_def)
  from on_message_backlog_replaces [OF this, of 5 initial_chat_state] show ?thesis
    by (simp del: js_map.simps)
qed

lemma on_message_backlog_nullish_dropped_witness:
  "on_message 5 (Frame (Obj [(''type'', Str ''recent_messages''), (''messages'', Arr [Obj [], Null])]))
     initial_chat_state = initial_chat_state"
proof -
  have "get_prop (Obj [(''type'', Str ''recent_messages''), (''messages'', Arr [Obj [], Null])]) ''type''
          = Inr (Str ''recent_messages'')"
    and "get_prop (Obj [(''type'', Str ''recent_messages''), (''messages'', Arr [Obj [], Null])]) ''messages''
          = Inr (Arr [Obj [], Null])"
    and "Null \<in> set [Obj [], Null]" and "nullish Null"
    by (simp_all add: nullish_def)
  from on_message_backlog_nullish_dropped [OF this] show ?thesis .
qed

lemma on_message_ignored_witness:
  "on_message 5 (Frame (Obj [(''type'', Str ''typing'')])) initial_chat_state = initial_chat_state"
  by (rule on_message_ignored) (simp add: nullish_def)

text \<open>
  C16: id-less frames normalised at different receipt times get different ids, and at
  equal times equal ids: the synthesised id determines the receipt time.
\<close>

lemma distinct_instants_distinct_ids:
  assumes "\<not> nullish d" and "\<not> truthy (read_prop d ''id'')"
    and "normalize_message t1 d = Inr m1" and "normalize_message t2 d = Inr m2"
  shows "msg_id m1 = msg_id m2 \<longleftrightarrow> t1 = t2"
  using assms by (auto simp: normalize_message_Inr nat_str_inj)

lemma distinct_instants_distinct_ids_witness:
  "\<exists>m1 m2. normalize_message 1 (Obj []) = Inr m1 \<and> normalize_message 2 (Obj []) = Inr m2 \<and>
     msg_id m1 \<noteq> msg_id m2"
proof -
  have nn: "\<not> nullish (Obj [])" and nt: "\<not> truthy (read_prop (Obj []) ''id'')"
    by (simp_all add: nullish_def read_prop_def)
  obtain m1 m2 where m1: "normalize_message 1 (Obj []) = Inr m1"
    and m2: "normalize_message 2 (Obj []) = Inr m2"
    by (simp add: normalize_message_Inr [OF nn])
  from distinct_instants_distinct_ids [OF nn nt m1 m2] m1 m2 show ?thesis by auto
qed

end
