(* ===== verification/Transport.thy ===== *)
theory Transport
  imports MessageStore
begin

text \<open>
  The browser's \<open>WebSocket\<close> objects as the hook uses them: the constructor
  (\<open>useWebSocket.ts\<close> line 36), \<open>send\<close> (lines 53 and 177), \<open>close\<close> (line 190) and the
  events the browser delivers to the handlers (lines 39, 59, 97, 112). Each socket keeps
  its \<open>readyState\<close>, the frames written to it, the arguments of the \<open>close()\<close> call, and
  the connection configuration its handler closures captured when \<open>connect\<close> created it.
  The semantics follow the WHATWG WebSockets standard for these operations.
\<close>

section \<open>Sockets\<close>

datatype ready_state = CONNECTING | OPEN | CLOSING | CLOSED

record websocket =
  url :: string
  readyState :: ready_state
  sent :: "jsval list"
  closeCall :: "(nat \<times> string) option"
  handlerConfig :: connection_config

text \<open>
  The constructor applies the URL parser to its argument against the page's base URL
  and throws a \<open>SyntaxError\<close> when parsing fails, when the scheme is not \<open>ws\<close>,
  \<open>wss\<close>, \<open>http\<close> or \<open>https\<close> (the last two are mapped to the first two), or when
  the URL has a fragment. The parser first removes leading and trailing C0 controls and
  spaces and every tab and newline, and lowercases the scheme. A string without a scheme
  is relative and resolves against the base URL, which is taken to be an \<open>http\<close> page:
  it fails only if it starts with two slashes (a scheme-relative URL) and names no host.
  After a special scheme the parser skips any slashes and backslashes and reads the
  authority up to the next \<open>/\<close>, \<open>\\<close>, \<open>?\<close> or \<open>#\<close>: the host is what follows the last
  \<open>@\<close>, up to a \<open>:\<close>; it must not be empty, and a port must be decimal and at most 65535.
  Only \<open>http:\<close> without \<open>//\<close> is relative to the \<open>http\<close> base. The syntax of the host
  itself (forbidden code points, IPv4 and IPv6 forms, IDNA) is not checked.
\<close>

definition url_c0_space :: "char \<Rightarrow> bool" where
  "url_c0_space c \<longleftrightarrow> (of_char c :: nat) \<le> 32"

definition url_strip :: "string \<Rightarrow> string" where
  "url_strip u =
    filter (\<lambda>c. c \<notin> set [CHR 0x09, CHR 0x0A, CHR 0x0D])
      (rev (dropWhile url_c0_space (rev (dropWhile url_c0_space u))))"

definition ascii_lower :: "char \<Rightarrow> char" where
  "ascii_lower c =
    (if (65::nat) \<le> of_char c \<and> (of_char c :: nat) \<le> 90 then char_of (of_char c + (32::nat)) else c)"

definition scheme_char :: "char \<Rightarrow> bool" where
  "scheme_char c \<longleftrightarrow>
    (let n = (of_char c :: nat) in
     48 \<le> n \<and> n \<le> 57 \<or> 65 \<le> n \<and> n \<le> 90 \<or> 97 \<le> n \<and> n \<le> 122 \<or> c \<in> set ''+-.'')"

text \<open>The scheme start state: an ASCII letter, scheme characters, then \<open>:\<close>; otherwise
  the string has no scheme.\<close>

definition split_scheme :: "string \<Rightarrow> (string \<times> string) option" where
  "split_scheme u =
    (let sch = takeWhile scheme_char u; rest = dropWhile scheme_char u in
     if sch \<noteq> [] \<and> \<not> (of_char (hd sch) :: nat) \<in> {48..57} \<and> hd sch \<notin> set ''+-.'' \<and>
        rest \<noteq> [] \<and> hd rest = CHR '':''
     then Some (map ascii_lower sch, tl rest) else None)"

definition url_slash :: "char \<Rightarrow> bool" where
  "url_slash c \<longleftrightarrow> c = CHR ''/'' \<or> c = CHR 0x5C"

definition port_ok :: "string \<Rightarrow> bool" where
  "port_ok p \<longleftrightarrow> (\<forall>c \<in> set p. is_digit c) \<and> str_nat p \<le> 65535"

definition authority_ok :: "string \<Rightarrow> bool" where
  "authority_ok r =
    (let a = takeWhile (\<lambda>c. \<not> url_slash c \<and> c \<noteq> CHR ''?'' \<and> c \<noteq> CHR ''#'') r;
         hp = rev (takeWhile (\<lambda>c. c \<noteq> CHR ''@'') (rev a));
         h = takeWhile (\<lambda>c. c \<noteq> CHR '':'') hp
     in h \<noteq> [] \<and> (CHR '':'' \<in> set hp \<longrightarrow> port_ok (tl (dropWhile (\<lambda>c. c \<noteq> CHR '':'') hp))))"

definition two_slashes :: "string \<Rightarrow> bool" where
  "two_slashes r \<longleftrightarrow> length r \<ge> 2 \<and> url_slash (r ! 0) \<and> url_slash (r ! 1)"

definition ws_url_valid :: "string \<Rightarrow> bool" where
  "ws_url_valid u0 =
    (let u = url_strip u0 in
     CHR ''#'' \<notin> set u \<and>
     (case split_scheme u of
        Some (s, r) \<Rightarrow>
          s \<in> set [''ws'', ''wss'', ''http'', ''https''] \<and>
          (if s = ''http'' \<and> \<not> (take 2 r = ''//'') then True
           else authority_ok (dropWhile url_slash r))
      | None \<Rightarrow> (if two_slashes u then authority_ok (dropWhile url_slash u) else True)))"

definition new_websocket :: "string \<Rightarrow> connection_config \<Rightarrow> js_error + websocket" where
  "new_websocket u cfg =
    (if ws_url_valid u
     then Inr \<lparr>url = u, readyState = CONNECTING, sent = [], closeCall = None, handlerConfig = cfg\<rparr>
     else Inl SyntaxError)"

text \<open>
  \<open>send\<close>: an \<open>InvalidStateError\<close> while the socket is still connecting, the frame is
  transmitted when it is open, and silently discarded once it is closing or closed.
\<close>

definition ws_send :: "jsval \<Rightarrow> websocket \<Rightarrow> js_error + websocket" where
  "ws_send v w =
    (case readyState w of
       CONNECTING \<Rightarrow> Inl InvalidStateError
     | OPEN \<Rightarrow> Inr (w\<lparr>sent := sent w @ [v]\<rparr>)
     | _ \<Rightarrow> Inr w)"

text \<open>
  \<open>close(code, reason)\<close>: a socket that is connecting or open starts closing (a
  connecting one fails its connection); a closing or closed one is left alone. The
  argument checks of \<open>close\<close> (code 1000 or 3000-4999, reason of at most 123 bytes) are
  passed by the only call in the hook, \<open>close(1000, 'Manual disconnect')\<close>.
\<close>

definition ws_close :: "nat \<Rightarrow> string \<Rightarrow> websocket \<Rightarrow> websocket" where
  "ws_close code reason w =
    (if readyState w \<in> {CONNECTING, OPEN}
     then w\<lparr>readyState := CLOSING, closeCall := Some (code, reason)\<rparr>
     else w)"

section \<open>Events\<close>

text \<open>
  What the browser can deliver to the handlers of socket \<open>i\<close>: the opening handshake
  completed; a frame arrived, at clock reading \<open>now\<close>; the connection closed with a code
  and a reason, the flag saying whether it failed (then \<open>error\<close> is dispatched before
  \<open>close\<close>). An opening needs a connecting socket, a frame an open one, a closing any
  socket not yet closed; the server and the network choose code, reason and failure.
\<close>

datatype browser_event =
    WsOpen sock_id
  | WsMessage sock_id inbound ms
  | WsClose sock_id nat string bool

definition event_enabled :: "websocket list \<Rightarrow> browser_event \<Rightarrow> bool" where
  "event_enabled ws e =
    (case e of
       WsOpen i \<Rightarrow> i < length ws \<and> readyState (ws ! i) = CONNECTING
     | WsMessage i _ _ \<Rightarrow> i < length ws \<and> readyState (ws ! i) = OPEN
     | WsClose i _ _ _ \<Rightarrow> i < length ws \<and> readyState (ws ! i) \<noteq> CLOSED)"

section \<open>Lemmas\<close>

lemma ws_send_open [simp]:
  "readyState w = OPEN \<Longrightarrow> ws_send v w = Inr (w\<lparr>sent := sent w @ [v]\<rparr>)"
  by (simp add: ws_send_def)

lemma ws_send_Inl_iff:
  "(\<exists>e. ws_send v w = Inl e) \<longleftrightarrow> readyState w = CONNECTING"
  by (simp add: ws_send_def split: ready_state.splits)

lemma ws_send_Inr_sent:
  "ws_send v w = Inr w' \<Longrightarrow> readyState w' = readyState w \<and> handlerConfig w' = handlerConfig w \<and>
     (sent w' = sent w @ [v] \<and> readyState w = OPEN \<or> sent w' = sent w \<and> readyState w \<noteq> OPEN)"
  by (auto simp: ws_send_def split: ready_state.splits)

lemma ws_close_fields [simp]:
  "sent (ws_close c r w) = sent w"
  "handlerConfig (ws_close c r w) = handlerConfig w"
  "url (ws_close c r w) = url w"
  by (simp_all add: ws_close_def)

lemma readyState_ws_close:
  "readyState (ws_close c r w) = (if readyState w \<in> {CONNECTING, OPEN} then CLOSING else readyState w)"
  by (simp add: ws_close_def)

lemmas url_eval = ws_url_valid_def url_strip_def url_c0_space_def split_scheme_def scheme_char_def
  ascii_lower_def authority_ok_def url_slash_def two_slashes_def port_ok_def is_digit_def str_nat_def
  digit_val_def

end
