(* ===== verification/UriEncode.thy ===== *)
theory UriEncode
  imports ChatTypes
begin

text \<open>
  The connection URL that \<open>connect\<close> builds (\<open>useWebSocket.ts\<close>, line 34): the server URL,
  then \<open>?token=\<close> and \<open>&userId=\<close> with the two credentials passed through
  \<open>encodeURIComponent\<close>. Strings are byte lists (UTF-8), so \<open>encodeURIComponent\<close> is
  percent-encoding of every byte outside its unreserved set. The spec's URL convention
  (section 6) is that the server reads both parameters back from the query; the query
  reader below is that convention (the form decoding of a query string), used to state
  what the server receives.
\<close>

section \<open>encodeURIComponent\<close>

definition uri_unreserved :: "char \<Rightarrow> bool" where
  "uri_unreserved c =
    (let n = (of_char c :: nat)
     in (65 \<le> n \<and> n \<le> 90) \<or> (97 \<le> n \<and> n \<le> 122) \<or> (48 \<le> n \<and> n \<le> 57) \<or>
        c \<in> set [CHR ''-'', CHR ''_'', CHR ''.'', CHR ''!'', CHR ''~'', CHR ''*'',
                 CHR 0x27, CHR ''('', CHR '')''])"

definition hex_digit :: "nat \<Rightarrow> char" where
  "hex_digit n = (if n < 10 then char_of (48 + n) else char_of (55 + n))"

definition pct_encode :: "char \<Rightarrow> string" where
  "pct_encode c = [CHR ''%'', hex_digit (of_char c div 16), hex_digit (of_char c mod 16)]"

definition encodeURIComponent :: "string \<Rightarrow> string" where
  "encodeURIComponent s = concat (map (\<lambda>c. if uri_unreserved c then [c] else pct_encode c) s)"

section \<open>The connection URL\<close>

definition ws_url :: "connection_config \<Rightarrow> string" where
  "ws_url cfg = serverUrl cfg @ ''?token='' @ encodeURIComponent (jwtToken cfg) @
                ''&userId='' @ encodeURIComponent (userId cfg)"

section \<open>Reading the query back\<close>

text \<open>
  Percent-decoding with \<open>+\<close> read as a space (form decoding of a query component); a
  \<open>%\<close> not followed by two hex digits is an error.
\<close>

definition hex_val :: "char \<Rightarrow> nat option" where
  "hex_val c =
    (let n = (of_char c :: nat)
     in if 48 \<le> n \<and> n \<le> 57 then Some (n - 48)
        else if 65 \<le> n \<and> n \<le> 70 then Some (n - 55)
        else if 97 \<le> n \<and> n \<le> 102 then Some (n - 87)
        else None)"

fun pct_decode :: "string \<Rightarrow> string option" where
  "pct_decode [] = Some []"
| "pct_decode (c # cs) =
    (if c = CHR ''%'' then
       (case cs of
          h1 # h2 # rest \<Rightarrow>
            (case (hex_val h1, hex_val h2) of
               (Some a, Some b) \<Rightarrow> map_option ((#) (char_of (16 * a + b))) (pct_decode rest)
             | _ \<Rightarrow> None)
        | _ \<Rightarrow> None)
     else if c = CHR ''+'' then map_option ((#) (CHR '' '')) (pct_decode cs)
     else map_option ((#) c) (pct_decode cs))"

fun split_on :: "char \<Rightarrow> string \<Rightarrow> string list" where
  "split_on d [] = [[]]"
| "split_on d (c # cs) =
    (if c = d then [] # split_on d cs
     else (case split_on d cs of w # ws \<Rightarrow> (c # w) # ws | [] \<Rightarrow> [[c]]))"

text \<open>The query of a URL: what follows the first \<open>?\<close> before the fragment.\<close>

definition url_query :: "string \<Rightarrow> string option" where
  "url_query u =
    (let nf = takeWhile (\<lambda>c. c \<noteq> CHR ''#'') u
     in if CHR ''?'' \<in> set nf then Some (tl (dropWhile (\<lambda>c. c \<noteq> CHR ''?'') nf)) else None)"

definition decode_param :: "string \<Rightarrow> (string \<times> string) option" where
  "decode_param p =
    (case (pct_decode (takeWhile (\<lambda>c. c \<noteq> CHR ''='') p),
           pct_decode (drop 1 (dropWhile (\<lambda>c. c \<noteq> CHR ''='') p))) of
       (Some k, Some v) \<Rightarrow> Some (k, v)
     | _ \<Rightarrow> None)"

definition query_params :: "string \<Rightarrow> (string \<times> string) list option" where
  "query_params u =
    (case url_query u of
       None \<Rightarrow> Some []
     | Some q \<Rightarrow> those (map decode_param (split_on (CHR ''&'') q)))"

section \<open>Lemmas\<close>

lemma of_char_div_16 [simp]: "(of_char c :: nat) div 16 < 16"
  using nat_of_char_less_256 [of c] by linarith

lemma hex_val_hex_digit [simp]: "n < 16 \<Longrightarrow> hex_val (hex_digit n) = Some n"
  by (auto simp: hex_val_def hex_digit_def Let_def)

lemma hex_digit_range:
  "n < 16 \<Longrightarrow> ((48::nat) \<le> of_char (hex_digit n) \<and> of_char (hex_digit n) \<le> (57::nat)) \<or>
              ((65::nat) \<le> of_char (hex_digit n) \<and> of_char (hex_digit n) \<le> (70::nat))"
  by (auto simp: hex_digit_def)

lemma unreserved_not_pct_plus:
  "uri_unreserved c \<Longrightarrow> c \<noteq> CHR ''%'' \<and> c \<noteq> CHR ''+''"
  by (auto simp: uri_unreserved_def)

lemma char_of_div_mod_16 [simp]: "char_of (16 * (of_char c div 16) + of_char c mod 16) = (c::char)"
  by (simp add: mult_div_mod_eq)

lemma pct_decode_pct_encode [simp]:
  "pct_decode (pct_encode c @ t) = map_option ((#) c) (pct_decode t)"
  by (simp add: pct_encode_def)

lemma encodeURIComponent_Cons:
  "encodeURIComponent (c # s) = (if uri_unreserved c then [c] else pct_encode c) @ encodeURIComponent s"
  by (simp add: encodeURIComponent_def)

lemma encodeURIComponent_append:
  "encodeURIComponent (s @ t) = encodeURIComponent s @ encodeURIComponent t"
  by (simp add: encodeURIComponent_def)

lemma pct_decode_encode_append:
  "pct_decode (encodeURIComponent s @ t) = map_option ((@) s) (pct_decode t)"
proof (induction s)
  case Nil
  then show ?case by (simp add: encodeURIComponent_def option.map_ident)
next
  case (Cons c s)
  show ?case
  proof (cases "uri_unreserved c")
    case True
    with Cons show ?thesis
      by (simp add: encodeURIComponent_Cons unreserved_not_pct_plus option.map_comp comp_def)
  next
    case False
    with Cons show ?thesis
      by (simp add: encodeURIComponent_Cons option.map_comp comp_def)
  qed
qed

text \<open>The characters of an encoded string: unreserved ones, \<open>%\<close> and hex digits.\<close>

lemma set_pct_encode: "set (pct_encode c) \<subseteq> insert (CHR ''%'') (hex_digit ` {..<16})"
  by (simp add: pct_encode_def)

lemma set_encodeURIComponent:
  "x \<in> set (encodeURIComponent s) \<Longrightarrow>
   uri_unreserved x \<or> x = CHR ''%'' \<or> x \<in> hex_digit ` {..<16}"
  using set_pct_encode by (fastforce simp: encodeURIComponent_def split: if_splits)

lemma delimiter_not_encoded:
  assumes "d \<in> {CHR ''&'', CHR ''='', CHR ''?'', CHR ''#''}"
  shows "d \<notin> set (encodeURIComponent s)"
proof
  assume "d \<in> set (encodeURIComponent s)"
  then have "uri_unreserved d \<or> d = CHR ''%'' \<or> d \<in> hex_digit ` {..<16}"
    by (rule set_encodeURIComponent)
  moreover have "\<not> uri_unreserved d" using assms by (auto simp: uri_unreserved_def)
  moreover have "d \<notin> hex_digit ` {..<16}"
  proof
    assume "d \<in> hex_digit ` {..<16}"
    then obtain n where "n < 16" "d = hex_digit n" by blast
    then show False using assms hex_digit_range [of n] by auto
  qed
  ultimately show False using assms by auto
qed

lemma split_on_no_delim: "d \<notin> set xs \<Longrightarrow> split_on d xs = [xs]"
  by (induction xs) auto

lemma split_on_append_delim:
  "d \<notin> set xs \<Longrightarrow> split_on d (xs @ d # ys) = xs # split_on d ys"
proof (induction xs)
  case Nil
  then show ?case by simp
next
  case (Cons c xs)
  then show ?case by (cases "split_on d (xs @ d # ys)") auto
qed

lemma pct_decode_plain:
  "CHR ''%'' \<notin> set s \<Longrightarrow> CHR ''+'' \<notin> set s \<Longrightarrow> pct_decode s = Some s"
  by (induction s) auto

lemma pct_decode_encodeURIComponent [simp]:
  "pct_decode (encodeURIComponent s) = Some s"
  using pct_decode_encode_append [of s "[]"] by simp

lemma decode_param_encoded:
  assumes "CHR ''='' \<notin> set k" "CHR ''%'' \<notin> set k" "CHR ''+'' \<notin> set k"
  shows "decode_param (k @ CHR ''='' # encodeURIComponent v) = Some (k, v)"
  using assms by (simp add: decode_param_def pct_decode_plain)

lemma url_query_first:
  assumes "CHR ''?'' \<notin> set a" "CHR ''#'' \<notin> set a" "CHR ''#'' \<notin> set q"
  shows "url_query (a @ CHR ''?'' # q) = Some q"
proof -
  from assms have "CHR ''#'' \<notin> set (a @ CHR ''?'' # q)" by simp
  then have "takeWhile (\<lambda>c. c \<noteq> CHR ''#'') (a @ CHR ''?'' # q) = a @ CHR ''?'' # q"
    by (rule takeWhile_no_delim)
  with assms(1) show ?thesis by (simp add: url_query_def)
qed

text \<open>
  C17: for a server URL without \<open>?\<close> and \<open>#\<close>, the query of the URL \<open>connect\<close>
  builds decodes to exactly the two parameters \<open>token\<close> and \<open>userId\<close> with the
  configured values, whatever bytes the token and the user id contain.
\<close>

theorem ws_url_query_params:
  assumes "CHR ''?'' \<notin> set (serverUrl cfg)" and "CHR ''#'' \<notin> set (serverUrl cfg)"
  shows "query_params (ws_url cfg) = Some [(''token'', jwtToken cfg), (''userId'', userId cfg)]"
proof -
  let ?e1 = "encodeURIComponent (jwtToken cfg)" and ?e2 = "encodeURIComponent (userId cfg)"
  have amp: "CHR ''&'' \<notin> set ?e1" "CHR ''&'' \<notin> set ?e2"
    and hash: "CHR ''#'' \<notin> set ?e1" "CHR ''#'' \<notin> set ?e2"
    by (simp_all add: delimiter_not_encoded)
  have "ws_url cfg = serverUrl cfg @ CHR ''?'' # (''token='' @ ?e1 @ CHR ''&'' # ''userId='' @ ?e2)"
    by (simp add: ws_url_def)
  moreover have "url_query \<dots> = Some (''token='' @ ?e1 @ CHR ''&'' # ''userId='' @ ?e2)"
    using assms hash by (intro url_query_first) auto
  moreover have "split_on (CHR ''&'') (''token='' @ ?e1 @ CHR ''&'' # ''userId='' @ ?e2) =
                 [''token='' @ ?e1, ''userId='' @ ?e2]"
    using amp split_on_append_delim [of "CHR ''&''" "''token='' @ ?e1" "''userId='' @ ?e2"]
    by (simp add: split_on_no_delim)
  moreover have "decode_param (''token='' @ ?e1) = Some (''token'', jwtToken cfg)"
    using decode_param_encoded [of "''token''" "jwtToken cfg"] by simp
  moreover have "decode_param (''userId='' @ ?e2) = Some (''userId'', userId cfg)"
    using decode_param_encoded [of "''userId''" "userId cfg"] by simp
  ultimately show ?thesis by (simp add: query_params_def)
qed

theorem ws_url_query_params_witness:
  "query_params (ws_url \<lparr>serverUrl = ''ws://x/chat'', jwtToken = ''a&b=c'', userId = ''u 1'', recipientId = ''u2''\<rparr>) =
   Some [(''token'', ''a&b=c''), (''userId'', ''u 1'')]"
  using ws_url_query_params [of "\<lparr>serverUrl = ''ws://x/chat'', jwtToken = ''a&b=c'', userId = ''u 1'', recipientId = ''u2''\<rparr>"]
  by simp

lemma pct_decode_append_nopct:
  "CHR ''%'' \<notin> set x \<Longrightarrow>
   \<exists>x'. length x' = length x \<and> pct_decode (x @ y) = map_option ((@) x') (pct_decode y)"
proof (induction x)
  case Nil
  then show ?case by (cases "pct_decode y") simp_all
next
  case (Cons c x)
  then obtain x' where "length x' = length x" "pct_decode (x @ y) = map_option ((@) x') (pct_decode y)"
    by auto
  moreover from Cons.prems have "c \<noteq> CHR ''%''" by auto
  ultimately show ?case
    by (intro exI [of _ "(if c = CHR ''+'' then CHR '' '' else c) # x'"]) (simp add: option.map_comp comp_def)
qed

lemma first_param_not_token:
  assumes q: "CHR ''%'' \<notin> set q" "CHR ''&'' \<notin> set q"
  shows "\<exists>p. decode_param (q @ ''?token='' @ encodeURIComponent t) = Some p \<and> p \<noteq> (''token'', t)"
proof (cases "CHR ''='' \<in> set q")
  case False
  from False have nq: "\<forall>c \<in> set q. c \<noteq> CHR ''=''" by auto
  have k: "takeWhile (\<lambda>c. c \<noteq> CHR ''='') (q @ ''?token='' @ encodeURIComponent t) = q @ ''?token''"
    by (simp only: takeWhile_append2 [OF nq [rule_format]]) simp
  have v: "drop 1 (dropWhile (\<lambda>c. c \<noteq> CHR ''='') (q @ ''?token='' @ encodeURIComponent t)) =
           encodeURIComponent t"
    by (simp only: dropWhile_append2 [OF nq [rule_format]]) simp
  have nq1: "CHR ''%'' \<notin> set (q @ ''?token'')" using q(1) by simp
  from pct_decode_append_nopct [OF nq1, of "[]"] obtain k' where
    kl: "length k' = length (q @ ''?token'')"
    and kd: "pct_decode ((q @ ''?token'') @ []) = map_option ((@) k') (pct_decode [])" by blast
  from kd have "pct_decode (q @ ''?token'') = Some k'" by simp
  moreover from kl have "k' \<noteq> ''token''" by auto
  ultimately show ?thesis using k v by (auto simp: decode_param_def)
next
  case True
  let ?k = "takeWhile (\<lambda>c. c \<noteq> CHR ''='') q" and ?v = "drop 1 (dropWhile (\<lambda>c. c \<noteq> CHR ''='') q)"
  have k: "takeWhile (\<lambda>c. c \<noteq> CHR ''='') (q @ ''?token='' @ encodeURIComponent t) = ?k"
    using True by (simp add: takeWhile_append1)
  have dw: "dropWhile (\<lambda>c. c \<noteq> CHR ''='') q \<noteq> []" using True by (simp add: dropWhile_eq_Nil_conv)
  have dl: "Suc 0 - length (dropWhile (\<lambda>c. c \<noteq> CHR ''='') q) = 0"
    using dw by (cases "dropWhile (\<lambda>c. c \<noteq> CHR ''='') q") simp_all
  have v: "drop 1 (dropWhile (\<lambda>c. c \<noteq> CHR ''='') (q @ ''?token='' @ encodeURIComponent t)) =
           ?v @ ''?token='' @ encodeURIComponent t"
    using True dl by (simp add: dropWhile_append1)
  have "CHR ''%'' \<notin> set ?k" using q(1) by (meson set_takeWhileD)
  from pct_decode_append_nopct [of ?k "[]", OF this] obtain k' where kd: "pct_decode ?k = Some k'" by auto
  have "CHR ''%'' \<notin> set ?v" using q(1) by (meson in_set_dropD set_dropWhileD)
  then have "CHR ''%'' \<notin> set (?v @ ''?token='')" by simp
  from pct_decode_append_nopct [of "?v @ ''?token=''" "encodeURIComponent t", OF this]
  obtain v' where vl: "length v' = length (?v @ ''?token='')"
    and vd: "pct_decode ((?v @ ''?token='') @ encodeURIComponent t) = map_option ((@) v') (pct_decode (encodeURIComponent t))"
    by blast
  from vl have "v' \<noteq> []" by auto
  moreover from vd have "pct_decode (?v @ ''?token='' @ encodeURIComponent t) = Some (v' @ t)" by simp
  ultimately show ?thesis using k v kd by (auto simp: decode_param_def)
qed

text \<open>
  C18: the query is appended with a literal \<open>?\<close>. For a server URL that already has a
  query of one component (no \<open>#\<close>, \<open>&\<close> or \<open>%\<close> in it), the token lands inside that
  first parameter: the server receives exactly two parameters, the second is \<open>userId\<close>
  with the configured value, and the first is never \<open>token\<close> with the configured token.
\<close>

theorem server_query_swallows_token:
  assumes "serverUrl cfg = b @ CHR ''?'' # q" and "CHR ''?'' \<notin> set b" and "CHR ''#'' \<notin> set b"
    and "CHR ''#'' \<notin> set q" and "CHR ''&'' \<notin> set q" and "CHR ''%'' \<notin> set q"
  shows "\<exists>p. query_params (ws_url cfg) = Some [p, (''userId'', userId cfg)] \<and> p \<noteq> (''token'', jwtToken cfg)"
proof -
  let ?e1 = "encodeURIComponent (jwtToken cfg)" and ?e2 = "encodeURIComponent (userId cfg)"
  let ?q = "q @ ''?token='' @ ?e1 @ CHR ''&'' # ''userId='' @ ?e2"
  have amp: "CHR ''&'' \<notin> set ?e1" "CHR ''&'' \<notin> set ?e2"
    and hash: "CHR ''#'' \<notin> set ?e1" "CHR ''#'' \<notin> set ?e2"
    by (simp_all add: delimiter_not_encoded)
  have "ws_url cfg = b @ CHR ''?'' # ?q" using assms(1) by (simp add: ws_url_def)
  moreover have "url_query (b @ CHR ''?'' # ?q) = Some ?q"
    using assms(2-4) hash by (intro url_query_first) auto
  moreover have "split_on (CHR ''&'') ?q = [q @ ''?token='' @ ?e1, ''userId='' @ ?e2]"
    using amp assms(5) split_on_append_delim [of "CHR ''&''" "q @ ''?token='' @ ?e1" "''userId='' @ ?e2"]
    by (simp add: split_on_no_delim)
  moreover have "decode_param (''userId='' @ ?e2) = Some (''userId'', userId cfg)"
    using decode_param_encoded [of "''userId''" "userId cfg"] by simp
  moreover obtain p where "decode_param (q @ ''?token='' @ ?e1) = Some p" "p \<noteq> (''token'', jwtToken cfg)"
    using first_param_not_token [OF assms(6,5)] by blast
  ultimately show ?thesis by (simp add: query_params_def)
qed

theorem server_query_swallows_token_witness:
  "serverUrl \<lparr>serverUrl = ''ws://x/chat?room=1'', jwtToken = ''t'', userId = ''u1'', recipientId = ''u2''\<rparr> =
     ''ws://x/chat'' @ CHR ''?'' # ''room=1'' \<and>
   (\<exists>p. query_params (ws_url \<lparr>serverUrl = ''ws://x/chat?room=1'', jwtToken = ''t'', userId = ''u1'', recipientId = ''u2''\<rparr>) =
        Some [p, (''userId'', ''u1'')] \<and> p \<noteq> (''token'', ''t''))"
  using server_query_swallows_token [of "\<lparr>serverUrl = ''ws://x/chat?room=1'', jwtToken = ''t'', userId = ''u1'', recipientId = ''u2''\<rparr>"
      "''ws://x/chat''" "''room=1''"]
  by simp

end
