(* ===== verification/UseWebSocket.thy ===== *)
theory UseWebSocket
  imports Transport UriEncode
begin

text \<open>
  The connection hook \<open>useWebSocket\<close> (\<open>src/src/hooks/useWebSocket.ts\<close>). Its state is the
  React state \<open>state\<close>, the two refs \<open>websocketRef\<close> and \<open>configRef\<close>, the sockets it
  has created (each with the handler closures of the \<open>connect\<close> call that created it)
  and the notifications it has shown through \<open>toast\<close>. Every exported function and every
  socket handler is one state transformer; \<open>hook_step\<close> runs one API call or one browser
  event, \<open>None\<close> when the browser could not deliver that event.
\<close>

section \<open>State\<close>

record toast =
  title :: string
  description :: string
  destructive :: bool

record hook =
  state :: chat_state
  websocketRef :: "sock_id option"
  configRef :: "connection_config option"
  sockets :: "websocket list"
  toasts :: "toast list"

definition initial_hook :: hook where
  "initial_hook = \<lparr>state = initial_chat_state, websocketRef = None, configRef = None,
                   sockets = [], toasts = []\<rparr>"

definition emit :: "string \<Rightarrow> string \<Rightarrow> bool \<Rightarrow> hook \<Rightarrow> hook" where
  "emit t d v h = h\<lparr>toasts := toasts h @ [\<lparr>title = t, description = d, destructive = v\<rparr>]\<rparr>"

text \<open>\<open>websocketRef.current?.readyState === WebSocket.OPEN\<close>.\<close>

definition ref_open :: "hook \<Rightarrow> bool" where
  "ref_open h =
    (case websocketRef h of
       None \<Rightarrow> False
     | Some i \<Rightarrow> i < length (sockets h) \<and> readyState (sockets h ! i) = OPEN)"

section \<open>disconnect (lines 188-194)\<close>

definition disconnect :: "hook \<Rightarrow> hook" where
  "disconnect h =
    (case websocketRef h of
       Some i \<Rightarrow> h\<lparr>sockets := upd_at i (ws_close 1000 ''Manual disconnect'') (sockets h),
                  websocketRef := None\<rparr>
     | None \<Rightarrow> h)\<lparr>configRef := None\<rparr>"

section \<open>connect (lines 17-147)\<close>

text \<open>
  Tear down the current socket only if it is open, reset the state, remember the
  configuration, then create the socket; a constructor exception is caught (lines 134-146).
\<close>

definition connect :: "connection_config \<Rightarrow> hook \<Rightarrow> hook" where
  "connect cfg h =
    (let h1 = (if ref_open h then disconnect h else h);
         h2 = h1\<lparr>state := (state h1)\<lparr>isConnecting := True, error := None, messages := []\<rparr>,
                 configRef := Some cfg\<rparr>
     in case new_websocket (ws_url cfg) cfg of
          Inr w \<Rightarrow> h2\<lparr>sockets := sockets h2 @ [w], websocketRef := Some (length (sockets h2))\<rparr>
        | Inl _ \<Rightarrow> emit ''Connection Failed'' ''Unable to create WebSocket connection'' True
                     (h2\<lparr>state := (state h2)\<lparr>error := Some ''Failed to create WebSocket connection'',
                                              isConnecting := False\<rparr>\<rparr>))"

section \<open>The socket handlers (lines 39-132)\<close>

text \<open>The backlog request \<open>onopen\<close> sends (lines 53-56).\<close>

definition backlog_request :: "string \<Rightarrow> jsval" where
  "backlog_request uid = Obj [(''type'', Str ''get_recent_messages''), (''userId'', Str uid)]"

text \<open>
  \<open>onopen\<close> of socket \<open>i\<close>: mark the state connected, show a toast, and send the backlog
  request on the socket itself with the user id of the closure's configuration. A throwing
  \<open>send\<close> would escape the handler after the state update.
\<close>

definition on_open :: "sock_id \<Rightarrow> hook \<Rightarrow> hook" where
  "on_open i h =
    (let h1 = emit ''Connected'' ''Successfully connected to chat server'' False
                (h\<lparr>state := (state h)\<lparr>isConnected := True, isConnecting := False, error := None\<rparr>\<rparr>);
         w = sockets h1 ! i
     in case ws_send (backlog_request (userId (handlerConfig w))) w of
          Inr w' \<Rightarrow> h1\<lparr>sockets := (sockets h1)[i := w']\<rparr>
        | Inl _ \<Rightarrow> h1)"

definition on_ws_message :: "ms \<Rightarrow> inbound \<Rightarrow> hook \<Rightarrow> hook" where
  "on_ws_message now fr h = h\<lparr>state := on_message now fr (state h)\<rparr>"

definition on_error :: "hook \<Rightarrow> hook" where
  "on_error h =
    emit ''Connection Error'' ''Failed to connect to chat server'' True
      (h\<lparr>state := (state h)\<lparr>error := Some ''Connection error occurred'', isConnecting := False\<rparr>\<rparr>)"

text \<open>\<open>event.reason || 'Unknown reason'\<close>.\<close>

definition reason_text :: "string \<Rightarrow> string" where
  "reason_text r = (if r = [] then ''Unknown reason'' else r)"

definition on_close :: "nat \<Rightarrow> string \<Rightarrow> hook \<Rightarrow> hook" where
  "on_close code reason h =
    (let h1 = h\<lparr>state := (state h)\<lparr>isConnected := False, isConnecting := False,
                 error := (if code \<noteq> 1000 then Some (''Connection closed: '' @ reason_text reason)
                           else None)\<rparr>\<rparr>
     in if code \<noteq> 1000
        then emit ''Disconnected'' (''Connection lost: '' @ reason_text reason) True h1
        else emit ''Disconnected'' ''Successfully disconnected from chat server'' False h1)"

section \<open>sendMessage (lines 149-186)\<close>

text \<open>The outbound chat envelope (lines 169-175).\<close>

definition chat_envelope :: "string \<Rightarrow> string \<Rightarrow> string \<Rightarrow> ms \<Rightarrow> jsval" where
  "chat_envelope c to_id from_id now =
    Obj [(''type'', Str ''message''), (''content'', Str c), (''toId'', Str to_id),
         (''fromId'', Str from_id), (''timestamp'', Str (iso_string now))]"

definition sendMessage :: "string \<Rightarrow> string \<Rightarrow> ms \<Rightarrow> hook \<Rightarrow> hook" where
  "sendMessage c to_id now h =
    (case websocketRef h of
       None \<Rightarrow> emit ''Not Connected'' ''Please connect to the server first'' True h
     | Some i \<Rightarrow>
         if \<not> (i < length (sockets h) \<and> readyState (sockets h ! i) = OPEN)
         then emit ''Not Connected'' ''Please connect to the server first'' True h
         else (case configRef h of
                 None \<Rightarrow> emit ''Configuration Missing'' ''Connection configuration is missing'' True h
               | Some cfg \<Rightarrow>
                   (case ws_send (chat_envelope c to_id (userId cfg) now) (sockets h ! i) of
                      Inr w \<Rightarrow> h\<lparr>sockets := (sockets h)[i := w]\<rparr>
                    | Inl _ \<Rightarrow> emit ''Send Failed'' ''Failed to send message'' True h)))"

section \<open>Steps\<close>

text \<open>
  A browser event moves the socket's \<open>readyState\<close> and runs its handlers: \<open>onopen\<close>;
  \<open>onmessage\<close>; \<open>onerror\<close> (when the connection failed) then \<open>onclose\<close>. The handlers
  of every socket stay attached, also after the hook has moved on to a newer socket.
\<close>

definition set_ready :: "sock_id \<Rightarrow> ready_state \<Rightarrow> hook \<Rightarrow> hook" where
  "set_ready i r h = h\<lparr>sockets := upd_at i (\<lambda>w. w\<lparr>readyState := r\<rparr>) (sockets h)\<rparr>"

fun browser_step :: "hook \<Rightarrow> browser_event \<Rightarrow> hook" where
  "browser_step h (WsOpen i) = on_open i (set_ready i OPEN h)"
| "browser_step h (WsMessage i fr now) = on_ws_message now fr h"
| "browser_step h (WsClose i code reason failed) =
     (let h1 = set_ready i CLOSED h in on_close code reason (if failed then on_error h1 else h1))"

text \<open>The calls the interface can make, and the browser's events.\<close>

datatype hook_event =
    Connect connection_config
  | Disconnect
  | SendMessage string string ms
  | Unmount
  | Browser browser_event

fun hook_step :: "hook \<Rightarrow> hook_event \<Rightarrow> hook option" where
  "hook_step h (Connect cfg) = Some (connect cfg h)"
| "hook_step h Disconnect = Some (disconnect h)"
| "hook_step h (SendMessage c to_id now) = Some (sendMessage c to_id now h)"
| "hook_step h Unmount = Some (disconnect h)"
| "hook_step h (Browser e) = (if event_enabled (sockets h) e then Some (browser_step h e) else None)"

fun hook_run :: "hook \<Rightarrow> hook_event list \<Rightarrow> hook option" where
  "hook_run h [] = Some h"
| "hook_run h (e # es) = (case hook_step h e of None \<Rightarrow> None | Some h' \<Rightarrow> hook_run h' es)"

section \<open>Effects of the operations\<close>

lemma emit_fields [simp, handler_simps]:
  "state (emit t d v h) = state h" "sockets (emit t d v h) = sockets h"
  "websocketRef (emit t d v h) = websocketRef h" "configRef (emit t d v h) = configRef h"
  by (simp_all add: emit_def)

lemma disconnect_fields [simp, handler_simps]:
  "state (disconnect h) = state h" "toasts (disconnect h) = toasts h"
  "websocketRef (disconnect h) = None" "configRef (disconnect h) = None"
  by (simp_all add: disconnect_def split: option.splits)

lemma sockets_disconnect:
  "sockets (disconnect h) =
     (case websocketRef h of None \<Rightarrow> sockets h
      | Some i \<Rightarrow> upd_at i (ws_close 1000 ''Manual disconnect'') (sockets h))"
  by (simp add: disconnect_def split: option.splits)

lemma set_ready_fields [simp, handler_simps]:
  "state (set_ready i r h) = state h" "toasts (set_ready i r h) = toasts h"
  "websocketRef (set_ready i r h) = websocketRef h" "configRef (set_ready i r h) = configRef h"
  "sockets (set_ready i r h) = upd_at i (\<lambda>w. w\<lparr>readyState := r\<rparr>) (sockets h)"
  by (simp_all add: set_ready_def)

lemma handler_refs [simp, handler_simps]:
  "websocketRef (on_ws_message now fr h) = websocketRef h" "configRef (on_ws_message now fr h) = configRef h"
  "sockets (on_ws_message now fr h) = sockets h"
  "websocketRef (on_error h) = websocketRef h" "configRef (on_error h) = configRef h"
  "sockets (on_error h) = sockets h"
  "websocketRef (on_close c r h) = websocketRef h" "configRef (on_close c r h) = configRef h"
  "sockets (on_close c r h) = sockets h"
  "websocketRef (on_open i h) = websocketRef h" "configRef (on_open i h) = configRef h"
  by (simp_all add: on_ws_message_def on_error_def on_close_def on_open_def Let_def split: sum.splits)

lemma sockets_on_open:
  "readyState (sockets h ! i) = OPEN \<Longrightarrow>
   sockets (on_open i h) =
     (sockets h)[i := (sockets h ! i)\<lparr>sent := sent (sockets h ! i) @
        [backlog_request (userId (handlerConfig (sockets h ! i)))]\<rparr>]"
  by (simp add: on_open_def Let_def)

lemma sockets_open_step:
  assumes "i < length (sockets h)"
  shows "sockets (browser_step h (WsOpen i)) =
     (sockets h)[i := (sockets h ! i)\<lparr>readyState := OPEN, sent := sent (sockets h ! i) @
        [backlog_request (userId (handlerConfig (sockets h ! i)))]\<rparr>]"
  using assms by (simp add: sockets_on_open upd_at_def)

lemma sockets_sendMessage:
  "sockets (sendMessage c to_id now h) = sockets h \<or>
   (\<exists>i cfg. websocketRef h = Some i \<and> i < length (sockets h) \<and> readyState (sockets h ! i) = OPEN \<and>
      configRef h = Some cfg \<and>
      sockets (sendMessage c to_id now h) =
        (sockets h)[i := (sockets h ! i)\<lparr>sent := sent (sockets h ! i) @ [chat_envelope c to_id (userId cfg) now]\<rparr>])"
  by (auto simp: sendMessage_def split: option.splits if_splits)

lemma refs_sendMessage [simp, handler_simps]:
  "websocketRef (sendMessage c to_id now h) = websocketRef h"
  "configRef (sendMessage c to_id now h) = configRef h"
  "state (sendMessage c to_id now h) = state h"
  by (auto simp: sendMessage_def split: option.splits sum.splits)

lemma length_sockets_sendMessage [simp]:
  "length (sockets (sendMessage c to_id now h)) = length (sockets h)"
  using sockets_sendMessage [of c to_id now h] by auto

lemma length_sockets_browser_step [simp]:
  "length (sockets (browser_step h e)) = length (sockets h)"
  by (cases e) (simp_all add: on_open_def on_ws_message_def on_error_def on_close_def Let_def
                   split: sum.splits)

lemma refs_browser_step [simp]:
  "websocketRef (browser_step h e) = websocketRef h"
  "configRef (browser_step h e) = configRef h"
  by (cases e; simp add: Let_def)+

lemma length_sockets_disconnect [simp]: "length (sockets (disconnect h)) = length (sockets h)"
  by (simp add: sockets_disconnect split: option.splits)

text \<open>The two outcomes of \<open>connect\<close>, after the teardown of an open socket.\<close>

lemma connect_Inr:
  "new_websocket (ws_url cfg) cfg = Inr w \<Longrightarrow>
   sockets (connect cfg h) = sockets (if ref_open h then disconnect h else h) @ [w] \<and>
   websocketRef (connect cfg h) = Some (length (sockets h))"
  by (simp add: connect_def Let_def)

lemma connect_Inl:
  "new_websocket (ws_url cfg) cfg = Inl e \<Longrightarrow>
   sockets (connect cfg h) = sockets (if ref_open h then disconnect h else h) \<and>
   websocketRef (connect cfg h) = (if ref_open h then None else websocketRef h)"
  by (simp add: connect_def Let_def)

lemma configRef_connect [simp]: "configRef (connect cfg h) = Some cfg"
  by (simp add: connect_def Let_def split: sum.splits)

lemma new_websocket_Inr:
  "new_websocket u cfg = Inr w \<Longrightarrow>
   readyState w = CONNECTING \<and> sent w = [] \<and> handlerConfig w = cfg \<and> closeCall w = None \<and> url w = u"
  by (auto simp: new_websocket_def split: if_splits)

end
