(* ===== verification/HookInvariants.thy ===== *)
theory HookInvariants
  imports UseWebSocket
begin

text \<open>
  Reachable states of the hook \<open>useWebSocket\<close> and the invariants that hold in all of
  them, whatever order the interface calls the hook's functions in and whatever the
  browser delivers: the reference names a created socket and comes with a
  configuration, and every socket's first frame is the backlog request carrying the user
  id of the configuration its handlers captured (a connecting socket has sent nothing, an
  open one has sent at least that request).
\<close>

section \<open>Reachable states\<close>

inductive hook_reach :: "hook \<Rightarrow> bool" where
  init: "hook_reach initial_hook"
| step: "hook_reach h \<Longrightarrow> hook_step h e = Some h' \<Longrightarrow> hook_reach h'"

definition refs_wf :: "hook \<Rightarrow> bool" where
  "refs_wf h \<longleftrightarrow> (\<forall>i. websocketRef h = Some i \<longrightarrow> i < length (sockets h) \<and> configRef h \<noteq> None)"

definition sock_ok :: "websocket \<Rightarrow> bool" where
  "sock_ok w \<longleftrightarrow>
     (readyState w = CONNECTING \<longrightarrow> sent w = []) \<and>
     (readyState w = OPEN \<longrightarrow> sent w \<noteq> []) \<and>
     (sent w \<noteq> [] \<longrightarrow> hd (sent w) = backlog_request (userId (handlerConfig w)))"

definition socks_ok :: "hook \<Rightarrow> bool" where
  "socks_ok h \<longleftrightarrow> (\<forall>w \<in> set (sockets h). sock_ok w)"

section \<open>The references\<close>

lemma refs_wf_initial: "refs_wf initial_hook"
  by (simp add: refs_wf_def initial_hook_def)

lemma refs_wf_teardown:
  "refs_wf h \<Longrightarrow> websocketRef (if ref_open h then disconnect h else h) = Some i \<Longrightarrow>
   i < length (sockets h)"
  by (auto simp: refs_wf_def split: if_splits)

lemma refs_wf_connect:
  assumes "refs_wf h"
  shows "refs_wf (connect cfg h)"
proof (cases "new_websocket (ws_url cfg) cfg")
  case (Inr w)
  then show ?thesis by (simp add: refs_wf_def connect_Inr)
next
  case (Inl e)
  then show ?thesis
    using refs_wf_teardown [OF assms] by (simp add: refs_wf_def connect_Inl)
qed

lemma refs_wf_step: "refs_wf h \<Longrightarrow> hook_step h e = Some h' \<Longrightarrow> refs_wf h'"
proof (cases e)
  case (Connect cfg)
  assume "refs_wf h" "hook_step h e = Some h'"
  with Connect show ?thesis by (auto intro: refs_wf_connect)
next
  case (Browser b)
  assume "refs_wf h" "hook_step h e = Some h'"
  with Browser show ?thesis by (auto simp: refs_wf_def split: if_splits)
qed (auto simp: refs_wf_def)

section \<open>The frames of each socket\<close>

lemma sock_ok_ws_close: "sock_ok w \<Longrightarrow> sock_ok (ws_close c r w)"
  by (simp add: sock_ok_def readyState_ws_close)

lemma sock_ok_closed: "sock_ok w \<Longrightarrow> sock_ok (w\<lparr>readyState := CLOSED\<rparr>)"
  by (simp add: sock_ok_def)

lemma sock_ok_append:
  "sock_ok w \<Longrightarrow> readyState w = OPEN \<Longrightarrow> sock_ok (w\<lparr>sent := sent w @ [v]\<rparr>)"
  by (simp add: sock_ok_def)

lemma socks_ok_initial: "socks_ok initial_hook"
  by (simp add: socks_ok_def initial_hook_def)

lemma socks_ok_disconnect:
  assumes "socks_ok h"
  shows "socks_ok (disconnect h)"
proof (cases "websocketRef h")
  case None
  with assms show ?thesis by (simp add: socks_ok_def sockets_disconnect)
next
  case (Some i)
  from assms have "\<forall>w \<in> set (sockets h). sock_ok w" by (simp add: socks_ok_def)
  then have "\<forall>w \<in> set (upd_at i (ws_close 1000 ''Manual disconnect'') (sockets h)). sock_ok w"
    by (rule upd_at_preserves) (rule sock_ok_ws_close)
  with Some show ?thesis by (simp add: socks_ok_def sockets_disconnect)
qed

lemma socks_ok_new:
  "new_websocket u cfg = Inr w \<Longrightarrow> sock_ok w"
  by (simp add: sock_ok_def new_websocket_Inr)

lemma socks_ok_connect:
  assumes "socks_ok h"
  shows "socks_ok (connect cfg h)"
proof -
  have ok1: "\<forall>w \<in> set (sockets (if ref_open h then disconnect h else h)). sock_ok w"
    using assms socks_ok_disconnect [OF assms] by (simp add: socks_ok_def)
  show ?thesis
  proof (cases "new_websocket (ws_url cfg) cfg")
    case (Inr w)
    then have "sock_ok w" by (rule socks_ok_new)
    with ok1 Inr show ?thesis by (simp add: socks_ok_def connect_Inr)
  next
    case (Inl e)
    with ok1 show ?thesis by (simp add: socks_ok_def connect_Inl)
  qed
qed

lemma socks_ok_sendMessage:
  assumes ok: "socks_ok h"
  shows "socks_ok (sendMessage c to_id now h)"
proof (cases "sockets (sendMessage c to_id now h) = sockets h")
  case True
  with ok show ?thesis by (simp add: socks_ok_def)
next
  case False
  then obtain i and cfg :: connection_config where
    i: "i < length (sockets h)" and op: "readyState (sockets h ! i) = OPEN"
    and eq: "sockets (sendMessage c to_id now h) =
      (sockets h)[i := (sockets h ! i)\<lparr>sent := sent (sockets h ! i) @ [chat_envelope c to_id (userId cfg) now]\<rparr>]"
    using sockets_sendMessage [of c to_id now h] by blast
  from ok i have "sock_ok (sockets h ! i)" by (simp add: socks_ok_def)
  then have new: "sock_ok ((sockets h ! i)\<lparr>sent := sent (sockets h ! i) @ [chat_envelope c to_id (userId cfg) now]\<rparr>)"
    using op by (rule sock_ok_append)
  from ok have "\<forall>w \<in> set (sockets h). sock_ok w" by (simp add: socks_ok_def)
  then show ?thesis
    unfolding socks_ok_def eq using new by (rule list_update_preserves)
qed

lemma socks_ok_open:
  assumes "socks_ok h" and "i < length (sockets h)" and "readyState (sockets h ! i) = CONNECTING"
  shows "socks_ok (browser_step h (WsOpen i))"
proof -
  let ?w = "sockets h ! i"
  have "sock_ok ?w" using assms(1,2) by (simp add: socks_ok_def)
  with assms(3) have "sent ?w = []" by (simp add: sock_ok_def)
  then have "sock_ok (?w\<lparr>readyState := OPEN,
                   sent := sent ?w @ [backlog_request (userId (handlerConfig ?w))]\<rparr>)"
    by (simp add: sock_ok_def)
  moreover from assms(1) have "\<forall>w \<in> set (sockets h). sock_ok w" by (simp add: socks_ok_def)
  ultimately show ?thesis
    unfolding socks_ok_def sockets_open_step [OF assms(2)] by (intro list_update_preserves)
qed

lemma sockets_close_step:
  "sockets (browser_step h (WsClose i code reason failed)) =
   upd_at i (\<lambda>w. w\<lparr>readyState := CLOSED\<rparr>) (sockets h)"
  by (simp add: Let_def)

lemma socks_ok_close:
  assumes "socks_ok h"
  shows "socks_ok (browser_step h (WsClose i code reason failed))"
proof -
  from assms have "\<forall>w \<in> set (sockets h). sock_ok w" by (simp add: socks_ok_def)
  then have "\<forall>w \<in> set (upd_at i (\<lambda>w. w\<lparr>readyState := CLOSED\<rparr>) (sockets h)). sock_ok w"
    by (rule upd_at_preserves) (rule sock_ok_closed)
  then show ?thesis by (simp only: socks_ok_def sockets_close_step)
qed

lemma socks_ok_browser:
  assumes ok: "socks_ok h" and en: "event_enabled (sockets h) b"
  shows "socks_ok (browser_step h b)"
proof (cases b)
  case (WsOpen i)
  from en WsOpen have "i < length (sockets h)" "readyState (sockets h ! i) = CONNECTING"
    by (simp_all add: event_enabled_def)
  with ok have "socks_ok (browser_step h (WsOpen i))" by (rule socks_ok_open)
  with WsOpen show ?thesis by (simp only:)
next
  case (WsMessage i fr now)
  with ok show ?thesis by (simp add: socks_ok_def on_ws_message_def)
next
  case (WsClose i code reason failed)
  from ok have "socks_ok (browser_step h (WsClose i code reason failed))" by (rule socks_ok_close)
  with WsClose show ?thesis by (simp only:)
qed

lemma socks_ok_step: "socks_ok h \<Longrightarrow> hook_step h e = Some h' \<Longrightarrow> socks_ok h'"
proof (cases e)
  case (Browser b)
  assume "socks_ok h" "hook_step h e = Some h'"
  with Browser show ?thesis by (auto intro: socks_ok_browser split: if_splits)
qed (auto intro: socks_ok_connect socks_ok_disconnect socks_ok_sendMessage)

section \<open>Invariants of the reachable states\<close>

lemma hook_reach_invariants: "hook_reach h \<Longrightarrow> refs_wf h \<and> socks_ok h"
proof (induction rule: hook_reach.induct)
  case init
  show ?case by (simp add: refs_wf_initial socks_ok_initial)
next
  case (step h e h')
  then show ?case by (blast intro: refs_wf_step socks_ok_step)
qed

lemma hook_run_reach: "hook_reach h \<Longrightarrow> hook_run h es = Some h' \<Longrightarrow> hook_reach h'"
proof (induction es arbitrary: h)
  case Nil
  then show ?case by simp
next
  case (Cons e es)
  then show ?case by (auto intro: hook_reach.step split: option.splits)
qed

lemma hook_reach_refs: "hook_reach h \<Longrightarrow> websocketRef h = Some i \<Longrightarrow> i < length (sockets h) \<and> (\<exists>cfg. configRef h = Some cfg)"
  using hook_reach_invariants by (auto simp: refs_wf_def)

section \<open>Evaluating concrete runs\<close>

text \<open>The definitions \<open>simp\<close> unfolds to run the hook on a concrete list of events.\<close>

lemmas hook_eval =
  initial_hook_def initial_chat_state_def connect_def disconnect_def ref_open_def ws_url_def
  encodeURIComponent_def uri_unreserved_def new_websocket_def url_eval event_enabled_def
  on_open_def on_error_def on_close_def reason_text_def on_ws_message_def emit_def set_ready_def
  upd_at_def backlog_request_def sendMessage_def ws_send_def ws_close_def chat_envelope_def

end

