(* ===== verification/HookProperties.thy ===== *)
theory HookProperties
  imports HookInvariants
begin

text \<open>
  The properties of the connection hook \<open>useWebSocket\<close> on its own: what its handlers
  and functions do on every branch, the invariant that the backlog request is the first
  frame of every socket, and the runs that show where the hook, called directly in an
  order the interface does not use, departs from the spec (a second \<open>connect\<close> while a
  socket is still connecting, stale handlers of a replaced socket, the sender id taken
  from the latest configuration).
\<close>

section \<open>The backlog request comes first\<close>

text \<open>
  C1: in every reachable state of the hook, every socket that has written anything wrote
  the \<open>get_recent_messages\<close> request first, carrying the user id of the configuration
  that created the socket; so no chat message ever precedes the backlog request.
\<close>

theorem backlog_request_first:
  assumes "hook_reach h" and "w \<in> set (sockets h)" and "sent w \<noteq> []"
  shows "hd (sent w) = backlog_request (userId (handlerConfig w))"
proof -
  from assms(1) have "socks_ok h" by (simp add: hook_reach_invariants)
  with assms(2) have "sock_ok w" by (simp add: socks_ok_def)
  with assms(3) show ?thesis by (simp add: sock_ok_def)
qed

theorem backlog_request_first_witness:
  "\<exists>h. hook_reach h \<and> sockets h \<noteq> [] \<and> sent (hd (sockets h)) \<noteq> [] \<and>
       hd (sent (hd (sockets h))) = backlog_request ''u1''"
proof -
  let ?cfg = "\<lparr>serverUrl = ''ws://x'', jwtToken = ''t'', userId = ''u1'', recipientId = ''u2''\<rparr>"
  obtain h where run: "hook_run initial_hook [Connect ?cfg, Browser (WsOpen 0), SendMessage ''hi'' ''u2'' 0] = Some h"
    by (simp add: hook_eval)
  have reach: "hook_reach h" using hook_reach.init run by (rule hook_run_reach)
  from run have socks: "sockets h \<noteq> []" "sent (hd (sockets h)) \<noteq> []"
    "handlerConfig (hd (sockets h)) = ?cfg"
    by (auto simp: hook_eval)
  then have "hd (sent (hd (sockets h))) = backlog_request (userId (handlerConfig (hd (sockets h))))"
    by (intro backlog_request_first [OF reach]) simp_all
  with reach socks show ?thesis by auto
qed

section \<open>sendMessage\<close>

text \<open>
  C2: in a reachable state whose current socket is open, \<open>sendMessage\<close> writes exactly
  one chat envelope to that socket, with the user id of the current configuration as
  sender and the caller's content and recipient, and shows no error: the
  "Configuration Missing" and "Send Failed" branches cannot be taken.
\<close>

theorem sendMessage_open_writes:
  assumes "hook_reach h" and "websocketRef h = Some i" and "readyState (sockets h ! i) = OPEN"
  shows "\<exists>cfg. configRef h = Some cfg \<and>
     sockets (sendMessage c to_id now h) =
       (sockets h)[i := (sockets h ! i)\<lparr>sent := sent (sockets h ! i) @ [chat_envelope c to_id (userId cfg) now]\<rparr>] \<and>
     toasts (sendMessage c to_id now h) = toasts h"
proof -
  from hook_reach_refs [OF assms(1,2)] obtain cfg where
    "i < length (sockets h)" and cfg: "configRef h = Some cfg" by blast
  with assms(2,3) show ?thesis by (simp add: sendMessage_def)
qed

theorem sendMessage_open_writes_witness:
  "\<exists>h. hook_reach h \<and> websocketRef h = Some 0 \<and> readyState (sockets h ! 0) = OPEN \<and>
       sent (sockets (sendMessage ''hello'' ''u2'' 0 h) ! 0) =
         [backlog_request ''u1'', chat_envelope ''hello'' ''u2'' ''u1'' 0]"
proof -
  let ?cfg = "\<lparr>serverUrl = ''ws://x'', jwtToken = ''t'', userId = ''u1'', recipientId = ''u2''\<rparr>"
  obtain h where run: "hook_run initial_hook [Connect ?cfg, Browser (WsOpen 0)] = Some h"
    by (simp add: hook_eval)
  have reach: "hook_reach h" using hook_reach.init run by (rule hook_run_reach)
  from run have h: "websocketRef h = Some 0" "readyState (sockets h ! 0) = OPEN"
    "configRef h = Some ?cfg" "sockets h \<noteq> []" "sent (sockets h ! 0) = [backlog_request ''u1'']"
    by (auto simp: hook_eval)
  from sendMessage_open_writes [OF reach h(1,2), of "''hello''" "''u2''" 0] h
  have "sent (sockets (sendMessage ''hello'' ''u2'' 0 h) ! 0) =
          [backlog_request ''u1'', chat_envelope ''hello'' ''u2'' ''u1'' 0]"
    by auto
  with reach h show ?thesis by blast
qed

text \<open>
  C3: when the current socket is missing or not open, \<open>sendMessage\<close> writes nothing,
  leaves the state alone and only shows the "Not Connected" notification.
\<close>

theorem sendMessage_rejected:
  assumes "\<not> ref_open h"
  shows "sendMessage c to_id now h = emit ''Not Connected'' ''Please connect to the server first'' True h"
  using assms by (auto simp: sendMessage_def ref_open_def split: option.splits)

theorem sendMessage_rejected_witness:
  "\<not> ref_open initial_hook \<and>
   sendMessage ''hello'' ''u2'' 0 initial_hook =
     emit ''Not Connected'' ''Please connect to the server first'' True initial_hook"
proof -
  have "\<not> ref_open initial_hook" by (simp add: ref_open_def initial_hook_def)
  with sendMessage_rejected [of initial_hook] show ?thesis by simp
qed

section \<open>Closing\<close>

text \<open>
  C4: a close event with the normal code 1000 on any socket leaves the hook neither
  connected nor connecting and clears the error, also when the connection failed and
  \<open>onerror\<close> ran first.
\<close>

theorem close_normal_clears:
  assumes "hook_step h (Browser (WsClose i 1000 reason failed)) = Some h'"
  shows "\<not> isConnected (state h') \<and> \<not> isConnecting (state h') \<and> error (state h') = None"
  using assms by (auto simp: Let_def on_close_def on_error_def split: if_splits)

theorem close_normal_clears_witness:
  "\<exists>h'. hook_step (connect \<lparr>serverUrl = ''ws://x'', jwtToken = ''t'', userId = ''u1'', recipientId = ''u2''\<rparr>
            initial_hook) (Browser (WsClose 0 1000 [] False)) = Some h' \<and>
        \<not> isConnected (state h') \<and> \<not> isConnecting (state h') \<and> error (state h') = None"
proof -
  let ?h = "connect \<lparr>serverUrl = ''ws://x'', jwtToken = ''t'', userId = ''u1'', recipientId = ''u2''\<rparr> initial_hook"
  obtain h' where st: "hook_step ?h (Browser (WsClose 0 1000 [] False)) = Some h'"
    by (simp add: hook_eval)
  with close_normal_clears [OF st] show ?thesis by blast
qed

text \<open>
  C5: a close event with any other code leaves the hook neither connected nor connecting,
  with the error "Connection closed: " followed by the close reason, or by
  "Unknown reason" when the reason is empty.
\<close>

theorem close_abnormal_reports:
  assumes "hook_step h (Browser (WsClose i code reason failed)) = Some h'" and "code \<noteq> 1000"
  shows "\<not> isConnected (state h') \<and> \<not> isConnecting (state h') \<and>
         error (state h') = Some (''Connection closed: '' @ (if reason = [] then ''Unknown reason'' else reason))"
  using assms by (auto simp: Let_def on_close_def on_error_def reason_text_def split: if_splits)

theorem close_abnormal_reports_witness:
  "\<exists>h'. hook_step (connect \<lparr>serverUrl = ''ws://x'', jwtToken = ''t'', userId = ''u1'', recipientId = ''u2''\<rparr>
            initial_hook) (Browser (WsClose 0 1006 ''gone'' True)) = Some h' \<and> (1006::nat) \<noteq> 1000 \<and>
        error (state h') = Some ''Connection closed: gone''"
proof -
  let ?h = "connect \<lparr>serverUrl = ''ws://x'', jwtToken = ''t'', userId = ''u1'', recipientId = ''u2''\<rparr> initial_hook"
  obtain h' where st: "hook_step ?h (Browser (WsClose 0 1006 ''gone'' True)) = Some h'"
    by (simp add: hook_eval)
  with close_abnormal_reports [OF st] show ?thesis by auto
qed

section \<open>connect\<close>

text \<open>
  C6: \<open>connect\<close> while the current socket is open first closes that socket with code
  1000 and reason "Manual disconnect" (it moves to \<open>CLOSING\<close>), then, when the
  constructor accepts the URL, appends a new connecting socket and makes it current;
  no other socket is touched.
\<close>

theorem connect_open_closes_old:
  assumes "websocketRef h = Some i" and "ref_open h" and "new_websocket (ws_url cfg) cfg = Inr w"
  shows "readyState (sockets (connect cfg h) ! i) = CLOSING \<and>
         closeCall (sockets (connect cfg h) ! i) = Some (1000, ''Manual disconnect'') \<and>
         websocketRef (connect cfg h) = Some (length (sockets h)) \<and>
         sockets (connect cfg h) ! length (sockets h) = w \<and> readyState w = CONNECTING \<and>
         (\<forall>j < length (sockets h). j \<noteq> i \<longrightarrow> sockets (connect cfg h) ! j = sockets h ! j)"
proof -
  from assms(1,2) have i: "i < length (sockets h)" and op: "readyState (sockets h ! i) = OPEN"
    by (simp_all add: ref_open_def)
  have eq: "sockets (connect cfg h) = upd_at i (ws_close 1000 ''Manual disconnect'') (sockets h) @ [w]"
    using connect_Inr [OF assms(3), of h] assms(1,2) by (simp add: sockets_disconnect)
  show ?thesis
    using i op eq connect_Inr [OF assms(3), of h] new_websocket_Inr [OF assms(3)]
    by (simp add: nth_append ws_close_def)
qed

theorem connect_open_closes_old_witness:
  "\<exists>h w. hook_reach h \<and> websocketRef h = Some 0 \<and> ref_open h \<and>
     new_websocket (ws_url \<lparr>serverUrl = ''ws://y'', jwtToken = ''t'', userId = ''u1'', recipientId = ''u2''\<rparr>)
        \<lparr>serverUrl = ''ws://y'', jwtToken = ''t'', userId = ''u1'', recipientId = ''u2''\<rparr> = Inr w \<and>
     closeCall (sockets (connect \<lparr>serverUrl = ''ws://y'', jwtToken = ''t'', userId = ''u1'', recipientId = ''u2''\<rparr> h) ! 0) =
       Some (1000, ''Manual disconnect'')"
proof -
  let ?cfg = "\<lparr>serverUrl = ''ws://x'', jwtToken = ''t'', userId = ''u1'', recipientId = ''u2''\<rparr>"
  let ?cfg2 = "\<lparr>serverUrl = ''ws://y'', jwtToken = ''t'', userId = ''u1'', recipientId = ''u2''\<rparr>"
  obtain h where run: "hook_run initial_hook [Connect ?cfg, Browser (WsOpen 0)] = Some h"
    by (simp add: hook_eval)
  have reach: "hook_reach h" using hook_reach.init run by (rule hook_run_reach)
  from run have h: "websocketRef h = Some 0" "ref_open h" by (auto simp: hook_eval)
  obtain w where w: "new_websocket (ws_url ?cfg2) ?cfg2 = Inr w" by (simp add: hook_eval)
  from connect_open_closes_old [OF h w] reach h w show ?thesis by blast
qed

section \<open>Where the hook departs from the spec\<close>

text \<open>
  C7: \<open>connect\<close> tears down the current socket only when it is open. Called while the
  current socket is still connecting, it creates the new socket and forgets the old one
  without closing it; unmounting then closes only the new socket. The old socket stays
  connecting, the browser can still open it, and its open handler marks the unmounted
  hook connected.
\<close>

theorem connect_while_connecting_leaks:
  assumes "websocketRef h = Some i" and "i < length (sockets h)"
    and "readyState (sockets h ! i) = CONNECTING" and "new_websocket (ws_url cfg) cfg = Inr w"
  shows "sockets (disconnect (connect cfg h)) ! i = sockets h ! i \<and>
         websocketRef (disconnect (connect cfg h)) = None \<and>
         event_enabled (sockets (disconnect (connect cfg h))) (WsOpen i) \<and>
         isConnected (state (browser_step (disconnect (connect cfg h)) (WsOpen i)))"
proof -
  from assms(1,3) have "\<not> ref_open h" by (simp add: ref_open_def)
  with connect_Inr [OF assms(4), of h]
  have s: "sockets (connect cfg h) = sockets h @ [w]" and r: "websocketRef (connect cfg h) = Some (length (sockets h))"
    by simp_all
  with assms(2) have keep: "sockets (disconnect (connect cfg h)) ! i = sockets h ! i"
    by (simp add: sockets_disconnect upd_at_def nth_list_update nth_append)
  from s assms(2) have "i < length (sockets (disconnect (connect cfg h)))" by simp
  with keep assms(3) show ?thesis
    by (simp add: event_enabled_def on_open_def Let_def split: sum.splits)
qed

theorem connect_while_connecting_leaks_witness:
  "\<exists>h w. hook_reach h \<and> websocketRef h = Some 0 \<and> 0 < length (sockets h) \<and>
     readyState (sockets h ! 0) = CONNECTING \<and>
     new_websocket (ws_url \<lparr>serverUrl = ''ws://x'', jwtToken = ''t'', userId = ''u1'', recipientId = ''u2''\<rparr>)
       \<lparr>serverUrl = ''ws://x'', jwtToken = ''t'', userId = ''u1'', recipientId = ''u2''\<rparr> = Inr w \<and>
     closeCall (sockets (disconnect (connect \<lparr>serverUrl = ''ws://x'', jwtToken = ''t'', userId = ''u1'', recipientId = ''u2''\<rparr> h)) ! 0) = None \<and>
     isConnected (state (browser_step (disconnect (connect \<lparr>serverUrl = ''ws://x'', jwtToken = ''t'', userId = ''u1'', recipientId = ''u2''\<rparr> h)) (WsOpen 0)))"
proof -
  let ?cfg = "\<lparr>serverUrl = ''ws://x'', jwtToken = ''t'', userId = ''u1'', recipientId = ''u2''\<rparr>"
  obtain h where run: "hook_run initial_hook [Connect ?cfg] = Some h" by (simp add: hook_eval)
  have reach: "hook_reach h" using hook_reach.init run by (rule hook_run_reach)
  from run have h: "websocketRef h = Some 0" "0 < length (sockets h)" "readyState (sockets h ! 0) = CONNECTING"
    "closeCall (sockets h ! 0) = None"
    by (auto simp: hook_eval)
  obtain w where w: "new_websocket (ws_url ?cfg) ?cfg = Inr w" by (simp add: hook_eval)
  from connect_while_connecting_leaks [OF h(1-3) w] reach h w show ?thesis by auto
qed

text \<open>
  C8: \<open>connect\<close> never touches \<open>isConnected\<close>: when it creates a socket it sets
  \<open>isConnecting\<close> and leaves \<open>isConnected\<close> as it was, so a \<open>connect\<close> while connected
  yields a state that is connected and connecting at once, which the spec's data model
  excludes, until the old socket's close event arrives.
\<close>

theorem connect_while_open_both_flags:
  assumes "new_websocket (ws_url cfg) cfg = Inr w"
  shows "isConnected (state (connect cfg h)) = isConnected (state h) \<and> isConnecting (state (connect cfg h))"
  using assms by (simp add: connect_def Let_def)

theorem connect_while_open_both_flags_witness:
  "\<exists>h w. hook_reach h \<and> isConnected (state h) \<and>
     new_websocket (ws_url \<lparr>serverUrl = ''ws://x'', jwtToken = ''t'', userId = ''u1'', recipientId = ''u2''\<rparr>)
       \<lparr>serverUrl = ''ws://x'', jwtToken = ''t'', userId = ''u1'', recipientId = ''u2''\<rparr> = Inr w \<and>
     isConnected (state (connect \<lparr>serverUrl = ''ws://x'', jwtToken = ''t'', userId = ''u1'', recipientId = ''u2''\<rparr> h)) \<and>
     isConnecting (state (connect \<lparr>serverUrl = ''ws://x'', jwtToken = ''t'', userId = ''u1'', recipientId = ''u2''\<rparr> h))"
proof -
  let ?cfg = "\<lparr>serverUrl = ''ws://x'', jwtToken = ''t'', userId = ''u1'', recipientId = ''u2''\<rparr>"
  obtain h where run: "hook_run initial_hook [Connect ?cfg, Browser (WsOpen 0)] = Some h" by (simp add: hook_eval)
  have reach: "hook_reach h" using hook_reach.init run by (rule hook_run_reach)
  from run have c: "isConnected (state h)" by (auto simp: hook_eval)
  obtain w where w: "new_websocket (ws_url ?cfg) ?cfg = Inr w" by (simp add: hook_eval)
  from connect_while_open_both_flags [OF w, of h] reach c w show ?thesis by auto
qed

text \<open>
  C9: the close handler of a socket that is no longer current still writes the shared
  state. For any hook whose current socket \<open>j\<close> is open, a close event of another
  socket \<open>i\<close> marks the hook disconnected but leaves socket \<open>j\<close> current and open; and
  \<open>sendMessage\<close>, which checks the socket and not the state, then writes the envelope to
  socket \<open>j\<close> although \<open>isConnected\<close> is false.
\<close>

theorem stale_close_send_while_disconnected:
  assumes "websocketRef h = Some j" and "j < length (sockets h)" and "readyState (sockets h ! j) = OPEN"
    and "configRef h = Some cfg" and "i \<noteq> j"
  shows "\<not> isConnected (state (browser_step h (WsClose i code reason failed))) \<and>
         websocketRef (browser_step h (WsClose i code reason failed)) = Some j \<and>
         sockets (sendMessage c to_id now (browser_step h (WsClose i code reason failed))) ! j =
           (sockets h ! j)\<lparr>sent := sent (sockets h ! j) @ [chat_envelope c to_id (userId cfg) now]\<rparr>"
proof -
  let ?h = "browser_step h (WsClose i code reason failed)"
  from assms(5) have sj: "sockets ?h ! j = sockets h ! j"
    by (simp add: Let_def upd_at_def nth_list_update)
  have l: "length (sockets ?h) = length (sockets h)" by (rule length_sockets_browser_step)
  have "\<not> isConnected (state ?h)" "websocketRef ?h = Some j" "configRef ?h = Some cfg"
    using assms(1,4) by (simp_all add: Let_def on_close_def on_error_def)
  with sj l assms(2,3) show ?thesis
    by (simp add: sendMessage_def del: browser_step.simps)
qed

theorem stale_close_send_while_disconnected_witness:
  "\<exists>h cfg. hook_reach h \<and> websocketRef h = Some 1 \<and> 1 < length (sockets h) \<and>
     readyState (sockets h ! 1) = OPEN \<and> configRef h = Some cfg \<and> (0::nat) \<noteq> 1 \<and>
     \<not> isConnected (state (browser_step h (WsClose 0 1000 [] False))) \<and>
     sent (sockets (sendMessage ''hi'' ''u2'' 0 (browser_step h (WsClose 0 1000 [] False))) ! 1) =
       [backlog_request ''u1'', chat_envelope ''hi'' ''u2'' ''u1'' 0]"
proof -
  let ?cfg = "\<lparr>serverUrl = ''ws://x'', jwtToken = ''t'', userId = ''u1'', recipientId = ''u2''\<rparr>"
  obtain h where run: "hook_run initial_hook
      [Connect ?cfg, Browser (WsOpen 0), Connect ?cfg, Browser (WsOpen 1)] = Some h"
    by (simp add: hook_eval)
  have reach: "hook_reach h" using hook_reach.init run by (rule hook_run_reach)
  from run have h: "websocketRef h = Some 1" "1 < length (sockets h)" "readyState (sockets h ! 1) = OPEN"
    "configRef h = Some ?cfg" "sent (sockets h ! 1) = [backlog_request ''u1'']"
    by (auto simp: hook_eval)
  from stale_close_send_while_disconnected [OF h(1-4), of 0 1000 "[]" False "''hi''" "''u2''" 0] h reach
  show ?thesis by auto
qed

text \<open>
  C10: \<open>sendMessage\<close> takes the sender id from the latest configuration, not from the
  one the socket authenticated with. For any hook whose current socket is still
  connecting, a second \<open>connect\<close> whose constructor throws leaves that socket current but
  remembers the new configuration; once the socket opens, it sends the backlog request
  for its own user and then chat envelopes naming the new configuration's user.
\<close>

theorem sender_id_from_latest_config:
  assumes "websocketRef h = Some i" and "i < length (sockets h)"
    and "readyState (sockets h ! i) = CONNECTING" and "new_websocket (ws_url cfg) cfg = Inl e"
  shows "websocketRef (browser_step (connect cfg h) (WsOpen i)) = Some i \<and>
         handlerConfig (sockets (browser_step (connect cfg h) (WsOpen i)) ! i) = handlerConfig (sockets h ! i) \<and>
         sent (sockets (sendMessage c to_id now (browser_step (connect cfg h) (WsOpen i))) ! i) =
           sent (sockets h ! i) @ [backlog_request (userId (handlerConfig (sockets h ! i))),
                                   chat_envelope c to_id (userId cfg) now]"
proof -
  let ?h1 = "connect cfg h"
  let ?h2 = "browser_step ?h1 (WsOpen i)"
  from assms(1,3) have "\<not> ref_open h" by (simp add: ref_open_def)
  with connect_Inl [OF assms(4), of h] assms(1)
  have s1: "sockets ?h1 = sockets h" and r1: "websocketRef ?h1 = Some i" by simp_all
  have c1: "configRef ?h1 = Some cfg" by simp
  from s1 assms(2) have i1: "i < length (sockets ?h1)" by simp
  from sockets_open_step [OF i1] s1
  have s2: "sockets ?h2 = (sockets h)[i := (sockets h ! i)\<lparr>readyState := OPEN, sent := sent (sockets h ! i) @
              [backlog_request (userId (handlerConfig (sockets h ! i)))]\<rparr>]" by simp
  from r1 c1 have r2: "websocketRef ?h2 = Some i" "configRef ?h2 = Some cfg" by simp_all
  from s2 r2 assms(2) show ?thesis
    by (simp add: sendMessage_def nth_list_update del: browser_step.simps)
qed

theorem sender_id_from_latest_config_witness:
  "\<exists>h e. hook_reach h \<and> websocketRef h = Some 0 \<and> 0 < length (sockets h) \<and>
     readyState (sockets h ! 0) = CONNECTING \<and>
     new_websocket (ws_url \<lparr>serverUrl = ''ftp://x'', jwtToken = ''t'', userId = ''u3'', recipientId = ''u2''\<rparr>)
       \<lparr>serverUrl = ''ftp://x'', jwtToken = ''t'', userId = ''u3'', recipientId = ''u2''\<rparr> = Inl e \<and>
     sent (sockets (sendMessage ''hi'' ''u2'' 0 (browser_step
       (connect \<lparr>serverUrl = ''ftp://x'', jwtToken = ''t'', userId = ''u3'', recipientId = ''u2''\<rparr> h) (WsOpen 0))) ! 0) =
       [backlog_request ''u1'', chat_envelope ''hi'' ''u2'' ''u3'' 0]"
proof -
  let ?cfg = "\<lparr>serverUrl = ''ws://x'', jwtToken = ''t'', userId = ''u1'', recipientId = ''u2''\<rparr>"
  let ?cfg2 = "\<lparr>serverUrl = ''ftp://x'', jwtToken = ''t'', userId = ''u3'', recipientId = ''u2''\<rparr>"
  obtain h where run: "hook_run initial_hook [Connect ?cfg] = Some h" by (simp add: hook_eval)
  have reach: "hook_reach h" using hook_reach.init run by (rule hook_run_reach)
  from run have h: "websocketRef h = Some 0" "0 < length (sockets h)" "readyState (sockets h ! 0) = CONNECTING"
    "sent (sockets h ! 0) = []" "handlerConfig (sockets h ! 0) = ?cfg"
    by (auto simp: hook_eval)
  have e: "new_websocket (ws_url ?cfg2) ?cfg2 = Inl SyntaxError" by (simp add: hook_eval)
  from sender_id_from_latest_config [OF h(1-3) e, of "''hi''" "''u2''" 0] h reach e show ?thesis by auto
qed

end
