(* ===== verification/MessageTyping.thy ===== *)
theory MessageTyping
  imports HookProperties
begin

text \<open>
  What the declared type \<open>Message\<close> of \<open>src/src/types/chat.ts\<close> promises and what the
  hook actually stores. The normalisation of \<open>onmessage\<close> fills \<open>id\<close> and
  \<open>timestamp\<close> with non-empty strings when the frame has no truthy value for them, so
  these two fields are always truthy; the other fields are copied unchecked and can be
  any JSON value or \<open>undefined\<close>.
\<close>

definition msg_ok :: "message \<Rightarrow> bool" where
  "msg_ok m \<longleftrightarrow> truthy (msg_id m) \<and> truthy (timestamp m)"

lemma truthy_js_or_str: "s \<noteq> [] \<Longrightarrow> truthy (js_or v (Str s))"
  by (cases "truthy v") simp_all

lemma iso_string_not_empty: "iso_string t \<noteq> []"
  by (simp add: iso_string_def Let_def split: prod.splits)

lemma normalize_msg_ok: "normalize_message now d = Inr m \<Longrightarrow> msg_ok m"
  by (cases "nullish d")
     (auto simp: normalize_message_Inr msg_ok_def truthy_js_or_str iso_string_not_empty)

lemma js_map_msg_ok: "js_map (normalize_message now) vs = Inr ms \<Longrightarrow> \<forall>m \<in> set ms. msg_ok m"
proof (induction vs arbitrary: ms)
  case Nil
  then show ?case by simp
next
  case (Cons v vs)
  then show ?case
    by (auto simp: js_bind_def split: sum.splits dest: normalize_msg_ok)
qed

lemma on_message_ok:
  assumes "\<forall>m \<in> set (messages st). msg_ok m"
  shows "\<forall>m \<in> set (messages (on_message now fr st)). msg_ok m"
  using assms
  by (auto simp: on_message_def handle_frame_def js_bind_def
           split: inbound.splits sum.splits if_splits jsval.splits
           dest: normalize_msg_ok js_map_msg_ok)

lemma messages_connect [simp]: "messages (state (connect cfg h)) = []"
  by (simp add: connect_def Let_def split: sum.splits)

lemma messages_browser_step:
  "messages (state (browser_step h e)) =
     (case e of WsMessage i fr now \<Rightarrow> messages (on_message now fr (state h)) | _ \<Rightarrow> messages (state h))"
  by (cases e) (simp_all add: on_open_def on_ws_message_def on_error_def on_close_def Let_def
                   split: sum.splits)

lemma hook_step_msgs_ok:
  assumes "\<forall>m \<in> set (messages (state h)). msg_ok m" and "hook_step h e = Some h'"
  shows "\<forall>m \<in> set (messages (state h')). msg_ok m"
proof (cases e)
  case (Browser b)
  with assms show ?thesis
    by (auto simp: messages_browser_step on_message_ok split: if_splits browser_event.splits
             simp del: browser_step.simps)
qed (use assms in auto)

text \<open>
  C34: in every reachable state of the hook, every stored message has a truthy \<open>id\<close> and
  a truthy \<open>timestamp\<close> (the declared string type is kept for these two fields, by the
  defaults of the normalisation).
\<close>

theorem messages_typed:
  assumes "hook_reach h" and "m \<in> set (messages (state h))"
  shows "truthy (msg_id m) \<and> truthy (timestamp m)"
proof -
  from assms(1) have "\<forall>m \<in> set (messages (state h)). msg_ok m"
  proof (induction rule: hook_reach.induct)
    case init
    then show ?case by (simp add: initial_hook_def initial_chat_state_def)
  next
    case (step h e h')
    from step.IH step.hyps(2) show ?case by (rule hook_step_msgs_ok)
  qed
  with assms(2) show ?thesis by (simp add: msg_ok_def)
qed

theorem messages_typed_witness:
  "\<exists>h m. hook_reach h \<and> m \<in> set (messages (state h)) \<and> msg_id m = Str (nat_str 5) \<and> content m = Undefined \<and>
         truthy (msg_id m) \<and> truthy (timestamp m)"
proof -
  let ?cfg = "\<lparr>serverUrl = ''ws://x'', jwtToken = ''t'', userId = ''u1'', recipientId = ''u2''\<rparr>"
  obtain h where run: "hook_run initial_hook [Connect ?cfg, Browser (WsOpen 0),
      Browser (WsMessage 0 (Frame (Obj [(''type'', Str ''message'')])) 5)] = Some h"
    by (simp add: hook_eval)
  have reach: "hook_reach h" using hook_reach.init run by (rule hook_run_reach)
  from run have "messages (state h) \<noteq> [] \<and> msg_id (hd (messages (state h))) = Str (nat_str 5) \<and>
                 content (hd (messages (state h))) = Undefined"
    by (auto simp: hook_eval on_message_def handle_frame_def normalize_message_def)
  then obtain m where "m \<in> set (messages (state h))" "msg_id m = Str (nat_str 5)" "content m = Undefined"
    by (metis list.set_sel(1))
  with messages_typed [OF reach] reach show ?thesis by blast
qed

end
