(* ===== verification/Components.thy ===== *)
theory Components
  imports ChatTypes
begin

text \<open>
  The logic of the two presentation components that call the hook: the connection form
  \<open>src/src/components/ConnectionPanel.tsx\<close> (its form state, the guard of
  \<open>handleConnect\<close>, which controls are enabled, the status badge) and the chat view
  \<open>src/src/components/ChatInterface.tsx\<close> (its input state, \<open>handleSendMessage\<close>
  with \<open>trim\<close>, the Enter key, the enabled controls, whose messages count as one's own).
  What the components render is in \<open>ChatViews\<close>; the loop of \<open>trim\<close> is a
  \<open>function\<close> whose termination is proved by the length of the string.
\<close>

section \<open>ConnectionPanel\<close>

text \<open>The form's initial values (lines 26-31).\<close>

definition initial_panel_config :: connection_config where
  "initial_panel_config =
    \<lparr>serverUrl = ''ws://localhost:8080/ws/chat'', jwtToken = [], userId = [], recipientId = []\<rparr>"

text \<open>The four text inputs and their \<open>onChange\<close> handlers (lines 85-125).\<close>

datatype config_field = ServerUrlField | JwtTokenField | UserIdField | RecipientIdField

fun set_field :: "config_field \<Rightarrow> string \<Rightarrow> connection_config \<Rightarrow> connection_config" where
  "set_field ServerUrlField v c = c\<lparr>serverUrl := v\<rparr>"
| "set_field JwtTokenField v c = c\<lparr>jwtToken := v\<rparr>"
| "set_field UserIdField v c = c\<lparr>userId := v\<rparr>"
| "set_field RecipientIdField v c = c\<lparr>recipientId := v\<rparr>"

text \<open>\<open>!config.serverUrl || !config.jwtToken || !config.userId || !config.recipientId\<close>,
  negated: every field is a non-empty string.\<close>

definition fields_filled :: "connection_config \<Rightarrow> bool" where
  "fields_filled c \<longleftrightarrow> serverUrl c \<noteq> [] \<and> jwtToken c \<noteq> [] \<and> userId c \<noteq> [] \<and> recipientId c \<noteq> []"

text \<open>\<open>handleConnect\<close> (lines 33-38): the configuration passed to \<open>onConnect\<close>, if any.\<close>

definition handleConnect :: "connection_config \<Rightarrow> connection_config option" where
  "handleConnect c = (if \<not> fields_filled c then None else Some c)"

text \<open>\<open>disabled\<close> of the inputs (lines 89, 101, 113, 124) and of the Connect button
  (line 141).\<close>

definition inputs_disabled :: "bool \<Rightarrow> bool \<Rightarrow> bool" where
  "inputs_disabled connected connecting \<longleftrightarrow> connected \<or> connecting"

definition connect_button_disabled :: "connection_config \<Rightarrow> bool \<Rightarrow> bool" where
  "connect_button_disabled c connecting \<longleftrightarrow> \<not> fields_filled c \<or> connecting"

text \<open>\<open>getStatusBadge\<close> (lines 40-65): connecting takes precedence over connected.\<close>

datatype badge = BadgeConnecting | BadgeConnected | BadgeDisconnected

definition getStatusBadge :: "bool \<Rightarrow> bool \<Rightarrow> badge" where
  "getStatusBadge connected connecting =
    (if connecting then BadgeConnecting else if connected then BadgeConnected else BadgeDisconnected)"

text \<open>Which button the panel shows (lines 138-165) and whether the error box is shown
  (\<open>error && ...\<close>, line 129: \<open>null\<close> and the empty string are falsy).\<close>

datatype panel_button = ConnectButton | DisconnectButton

definition panel_button :: "bool \<Rightarrow> panel_button" where
  "panel_button connected = (if \<not> connected then ConnectButton else DisconnectButton)"

definition error_shown :: "string option \<Rightarrow> bool" where
  "error_shown e = (case e of None \<Rightarrow> False | Some s \<Rightarrow> s \<noteq> [])"

section \<open>String.prototype.trim\<close>

text \<open>
  \<open>trim\<close> removes leading and trailing white space and line terminators. On UTF-8 bytes
  these are the encodings of U+0009-U+000D, U+0020, U+00A0, U+1680, U+2000-U+200A,
  U+2028, U+2029, U+202F, U+205F, U+3000 and U+FEFF. UTF-8 is self-synchronising, so
  stripping these byte sequences at either end of a well-formed string removes exactly
  the whitespace code points.
\<close>

definition js_whitespace :: "string list" where
  "js_whitespace =
    map (map char_of)
      ([[9::nat], [10], [11], [12], [13], [32], [0xC2, 0xA0], [0xE1, 0x9A, 0x80]] @
       map (\<lambda>k. [0xE2, 0x80, 0x80 + k]) [0..<11] @
       [[0xE2, 0x80, 0xA8], [0xE2, 0x80, 0xA9], [0xE2, 0x80, 0xAF], [0xE2, 0x81, 0x9F],
        [0xE3, 0x80, 0x80], [0xEF, 0xBB, 0xBF]])"

text \<open>Remove, as long as one matches, a non-empty leading occurrence of one of \<open>ws\<close>.\<close>

function strip_prefixes :: "string list \<Rightarrow> string \<Rightarrow> string" where
  "strip_prefixes ws s =
    (case find (\<lambda>w. w \<noteq> [] \<and> take (length w) s = w) ws of
       None \<Rightarrow> s
     | Some w \<Rightarrow> strip_prefixes ws (drop (length w) s))"
  by pat_completeness auto

termination
proof (relation "measure (\<lambda>(ws, s). length s)")
  fix ws :: "string list" and s w :: string
  assume "find (\<lambda>w. w \<noteq> [] \<and> take (length w) s = w) ws = Some w"
  then have ne: "w \<noteq> []" and tk: "take (length w) s = w" by (auto simp: find_Some_iff)
  from tk have "min (length w) (length s) = length w" using length_take [of "length w" s] by simp
  with ne have w0: "0 < length w" and ws: "length w \<le> length s" by auto
  then have "length s - length w < length s" by (intro diff_less) auto
  then show "((ws, drop (length w) s), ws, s) \<in> measure (\<lambda>(ws, s). length s)" by simp
qed simp

declare strip_prefixes.simps [simp del]

definition trim_start :: "string \<Rightarrow> string" where
  "trim_start s = strip_prefixes js_whitespace s"

definition trim_end :: "string \<Rightarrow> string" where
  "trim_end s = rev (strip_prefixes (map rev js_whitespace) (rev s))"

definition js_trim :: "string \<Rightarrow> string" where
  "js_trim s = trim_end (trim_start s)"

section \<open>ChatInterface\<close>

text \<open>
  \<open>handleSendMessage\<close> (lines 29-34): with a non-blank input and a connected hook, call
  \<open>onSendMessage\<close> with the trimmed input and the \<open>recipientId\<close> prop, and clear the
  input; otherwise do nothing. The result is the call made, if any, and the new input.
\<close>

definition handleSendMessage ::
    "string \<Rightarrow> bool \<Rightarrow> string \<Rightarrow> (string \<times> string) option \<times> string" where
  "handleSendMessage input connected recipient =
    (if js_trim input = [] \<or> \<not> connected then (None, input)
     else (Some (js_trim input, recipient), []))"

text \<open>\<open>handleKeyPress\<close> (lines 36-41): Enter without Shift sends, any other key does not.\<close>

definition handleKeyPress ::
    "bool \<Rightarrow> bool \<Rightarrow> string \<Rightarrow> bool \<Rightarrow> string \<Rightarrow> (string \<times> string) option \<times> string" where
  "handleKeyPress enter shift input connected recipient =
    (if enter \<and> \<not> shift then handleSendMessage input connected recipient else (None, input))"

text \<open>\<open>disabled\<close> of the send button (line 140) and of the input (line 135).\<close>

definition send_button_disabled :: "string \<Rightarrow> bool \<Rightarrow> bool" where
  "send_button_disabled input connected \<longleftrightarrow> js_trim input = [] \<or> \<not> connected"

definition chat_input_disabled :: "bool \<Rightarrow> bool" where
  "chat_input_disabled connected \<longleftrightarrow> \<not> connected"

text \<open>\<open>isCurrentUser\<close> (line 86): strict equality of the message's \<open>fromId\<close> with the
  \<open>currentUserId\<close> prop; and the pending-delivery clock (line 108).\<close>

definition isCurrentUser :: "message \<Rightarrow> string \<Rightarrow> bool" where
  "isCurrentUser m current = (fromId m = Str current)"

definition shows_pending_clock :: "message \<Rightarrow> string \<Rightarrow> bool" where
  "shows_pending_clock m current \<longleftrightarrow> \<not> truthy (delivered m) \<and> isCurrentUser m current"

section \<open>Lemmas on trim\<close>

lemma strip_prefixes_stop:
  "find (\<lambda>w. w \<noteq> [] \<and> take (length w) s = w) ws = None \<Longrightarrow> strip_prefixes ws s = s"
  by (simp add: strip_prefixes.simps)

lemma strip_prefixes_done:
  "find (\<lambda>w. w \<noteq> [] \<and> take (length w) (strip_prefixes ws s) = w) ws = None"
proof (induction ws s rule: strip_prefixes.induct)
  case (1 ws s)
  then show ?case
    by (cases "find (\<lambda>w. w \<noteq> [] \<and> take (length w) s = w) ws")
       (simp_all add: strip_prefixes.simps [of ws s])
qed

lemma strip_prefixes_suffix: "\<exists>u. s = u @ strip_prefixes ws s"
proof (induction ws s rule: strip_prefixes.induct)
  case (1 ws s)
  show ?case
  proof (cases "find (\<lambda>w. w \<noteq> [] \<and> take (length w) s = w) ws")
    case None
    then show ?thesis by (simp add: strip_prefixes_stop)
  next
    case (Some w)
    with "1" obtain u where u: "drop (length w) s = u @ strip_prefixes ws (drop (length w) s)" by blast
    from Some have "strip_prefixes ws s = strip_prefixes ws (drop (length w) s)"
      by (simp add: strip_prefixes.simps [of ws s])
    with u have "s = (take (length w) s @ u) @ strip_prefixes ws s"
      by (metis append.assoc append_take_drop_id)
    then show ?thesis ..
  qed
qed

lemma strip_prefixes_idem: "strip_prefixes ws (strip_prefixes ws s) = strip_prefixes ws s"
  by (rule strip_prefixes_stop [OF strip_prefixes_done])

lemma no_prefix_append:
  fixes s u :: string
  assumes "find (\<lambda>w. w \<noteq> [] \<and> take (length w) (s @ u) = w) ws = None"
  shows "find (\<lambda>w. w \<noteq> [] \<and> take (length w) s = w) ws = None"
proof -
  have "take (length w) s = w \<Longrightarrow> take (length w) (s @ u) = w" for w :: string
  proof -
    assume tk: "take (length w) s = w"
    then have "length w \<le> length s" by (metis length_take min.absorb_iff1 min.commute)
    with tk show ?thesis by simp
  qed
  with assms show ?thesis by (auto simp: find_None_iff)
qed

lemma trim_end_prefix: "\<exists>u. s = trim_end s @ u"
proof -
  obtain u where u: "rev s = u @ strip_prefixes (map rev js_whitespace) (rev s)"
    using strip_prefixes_suffix by blast
  have "s = rev (rev s)" by simp
  also have "\<dots> = trim_end s @ rev u" by (subst u) (simp add: trim_end_def)
  finally show ?thesis ..
qed

lemma trim_start_trim_end:
  assumes "find (\<lambda>w. w \<noteq> [] \<and> take (length w) s = w) js_whitespace = None"
  shows "trim_start (trim_end s) = trim_end s"
proof -
  obtain u where eq: "s = trim_end s @ u" using trim_end_prefix by blast
  have "find (\<lambda>w. w \<noteq> [] \<and> take (length w) (trim_end s @ u) = w) js_whitespace = None"
    using assms by (simp only: eq [symmetric])
  then have "find (\<lambda>w. w \<noteq> [] \<and> take (length w) (trim_end s) = w) js_whitespace = None"
    by (rule no_prefix_append)
  then show ?thesis unfolding trim_start_def by (rule strip_prefixes_stop)
qed

lemma trim_end_idem: "trim_end (trim_end s) = trim_end s"
  by (simp add: trim_end_def strip_prefixes_idem)


lemma js_trim_idem: "js_trim (js_trim s) = js_trim s"
proof -
  have "trim_start (trim_end (trim_start s)) = trim_end (trim_start s)"
    unfolding trim_start_def [of s] by (rule trim_start_trim_end [OF strip_prefixes_done])
  then show ?thesis by (simp add: js_trim_def trim_end_idem)
qed


lemma handleSendMessage_Some:
  "fst (handleSendMessage input connected recipient) = Some (c, t) \<Longrightarrow>
   c \<noteq> [] \<and> js_trim c = c \<and> t = recipient \<and> connected"
  by (auto simp: handleSendMessage_def js_trim_idem split: if_splits)

lemma handleKeyPress_Some:
  "fst (handleKeyPress enter shift input connected recipient) = Some (c, t) \<Longrightarrow>
   c \<noteq> [] \<and> js_trim c = c \<and> t = recipient \<and> connected"
  by (auto simp: handleKeyPress_def dest: handleSendMessage_Some split: if_splits)


text \<open>Every white-space sequence starts, and ends, with a byte that is not a visible ASCII
  character; so a string that starts and ends with one is left alone by \<open>trim\<close>.\<close>

lemma js_whitespace_heads:
  "\<forall>w \<in> set js_whitespace. w \<noteq> [] \<and> of_char (hd w) \<notin> {33..126::nat}"
  "\<forall>w \<in> set (map rev js_whitespace). w \<noteq> [] \<and> of_char (hd w) \<notin> {33..126::nat}"
  by (simp_all add: js_whitespace_def)

lemma strip_prefixes_visible:
  assumes ws: "\<forall>w \<in> set ws. w \<noteq> [] \<and> of_char (hd w) \<notin> {33..126::nat}"
    and s: "s \<noteq> []" "of_char (hd s) \<in> {33..126::nat}"
  shows "strip_prefixes ws s = s"
proof (rule strip_prefixes_stop)
  have "take (length w) s \<noteq> w" if "w \<in> set ws" for w
  proof
    assume tk: "take (length w) s = w"
    from ws that have "w \<noteq> []" by blast
    with tk s have "hd w = hd s" by (metis hd_take length_greater_0_conv)
    with ws that s show False by auto
  qed
  then show "find (\<lambda>w. w \<noteq> [] \<and> take (length w) s = w) ws = None"
    by (auto simp: find_None_iff)
qed

lemma js_trim_visible:
  assumes "s \<noteq> []" and "of_char (hd s) \<in> {33..126::nat}" and "of_char (last s) \<in> {33..126::nat}"
  shows "js_trim s = s"
proof -
  from assms(1,2) have "trim_start s = s"
    unfolding trim_start_def by (rule strip_prefixes_visible [OF js_whitespace_heads(1)])
  moreover from assms have "strip_prefixes (map rev js_whitespace) (rev s) = rev s"
    by (intro strip_prefixes_visible [OF js_whitespace_heads(2)]) (simp_all add: hd_rev)
  ultimately show ?thesis by (simp add: js_trim_def trim_end_def)
qed


end
