(* ===== verification/ChatApp.thy ===== *)
theory ChatApp
  imports HookInvariants Components
begin

text \<open>
  The page \<open>src/src/components/ChatTester.tsx\<close> composes the hook with the two
  components: the panel's \<open>onConnect\<close> calls \<open>connect\<close>, its \<open>onDisconnect\<close> calls
  \<open>disconnect\<close>, and the chat view, rendered only while the hook is connected, calls
  \<open>sendMessage\<close> with the recipient fixed to \<open>"recipient-id"\<close>. The application state
  is the hook's state, the panel's form, the chat view's input (absent while the view is
  not rendered) and whether the page is mounted. A step is one user action on a control
  that is rendered and enabled, or one browser event.
\<close>

section \<open>ChatTester\<close>

text \<open>The props ChatTester passes to ChatInterface (lines 41-42).\<close>

definition tester_recipient :: string where
  "tester_recipient = ''recipient-id''"

definition tester_current_user :: "chat_state \<Rightarrow> string" where
  "tester_current_user st = (if isConnected st then ''your-user-id'' else [])"

record app =
  hk :: hook
  panelConfig :: connection_config
  chatInput :: "string option"
  mounted :: bool

definition initial_app :: app where
  "initial_app = \<lparr>hk = initial_hook, panelConfig = initial_panel_config, chatInput = None, mounted = True\<rparr>"

text \<open>
  Rendering (line 38): the chat view is mounted exactly while the hook is connected; a
  newly mounted view starts with an empty input (\<open>useState('')\<close>), an unmounted one loses
  its input.
\<close>

definition render :: "app \<Rightarrow> app" where
  "render a =
    a\<lparr>chatInput := (if isConnected (state (hk a))
                    then Some (case chatInput a of None \<Rightarrow> [] | Some s \<Rightarrow> s) else None)\<rparr>"

text \<open>What a send attempt of the chat view does: the \<open>onSendMessage\<close> call, if any, goes to
  \<open>handleSendMessage\<close> of ChatTester (lines 13-15), which calls the hook's \<open>sendMessage\<close>.\<close>

definition apply_send :: "(string \<times> string) option \<times> string \<Rightarrow> ms \<Rightarrow> app \<Rightarrow> app" where
  "apply_send r now a =
    a\<lparr>hk := (case fst r of None \<Rightarrow> hk a | Some (c, t) \<Rightarrow> sendMessage c t now (hk a)),
      chatInput := Some (snd r)\<rparr>"

datatype ui_event =
    EditField config_field string
  | ClickConnect
  | ClickDisconnect
  | EditMessage string
  | ClickSend ms
  | KeyPress bool bool ms
  | UnmountPage
  | Net browser_event

text \<open>
  One step of the page. A control can be used only while it is rendered and not
  disabled; the page's unmounting runs the hook's cleanup (\<open>disconnect\<close>); browser events
  reach the hook's handlers also after the page is gone.
\<close>

fun app_step :: "app \<Rightarrow> ui_event \<Rightarrow> app option" where
  "app_step a (EditField f v) =
    (if mounted a \<and> \<not> inputs_disabled (isConnected (state (hk a))) (isConnecting (state (hk a)))
     then Some (a\<lparr>panelConfig := set_field f v (panelConfig a)\<rparr>) else None)"
| "app_step a ClickConnect =
    (if mounted a \<and> panel_button (isConnected (state (hk a))) = ConnectButton \<and>
        \<not> connect_button_disabled (panelConfig a) (isConnecting (state (hk a)))
     then Some (render (case handleConnect (panelConfig a) of
                          None \<Rightarrow> a
                        | Some c \<Rightarrow> a\<lparr>hk := connect c (hk a)\<rparr>))
     else None)"
| "app_step a ClickDisconnect =
    (if mounted a \<and> panel_button (isConnected (state (hk a))) = DisconnectButton
     then Some (render (a\<lparr>hk := disconnect (hk a)\<rparr>)) else None)"
| "app_step a (EditMessage v) =
    (if mounted a \<and> chatInput a \<noteq> None \<and> \<not> chat_input_disabled (isConnected (state (hk a)))
     then Some (a\<lparr>chatInput := Some v\<rparr>) else None)"
| "app_step a (ClickSend now) =
    (case chatInput a of
       None \<Rightarrow> None
     | Some inp \<Rightarrow>
         if mounted a \<and> \<not> send_button_disabled inp (isConnected (state (hk a)))
         then Some (render (apply_send
                (handleSendMessage inp (isConnected (state (hk a))) tester_recipient) now a))
         else None)"
| "app_step a (KeyPress enter shift now) =
    (case chatInput a of
       None \<Rightarrow> None
     | Some inp \<Rightarrow>
         if mounted a \<and> \<not> chat_input_disabled (isConnected (state (hk a)))
         then Some (render (apply_send
                (handleKeyPress enter shift inp (isConnected (state (hk a))) tester_recipient) now a))
         else None)"
| "app_step a UnmountPage =
    (if mounted a then Some (a\<lparr>hk := disconnect (hk a), chatInput := None, mounted := False\<rparr>)
     else None)"
| "app_step a (Net e) =
    (if event_enabled (sockets (hk a)) e then Some (render (a\<lparr>hk := browser_step (hk a) e\<rparr>))
     else None)"

fun app_run :: "app \<Rightarrow> ui_event list \<Rightarrow> app option" where
  "app_run a [] = Some a"
| "app_run a (e # es) = (case app_step a e of None \<Rightarrow> None | Some a' \<Rightarrow> app_run a' es)"

inductive app_reach :: "app \<Rightarrow> bool" where
  init: "app_reach initial_app"
| step: "app_reach a \<Longrightarrow> app_step a e = Some a' \<Longrightarrow> app_reach a'"

text \<open>The sockets that are not closed yet, in creation order.\<close>

definition live_socks :: "hook \<Rightarrow> sock_id list" where
  "live_socks h = indices_where (\<lambda>w. readyState w \<noteq> CLOSED) (sockets h)"

end
