(* ===== verification/AppInvariants.thy ===== *)
theory AppInvariants
  imports ChatApp
begin

text \<open>
  Invariants of the reachable states of the page. Every page step is a step of the hook,
  so the hook's invariants hold; on top of them, while the page is mounted the hook is in
  one of four shapes (idle with every socket closed; connecting with only the current
  socket alive; connected with only the current socket alive and open; disconnecting
  with only the closing socket alive), and once it is unmounted no socket is connecting
  or open, and the two flags are never both set. The proofs work on the list of ready
  states of the sockets.
\<close>

section \<open>Definitions\<close>

definition ready_of :: "hook \<Rightarrow> ready_state list" where
  "ready_of h = map readyState (sockets h)"

definition only_live :: "ready_state list \<Rightarrow> nat \<Rightarrow> bool" where
  "only_live rs i \<longleftrightarrow> i < length rs \<and> (\<forall>j < length rs. j \<noteq> i \<longrightarrow> rs ! j = CLOSED)"

definition app_shape :: "app \<Rightarrow> bool" where
  "app_shape a \<longleftrightarrow>
    (let st = state (hk a); h = hk a; rs = ready_of h in
     if mounted a then
       (\<not> isConnected st \<and> \<not> isConnecting st \<and> (\<forall>r \<in> set rs. r = CLOSED)) \<or>
       (\<not> isConnected st \<and> isConnecting st \<and>
          (\<exists>i. websocketRef h = Some i \<and> only_live rs i \<and> rs ! i = CONNECTING)) \<or>
       (isConnected st \<and> \<not> isConnecting st \<and>
          (\<exists>i. only_live rs i \<and>
               (websocketRef h = Some i \<and> rs ! i = OPEN \<or> websocketRef h = None \<and> rs ! i = CLOSING)))
     else \<not> (isConnected st \<and> isConnecting st) \<and>
          ((\<forall>r \<in> set rs. r = CLOSED) \<or>
           (\<exists>i. only_live rs i \<and> rs ! i = CLOSING \<and> (isConnected st \<or> isConnecting st))))"

text \<open>The current socket, while it is not closed, runs the handlers of the configuration
  the hook remembers.\<close>

definition cfg_ok :: "hook \<Rightarrow> bool" where
  "cfg_ok h \<longleftrightarrow>
    (\<forall>i. websocketRef h = Some i \<and> i < length (sockets h) \<and> readyState (sockets h ! i) \<noteq> CLOSED \<longrightarrow>
         configRef h = Some (handlerConfig (sockets h ! i)))"

text \<open>A socket the page created has a filled configuration, and every frame after the
  backlog request is a chat envelope to ChatTester's fixed recipient, from the socket's
  user, with trimmed non-blank content.\<close>

definition sock_frames :: "websocket \<Rightarrow> bool" where
  "sock_frames w \<longleftrightarrow>
    fields_filled (handlerConfig w) \<and>
    (\<forall>f \<in> set (tl (sent w)). \<exists>c t. f = chat_envelope c tester_recipient (userId (handlerConfig w)) t \<and>
                                  c \<noteq> [] \<and> js_trim c = c)"

definition app_frames :: "app \<Rightarrow> bool" where
  "app_frames a \<longleftrightarrow> cfg_ok (hk a) \<and> (\<forall>w \<in> set (sockets (hk a)). sock_frames w)"

section \<open>Every page step is a hook step\<close>

lemma hk_render [simp]: "hk (render a) = hk a"
  by (simp add: render_def)

lemma mounted_render [simp]: "mounted (render a) = mounted a"
  by (simp add: render_def)

lemma hk_apply_send:
  "hk (apply_send r now a) = hk a \<or> (\<exists>he. hook_step (hk a) he = Some (hk (apply_send r now a)))"
proof (cases "fst r")
  case None
  then show ?thesis by (simp add: apply_send_def)
next
  case (Some ct)
  then obtain c t where "fst r = Some (c, t)" by (cases ct) auto
  then have "hook_step (hk a) (SendMessage c t now) = Some (hk (apply_send r now a))"
    by (simp add: apply_send_def)
  then show ?thesis by blast
qed

lemma app_step_send_form:
  assumes "app_step a e = Some a'" and "e = ClickSend now \<or> e = KeyPress enter shift now"
  shows "\<exists>r. a' = render (apply_send r now a)"
  using assms by (cases "chatInput a") (auto split: if_splits simp del: split_paired_Ex)

lemma app_step_hook_step:
  assumes "app_step a e = Some a'"
  shows "hk a' = hk a \<or> (\<exists>he. hook_step (hk a) he = Some (hk a'))"
proof (cases e)
  case ClickConnect
  show ?thesis
  proof (cases "handleConnect (panelConfig a)")
    case None
    with assms ClickConnect show ?thesis by (auto split: if_splits)
  next
    case (Some c)
    with assms ClickConnect have "hook_step (hk a) (Connect c) = Some (hk a')"
      by (auto split: if_splits)
    then show ?thesis by blast
  qed
next
  case ClickDisconnect
  with assms show ?thesis by (auto split: if_splits intro: exI [of _ Disconnect])
next
  case (ClickSend now)
  with app_step_send_form [OF assms] obtain r where "a' = render (apply_send r now a)" by blast
  then show ?thesis using hk_apply_send [of r now a] by simp
next
  case (KeyPress enter shift now)
  with app_step_send_form [OF assms] obtain r where "a' = render (apply_send r now a)" by blast
  then show ?thesis using hk_apply_send [of r now a] by simp
next
  case UnmountPage
  with assms show ?thesis by (auto split: if_splits intro: exI [of _ Unmount])
next
  case (Net b)
  with assms show ?thesis by (auto split: if_splits intro: exI [of _ "Browser b"])
qed (use assms in \<open>auto split: if_splits\<close>)

lemma app_reach_hook_reach: "app_reach a \<Longrightarrow> hook_reach (hk a)"
proof (induction rule: app_reach.induct)
  case init
  show ?case by (simp add: initial_app_def hook_reach.init)
next
  case (step a e a')
  from app_step_hook_step [OF step.hyps(2)] step.IH show ?case
    by (auto intro: hook_reach.step)
qed

section \<open>The ready states under each operation\<close>

lemma ready_of_sendMessage [simp]: "ready_of (sendMessage c t now h) = ready_of h"
  using sockets_sendMessage [of c t now h]
  by (auto simp: ready_of_def map_update list_update_same_conv)

lemma state_sendMessage [simp]: "state (sendMessage c t now h) = state h"
  by simp

lemma ready_of_disconnect:
  "ready_of (disconnect h) =
     (case websocketRef h of
        None \<Rightarrow> ready_of h
      | Some i \<Rightarrow> upd_at i (\<lambda>r. if r \<in> {CONNECTING, OPEN} then CLOSING else r) (ready_of h))"
  by (auto simp: ready_of_def sockets_disconnect upd_at_def map_update readyState_ws_close
      split: option.splits)

lemma length_ready_of [simp]: "length (ready_of h) = length (sockets h)"
  by (simp add: ready_of_def)

lemma nth_ready_of [simp]: "i < length (sockets h) \<Longrightarrow> ready_of h ! i = readyState (sockets h ! i)"
  by (simp add: ready_of_def)

lemma ready_of_open:
  "i < length (sockets h) \<Longrightarrow> ready_of (browser_step h (WsOpen i)) = (ready_of h)[i := OPEN]"
  using sockets_open_step [of i h] by (simp add: ready_of_def map_update del: browser_step.simps)

lemma ready_of_close:
  "ready_of (browser_step h (WsClose i code reason failed)) = upd_at i (\<lambda>_. CLOSED) (ready_of h)"
  by (simp only: ready_of_def sockets_close_step) (simp add: upd_at_def map_update)

lemma ready_of_message [simp]: "ready_of (browser_step h (WsMessage i fr now)) = ready_of h"
  by (simp add: ready_of_def on_ws_message_def)

lemma flags_open [simp]:
  "isConnected (state (browser_step h (WsOpen i))) \<and> \<not> isConnecting (state (browser_step h (WsOpen i)))"
  by (simp add: on_open_def Let_def split: sum.splits)

lemma flags_close [simp]:
  "\<not> isConnected (state (browser_step h (WsClose i code reason failed))) \<and>
   \<not> isConnecting (state (browser_step h (WsClose i code reason failed)))"
  by (simp add: Let_def on_close_def on_error_def)

lemma flags_message [simp]:
  "isConnected (state (browser_step h (WsMessage i fr now))) = isConnected (state h)"
  "isConnecting (state (browser_step h (WsMessage i fr now))) = isConnecting (state h)"
  by (simp_all add: on_ws_message_def,
      subst on_message_only_messages, simp, subst on_message_only_messages, simp)

lemma connect_Inr_view:
  assumes "new_websocket (ws_url cfg) cfg = Inr w" and "\<not> ref_open h"
  shows "ready_of (connect cfg h) = ready_of h @ [CONNECTING] \<and>
         websocketRef (connect cfg h) = Some (length (sockets h)) \<and>
         isConnected (state (connect cfg h)) = isConnected (state h) \<and> isConnecting (state (connect cfg h))"
  using assms connect_Inr [OF assms(1), of h] new_websocket_Inr [OF assms(1)]
  by (simp add: ready_of_def connect_def Let_def)

lemma connect_Inl_view:
  assumes "new_websocket (ws_url cfg) cfg = Inl e" and "\<not> ref_open h"
  shows "ready_of (connect cfg h) = ready_of h \<and>
         isConnected (state (connect cfg h)) = isConnected (state h) \<and> \<not> isConnecting (state (connect cfg h))"
  using assms connect_Inl [OF assms(1), of h]
  by (simp add: ready_of_def connect_def Let_def)

section \<open>The shape of the page's hook\<close>

lemma app_shape_view:
  assumes "isConnected (state (hk a')) = isConnected (state (hk a))"
    and "isConnecting (state (hk a')) = isConnecting (state (hk a))"
    and "ready_of (hk a') = ready_of (hk a)" and "websocketRef (hk a') = websocketRef (hk a)"
    and "mounted a' = mounted a"
  shows "app_shape a' = app_shape a"
  using assms by (simp add: app_shape_def Let_def)

lemma app_shape_render [simp]: "app_shape (render a) = app_shape a"
  by (simp add: app_shape_def)

lemma only_live_other: "only_live rs i \<Longrightarrow> j < length rs \<Longrightarrow> rs ! j \<noteq> CLOSED \<Longrightarrow> j = i"
  by (auto simp: only_live_def)

lemma only_live_update: "only_live rs i \<Longrightarrow> only_live (rs[i := x]) i"
  by (simp add: only_live_def)

lemma only_live_upd_at: "only_live rs i \<Longrightarrow> only_live (upd_at i f rs) i"
  by (simp add: only_live_def)

lemma only_live_close: "only_live rs i \<Longrightarrow> \<forall>r \<in> set (upd_at i (\<lambda>_. CLOSED) rs). r = CLOSED"
  by (auto simp: only_live_def upd_at_def in_set_conv_nth nth_list_update)

lemma all_closed_snoc: "\<forall>r \<in> set rs. r = CLOSED \<Longrightarrow> only_live (rs @ [x]) (length rs)"
  by (auto simp: only_live_def nth_append)

lemma all_closed_not_ref_open:
  "\<forall>r \<in> set (ready_of h). r = CLOSED \<Longrightarrow> \<not> ref_open h"
  by (auto simp: ref_open_def ready_of_def split: option.splits)

lemma only_live_set:
  "only_live rs i \<Longrightarrow> r \<in> set rs \<Longrightarrow> r = rs ! i \<or> r = CLOSED"
  by (auto simp: only_live_def in_set_conv_nth)

lemma app_shape_connect:
  assumes shape: "app_shape a" and st: "app_step a ClickConnect = Some a'"
  shows "app_shape a'"
proof -
  let ?h = "hk a"
  from st have m: "mounted a" and nc: "\<not> isConnected (state ?h)" and ng: "\<not> isConnecting (state ?h)"
    and ff: "fields_filled (panelConfig a)"
    by (auto simp: panel_button_def connect_button_disabled_def split: if_splits)
  with shape have closed: "\<forall>r \<in> set (ready_of ?h). r = CLOSED" by (simp add: app_shape_def)
  then have nro: "\<not> ref_open ?h" by (rule all_closed_not_ref_open)
  from st m nc ng ff have a': "a' = render (a\<lparr>hk := connect (panelConfig a) ?h\<rparr>)"
    by (auto simp: handleConnect_def panel_button_def connect_button_disabled_def)
  show ?thesis
  proof (cases "new_websocket (ws_url (panelConfig a)) (panelConfig a)")
    case (Inr w)
    from connect_Inr_view [OF Inr nro] all_closed_snoc [OF closed, of CONNECTING] a' m nc
    show ?thesis by (simp add: app_shape_def Let_def nth_append)
  next
    case (Inl e)
    from connect_Inl_view [OF Inl nro] closed a' m nc show ?thesis
      by (simp add: app_shape_def Let_def)
  qed
qed

lemma disconnect_live:
  assumes ol: "only_live (ready_of h) i"
    and r: "websocketRef h = Some i \<and> ready_of h ! i \<in> {CONNECTING, OPEN} \<or>
            websocketRef h = None \<and> ready_of h ! i = CLOSING"
  shows "only_live (ready_of (disconnect h)) i \<and> ready_of (disconnect h) ! i = CLOSING"
  using r
proof
  assume r: "websocketRef h = Some i \<and> ready_of h ! i \<in> {CONNECTING, OPEN}"
  with ol have eq: "ready_of (disconnect h) = (ready_of h)[i := CLOSING]"
    by (auto simp: ready_of_disconnect upd_at_def only_live_def simp del: nth_ready_of)
  from ol show ?thesis unfolding eq by (simp add: only_live_update only_live_def del: nth_ready_of)
next
  assume "websocketRef h = None \<and> ready_of h ! i = CLOSING"
  with ol show ?thesis by (simp add: ready_of_disconnect del: nth_ready_of)
qed

lemma disconnect_all_closed:
  assumes "\<forall>r \<in> set (ready_of h). r = CLOSED"
  shows "\<forall>r \<in> set (ready_of (disconnect h)). r = CLOSED"
proof (cases "websocketRef h")
  case None
  with assms show ?thesis by (simp add: ready_of_disconnect)
next
  case (Some i)
  from assms have "\<forall>r \<in> set (upd_at i (\<lambda>r. if r \<in> {CONNECTING, OPEN} then CLOSING else r) (ready_of h)).
                     r = CLOSED"
    by (rule upd_at_preserves) simp
  with Some show ?thesis by (simp add: ready_of_disconnect)
qed

lemma app_shape_disconnect:
  assumes shape: "app_shape a" and st: "app_step a ClickDisconnect = Some a'"
  shows "app_shape a'"
proof -
  let ?h = "hk a"
  from st have m: "mounted a" and c: "isConnected (state ?h)"
    and a': "a' = render (a\<lparr>hk := disconnect ?h\<rparr>)"
    by (auto simp: panel_button_def split: if_splits)
  from shape m c obtain i where ng: "\<not> isConnecting (state ?h)" and ol: "only_live (ready_of ?h) i"
    and r: "websocketRef ?h = Some i \<and> ready_of ?h ! i = OPEN \<or>
            websocketRef ?h = None \<and> ready_of ?h ! i = CLOSING"
    by (auto simp: app_shape_def Let_def)
  from disconnect_live [OF ol] r a' m c ng show ?thesis
    unfolding app_shape_def Let_def by (auto simp del: nth_ready_of)
qed

lemma app_shape_apply_send [simp]: "app_shape (apply_send r now a) = app_shape a"
  by (rule app_shape_view) (auto simp: apply_send_def split: option.splits)

lemma app_shape_unmount:
  assumes shape: "app_shape a" and st: "app_step a UnmountPage = Some a'"
  shows "app_shape a'"
proof -
  let ?h = "hk a"
  from st have m: "mounted a" and a': "a' = a\<lparr>hk := disconnect ?h, chatInput := None, mounted := False\<rparr>"
    by (auto split: if_splits)
  from shape m consider
      (idle) "\<not> isConnected (state ?h)" "\<not> isConnecting (state ?h)" "\<forall>r \<in> set (ready_of ?h). r = CLOSED"
    | (live) i where "\<not> (isConnected (state ?h) \<and> isConnecting (state ?h))"
        "isConnected (state ?h) \<or> isConnecting (state ?h)" "only_live (ready_of ?h) i"
        "websocketRef ?h = Some i \<and> ready_of ?h ! i \<in> {CONNECTING, OPEN} \<or>
         websocketRef ?h = None \<and> ready_of ?h ! i = CLOSING"
    unfolding app_shape_def Let_def by (auto simp del: nth_ready_of)
  then show ?thesis
  proof cases
    case idle
    with disconnect_all_closed [OF idle(3)] a' show ?thesis by (simp add: app_shape_def)
  next
    case live
    with disconnect_live [OF live(3,4)] a' show ?thesis
      unfolding app_shape_def Let_def by (auto simp del: nth_ready_of)
  qed
qed

lemma app_shape_open:
  assumes shape: "app_shape a" and en: "event_enabled (sockets (hk a)) (WsOpen i)"
  shows "app_shape (render (a\<lparr>hk := browser_step (hk a) (WsOpen i)\<rparr>))"
proof -
  let ?h = "hk a"
  from en have i: "i < length (sockets ?h)" and c: "ready_of ?h ! i = CONNECTING"
    by (simp_all add: event_enabled_def)
  from shape c i obtain k where m: "mounted a" and r: "websocketRef ?h = Some k"
    and ol: "only_live (ready_of ?h) k"
    by (auto simp: app_shape_def Let_def only_live_def in_set_conv_nth split: if_splits)
  from only_live_other [OF ol, of i] i c have k: "k = i" by (simp del: nth_ready_of)
  from ol have ol': "only_live (ready_of (browser_step ?h (WsOpen i))) i"
    unfolding ready_of_open [OF i] k by (rule only_live_update)
  from i have nth: "ready_of (browser_step ?h (WsOpen i)) ! i = OPEN"
    unfolding ready_of_open [OF i] by (simp del: nth_ready_of)
  have "websocketRef (browser_step ?h (WsOpen i)) = Some i"
    using r k by (simp add: on_open_def Let_def split: sum.splits)
  with ol' nth m show ?thesis
    unfolding app_shape_def Let_def by (auto simp del: nth_ready_of browser_step.simps)
qed

lemma app_shape_close:
  assumes shape: "app_shape a" and en: "event_enabled (sockets (hk a)) (WsClose i code reason failed)"
  shows "app_shape (render (a\<lparr>hk := browser_step (hk a) (WsClose i code reason failed)\<rparr>))"
proof -
  let ?h = "hk a"
  from en have i: "i < length (sockets ?h)" and c: "ready_of ?h ! i \<noteq> CLOSED"
    by (simp_all add: event_enabled_def)
  from shape c i obtain k where ol: "only_live (ready_of ?h) k"
    by (auto simp: app_shape_def Let_def all_set_conv_all_nth split: if_splits simp del: nth_ready_of)
  from only_live_other [OF ol, of i] i c have "i = k" by (simp del: nth_ready_of)
  with only_live_close [OF ol] show ?thesis
    by (simp add: app_shape_def ready_of_close del: browser_step.simps)
qed

lemma app_shape_message:
  "app_shape (render (a\<lparr>hk := browser_step (hk a) (WsMessage i fr now)\<rparr>)) = app_shape a"
  by (simp only: app_shape_render, rule app_shape_view) (simp_all del: browser_step.simps)

lemma app_shape_step:
  assumes shape: "app_shape a" and st: "app_step a e = Some a'"
  shows "app_shape a'"
proof (cases e)
  case ClickConnect
  with app_shape_connect shape st show ?thesis by blast
next
  case ClickDisconnect
  with app_shape_disconnect shape st show ?thesis by blast
next
  case UnmountPage
  with app_shape_unmount shape st show ?thesis by blast
next
  case (ClickSend now)
  with app_step_send_form [OF st] shape show ?thesis by auto
next
  case (KeyPress enter shift now)
  with app_step_send_form [OF st] shape show ?thesis by auto
next
  case (Net b)
  with st have en: "event_enabled (sockets (hk a)) b"
    and a': "a' = render (a\<lparr>hk := browser_step (hk a) b\<rparr>)"
    by (simp_all split: if_splits)
  show ?thesis
  proof (cases b)
    case (WsOpen i)
    with app_shape_open [OF shape] en a' show ?thesis by simp
  next
    case (WsMessage i fr now)
    with app_shape_message shape a' show ?thesis by simp
  next
    case (WsClose i code reason failed)
    with app_shape_close [OF shape] en a' show ?thesis by simp
  qed
next
  case (EditField f v)
  with st shape show ?thesis by (auto simp: app_shape_def split: if_splits)
next
  case (EditMessage v)
  with st shape show ?thesis by (auto simp: app_shape_def split: if_splits)
qed

lemma app_shape_initial: "app_shape initial_app"
  by (simp add: app_shape_def initial_app_def initial_hook_def initial_chat_state_def ready_of_def)

lemma app_reach_shape: "app_reach a \<Longrightarrow> app_shape a"
  by (induction rule: app_reach.induct) (auto intro: app_shape_initial app_shape_step)

end
