(* ===== verification/AppFrames.thy ===== *)
theory AppFrames
  imports AppInvariants
begin

text \<open>
  The second invariant of the page, \<open>app_frames\<close>: the current socket runs the handlers of
  the configuration the hook remembers, every socket was created from a filled form, and
  every chat frame the page writes goes to ChatTester's fixed recipient with trimmed,
  non-blank content. The proof goes operation by operation, using the shape invariant
  and the hook's socket invariant \<open>socks_ok\<close> of the state the step starts from.
\<close>

section \<open>Socket fields under each operation\<close>

lemma cfg_ok_keep:
  assumes ok: "cfg_ok h" and r: "websocketRef h' = websocketRef h" and c: "configRef h' = configRef h"
    and l: "length (sockets h') = length (sockets h)"
    and hc: "\<And>j. j < length (sockets h) \<Longrightarrow> handlerConfig (sockets h' ! j) = handlerConfig (sockets h ! j)"
    and rs: "\<And>j. j < length (sockets h) \<Longrightarrow> readyState (sockets h' ! j) \<noteq> CLOSED \<Longrightarrow>
                  readyState (sockets h ! j) \<noteq> CLOSED"
  shows "cfg_ok h'"
  unfolding cfg_ok_def
proof (intro allI impI)
  fix i assume "websocketRef h' = Some i \<and> i < length (sockets h') \<and> readyState (sockets h' ! i) \<noteq> CLOSED"
  with r l rs have "websocketRef h = Some i \<and> i < length (sockets h) \<and> readyState (sockets h ! i) \<noteq> CLOSED"
    by auto
  with ok c hc show "configRef h' = Some (handlerConfig (sockets h' ! i))"
    by (simp add: cfg_ok_def)
qed

lemma socket_fields_sendMessage:
  "j < length (sockets h) \<Longrightarrow>
   handlerConfig (sockets (sendMessage c t now h) ! j) = handlerConfig (sockets h ! j) \<and>
   readyState (sockets (sendMessage c t now h) ! j) = readyState (sockets h ! j)"
  using sockets_sendMessage [of c t now h] by (auto simp: nth_list_update)

lemma socket_fields_browser:
  assumes j: "j < length (sockets h)" and en: "event_enabled (sockets h) b"
  shows "handlerConfig (sockets (browser_step h b) ! j) = handlerConfig (sockets h ! j) \<and>
         (readyState (sockets (browser_step h b) ! j) \<noteq> CLOSED \<longrightarrow> readyState (sockets h ! j) \<noteq> CLOSED)"
proof (cases b)
  case (WsOpen i)
  with en j show ?thesis
    by (auto simp: event_enabled_def sockets_open_step nth_list_update simp del: browser_step.simps)
next
  case (WsMessage i fr now)
  then show ?thesis by simp
next
  case (WsClose i code reason failed)
  with j show ?thesis
    by (auto simp: sockets_close_step upd_at_def nth_list_update simp del: browser_step.simps)
qed

lemma cfg_ok_sendMessage: "cfg_ok h \<Longrightarrow> cfg_ok (sendMessage c t now h)"
  by (rule cfg_ok_keep [where h = h]) (simp_all add: socket_fields_sendMessage)

lemma cfg_ok_browser: "cfg_ok h \<Longrightarrow> event_enabled (sockets h) b \<Longrightarrow> cfg_ok (browser_step h b)"
  by (rule cfg_ok_keep [where h = h]) (simp_all add: socket_fields_browser)

lemma cfg_ok_disconnect [simp]: "cfg_ok (disconnect h)"
  by (simp add: cfg_ok_def)

section \<open>Frames of one socket\<close>

lemma sock_frames_close [simp]: "sock_frames (ws_close c r w) = sock_frames w"
  by (simp add: sock_frames_def)

lemma sock_frames_ready [simp]: "sock_frames (w\<lparr>readyState := r\<rparr>) = sock_frames w"
  by (simp add: sock_frames_def)

lemma sock_frames_open:
  "sock_frames w \<Longrightarrow> sent w = [] \<Longrightarrow> sock_frames (w\<lparr>readyState := OPEN, sent := sent w @ [x]\<rparr>)"
  by (simp add: sock_frames_def)

lemma sock_frames_send:
  assumes "sock_frames w" and "sent w \<noteq> []" and "c \<noteq> []" and "js_trim c = c"
  shows "sock_frames (w\<lparr>sent := sent w @ [chat_envelope c tester_recipient (userId (handlerConfig w)) t]\<rparr>)"
  using assms by (auto simp: sock_frames_def)

lemma app_reach_socks_ok: "app_reach a \<Longrightarrow> socks_ok (hk a)"
  using app_reach_hook_reach hook_reach_invariants by blast

lemma socks_ok_nth: "socks_ok h \<Longrightarrow> i < length (sockets h) \<Longrightarrow> sock_ok (sockets h ! i)"
  by (simp add: socks_ok_def)


section \<open>Preservation of the frame invariant\<close>

lemma app_frames_apply_send:
  assumes fr: "app_frames a" and ok: "socks_ok (hk a)"
    and r: "\<And>c t. fst r = Some (c, t) \<Longrightarrow> c \<noteq> [] \<and> js_trim c = c \<and> t = tester_recipient"
  shows "app_frames (apply_send r now a)"
proof (cases "fst r")
  case None
  with fr show ?thesis by (simp add: apply_send_def app_frames_def)
next
  case (Some ct)
  then obtain c t where ct: "fst r = Some (c, t)" by (cases ct) auto
  with r have c: "c \<noteq> []" "js_trim c = c" "t = tester_recipient" by auto
  let ?h = "hk a"
  have hk': "hk (apply_send r now a) = sendMessage c t now ?h" by (simp add: apply_send_def ct)
  from fr have cfg: "cfg_ok ?h" and sf: "\<forall>w \<in> set (sockets ?h). sock_frames w"
    by (simp_all add: app_frames_def)
  from sockets_sendMessage [of c t now ?h]
  have "\<forall>w \<in> set (sockets (sendMessage c t now ?h)). sock_frames w"
  proof
    assume "sockets (sendMessage c t now ?h) = sockets ?h"
    with sf show ?thesis by simp
  next
    assume "\<exists>i cfg. websocketRef ?h = Some i \<and> i < length (sockets ?h) \<and>
      readyState (sockets ?h ! i) = OPEN \<and> configRef ?h = Some cfg \<and>
      sockets (sendMessage c t now ?h) =
        (sockets ?h)[i := (sockets ?h ! i)\<lparr>sent := sent (sockets ?h ! i) @ [chat_envelope c t (userId cfg) now]\<rparr>]"
    then obtain i and cf :: connection_config where ref: "websocketRef ?h = Some i" and i: "i < length (sockets ?h)"
      and op: "readyState (sockets ?h ! i) = OPEN" and cr: "configRef ?h = Some cf"
      and eq: "sockets (sendMessage c t now ?h) =
        (sockets ?h)[i := (sockets ?h ! i)\<lparr>sent := sent (sockets ?h ! i) @ [chat_envelope c t (userId cf) now]\<rparr>]"
      by blast
    from cfg ref i op cr have cf: "cf = handlerConfig (sockets ?h ! i)" by (simp add: cfg_ok_def)
    from socks_ok_nth [OF ok i] op have "sent (sockets ?h ! i) \<noteq> []" by (simp add: sock_ok_def)
    with sf i c have "sock_frames ((sockets ?h ! i)\<lparr>sent := sent (sockets ?h ! i) @
                        [chat_envelope c t (userId cf) now]\<rparr>)"
      by (simp add: cf sock_frames_send)
    with sf show ?thesis unfolding eq by (rule list_update_preserves)
  qed
  with cfg_ok_sendMessage [OF cfg] hk' show ?thesis by (simp add: app_frames_def)
qed


lemma app_frames_render [simp]: "app_frames (render a) = app_frames a"
  by (simp add: app_frames_def)

lemma app_frames_connect:
  assumes shape: "app_shape a" and fr: "app_frames a" and st: "app_step a ClickConnect = Some a'"
  shows "app_frames a'"
proof -
  let ?h = "hk a" and ?c = "panelConfig a"
  from st have m: "mounted a" and nc: "\<not> isConnected (state ?h)" and ff: "fields_filled ?c"
    and ng: "\<not> isConnecting (state ?h)"
    by (auto simp: panel_button_def connect_button_disabled_def split: if_splits)
  with shape have closed: "\<forall>r \<in> set (ready_of ?h). r = CLOSED" by (simp add: app_shape_def)
  then have nro: "\<not> ref_open ?h" by (rule all_closed_not_ref_open)
  from st m nc ff have a': "a' = render (a\<lparr>hk := connect ?c ?h\<rparr>)"
    by (auto simp: handleConnect_def panel_button_def connect_button_disabled_def split: if_splits)
  from fr have sf: "\<forall>w \<in> set (sockets ?h). sock_frames w" by (simp add: app_frames_def)
  show ?thesis
  proof (cases "new_websocket (ws_url ?c) ?c")
    case (Inr w)
    from new_websocket_Inr [OF Inr] ff have "sock_frames w" by (simp add: sock_frames_def)
    moreover from connect_Inr [OF Inr, of ?h] nro
    have "sockets (connect ?c ?h) = sockets ?h @ [w]" "websocketRef (connect ?c ?h) = Some (length (sockets ?h))"
      by simp_all
    ultimately show ?thesis using sf a' new_websocket_Inr [OF Inr]
      by (simp add: app_frames_def cfg_ok_def)
  next
    case (Inl e)
    from connect_Inl [OF Inl, of ?h] nro
    have eq: "sockets (connect ?c ?h) = sockets ?h" by simp
    from closed have "cfg_ok (connect ?c ?h)"
      by (auto simp: cfg_ok_def eq ready_of_def all_set_conv_all_nth)
    with sf a' eq show ?thesis by (simp add: app_frames_def)
  qed
qed

lemma app_frames_disconnect:
  assumes "app_frames a" shows "app_frames (a\<lparr>hk := disconnect (hk a)\<rparr>)"
proof -
  from assms have sf: "\<forall>w \<in> set (sockets (hk a)). sock_frames w" by (simp add: app_frames_def)
  have "\<forall>w \<in> set (sockets (disconnect (hk a))). sock_frames w"
  proof (cases "websocketRef (hk a)")
    case None
    with sf show ?thesis by (simp add: sockets_disconnect)
  next
    case (Some i)
    from sf have "\<forall>w \<in> set (upd_at i (ws_close 1000 ''Manual disconnect'') (sockets (hk a))). sock_frames w"
      by (rule upd_at_preserves) simp
    with Some show ?thesis by (simp add: sockets_disconnect)
  qed
  then show ?thesis by (simp add: app_frames_def)
qed

lemma app_frames_browser:
  assumes fr: "app_frames a" and ok: "socks_ok (hk a)" and en: "event_enabled (sockets (hk a)) b"
  shows "app_frames (a\<lparr>hk := browser_step (hk a) b\<rparr>)"
proof -
  let ?h = "hk a"
  from fr have cfg: "cfg_ok ?h" and sf: "\<forall>w \<in> set (sockets ?h). sock_frames w"
    by (simp_all add: app_frames_def)
  have "\<forall>w \<in> set (sockets (browser_step ?h b)). sock_frames w"
  proof (cases b)
    case (WsOpen i)
    with en have i: "i < length (sockets ?h)" and c: "readyState (sockets ?h ! i) = CONNECTING"
      by (simp_all add: event_enabled_def)
    from socks_ok_nth [OF ok i] c have "sent (sockets ?h ! i) = []" by (simp add: sock_ok_def)
    with sf i have "sock_frames ((sockets ?h ! i)\<lparr>readyState := OPEN, sent := sent (sockets ?h ! i) @
                      [backlog_request (userId (handlerConfig (sockets ?h ! i)))]\<rparr>)"
      by (intro sock_frames_open) simp_all
    with sf show ?thesis
      unfolding WsOpen sockets_open_step [OF i] by (rule list_update_preserves)
  next
    case (WsMessage i fr now)
    with sf show ?thesis by simp
  next
    case (WsClose i code reason failed)
    from sf show ?thesis
      unfolding WsClose sockets_close_step by (rule upd_at_preserves) simp
  qed
  with cfg_ok_browser [OF cfg en] show ?thesis by (simp add: app_frames_def)
qed


lemma app_frames_step:
  assumes reach: "app_reach a" and fr: "app_frames a" and st: "app_step a e = Some a'"
  shows "app_frames a'"
proof (cases e)
  case ClickConnect
  with app_frames_connect [OF app_reach_shape [OF reach] fr] st show ?thesis by simp
next
  case ClickDisconnect
  with st have "a' = render (a\<lparr>hk := disconnect (hk a)\<rparr>)" by (simp split: if_splits)
  with app_frames_disconnect [OF fr] show ?thesis by simp
next
  case UnmountPage
  with st have "a' = a\<lparr>hk := disconnect (hk a), chatInput := None, mounted := False\<rparr>"
    by (auto split: if_splits)
  then have "hk a' = hk (a\<lparr>hk := disconnect (hk a)\<rparr>)" by simp
  with app_frames_disconnect [OF fr] show ?thesis by (simp add: app_frames_def)
next
  case (ClickSend now)
  from st ClickSend obtain inp where ci: "chatInput a = Some inp"
    by (cases "chatInput a") simp_all
  with st ClickSend have a': "a' = render (apply_send
      (handleSendMessage inp (isConnected (state (hk a))) tester_recipient) now a)"
    by (simp split: if_splits)
  have "app_frames (apply_send (handleSendMessage inp (isConnected (state (hk a))) tester_recipient) now a)"
    by (rule app_frames_apply_send [OF fr app_reach_socks_ok [OF reach]]) (drule handleSendMessage_Some, simp)
  with a' show ?thesis by simp
next
  case (KeyPress enter shift now)
  from st KeyPress obtain inp where ci: "chatInput a = Some inp"
    by (cases "chatInput a") simp_all
  with st KeyPress have a': "a' = render (apply_send
      (handleKeyPress enter shift inp (isConnected (state (hk a))) tester_recipient) now a)"
    by (simp split: if_splits)
  have "app_frames (apply_send (handleKeyPress enter shift inp (isConnected (state (hk a))) tester_recipient) now a)"
    by (rule app_frames_apply_send [OF fr app_reach_socks_ok [OF reach]]) (drule handleKeyPress_Some, simp)
  with a' show ?thesis by simp
next
  case (Net b)
  with st have en: "event_enabled (sockets (hk a)) b"
    and a': "a' = render (a\<lparr>hk := browser_step (hk a) b\<rparr>)"
    by (simp_all split: if_splits)
  from app_frames_browser [OF fr app_reach_socks_ok [OF reach] en] a' show ?thesis by simp
next
  case (EditField f v)
  with st have "hk a' = hk a" by (auto split: if_splits)
  with fr show ?thesis by (simp add: app_frames_def)
next
  case (EditMessage v)
  with st have "hk a' = hk a" by (auto split: if_splits)
  with fr show ?thesis by (simp add: app_frames_def)
qed

lemma app_frames_initial: "app_frames initial_app"
  by (simp add: app_frames_def cfg_ok_def initial_app_def initial_hook_def)

lemma app_reach_frames: "app_reach a \<Longrightarrow> app_frames a"
proof (induction rule: app_reach.induct)
  case init
  show ?case by (rule app_frames_initial)
next
  case (step a e a')
  then show ?case by (blast intro: app_frames_step)
qed

end
