(* ===== verification/ConnectionSpec.thy ===== *)
theory ConnectionSpec
  imports ChatTypes
begin

text \<open>
  The connection life cycle as the specification states it (section 4.1 of the spec):
  \<open>Idle \<rightarrow> Connecting \<rightarrow> Connected \<rightarrow> Idle\<close> on a normal close, to an error state
  (\<open>Failed\<close>) on an abnormal close or a failed open, and a new \<open>connect\<close> restarts at
  \<open>Connecting\<close>. The phase of a \<open>chat_state\<close> is read off its two flags and its error
  text. Three choices go beyond the spec's list: any phase may stay where it is (events
  that change only the message log, a disconnect whose close has not arrived yet); a
  normal close also ends a connection that is still connecting, in \<open>Idle\<close>, as the code's
  \<open>onclose\<close> does for code 1000; and \<open>connect\<close> starts only from \<open>Idle\<close> or \<open>Failed\<close>,
  the phases in which the page offers it.
\<close>

datatype conn_phase = Idle | Connecting | Connected | Failed

definition phase :: "chat_state \<Rightarrow> conn_phase" where
  "phase st =
    (if isConnecting st then Connecting
     else if isConnected st then Connected
     else if error st \<noteq> None then Failed
     else Idle)"

inductive spec_step :: "conn_phase \<Rightarrow> conn_phase \<Rightarrow> bool" where
  stay: "spec_step p p"
| connect: "p = Idle \<or> p = Failed \<Longrightarrow> spec_step p Connecting"
| connect_fail: "p = Idle \<or> p = Failed \<Longrightarrow> spec_step p Failed"
| opened: "spec_step Connecting Connected"
| closed: "p = Connecting \<or> p = Connected \<Longrightarrow> spec_step p Idle"
| lost: "p = Connecting \<or> p = Connected \<Longrightarrow> spec_step p Failed"

code_pred spec_step .

inductive_cases spec_step_to_ConnectedE: "spec_step p Connected"
inductive_simps spec_step_iff: "spec_step p q"

lemma spec_step_to_Connected: "spec_step p Connected \<longleftrightarrow> p = Connecting \<or> p = Connected"
  by (auto elim: spec_step_to_ConnectedE intro: spec_step.intros)

end
