(* ===== verification/AppRefinement.thy ===== *)
theory AppRefinement
  imports AppFrames ConnectionSpec
begin

text \<open>
  The page refines the specification's life cycle: the phase of the hook's state moves,
  in every step of a reachable page, along an edge of \<open>spec_step\<close>. This theory holds the
  facts per operation; the theorem is in \<open>AppProperties\<close>. The proof reads the phase before
  a browser event off the shape invariant: a socket the browser can still report on
  belongs to a connecting or connected hook.
\<close>

lemma phase_same: "state h' = state h \<Longrightarrow> spec_step (phase (state h)) (phase (state h'))"
  by (simp add: spec_step.stay)

lemma phase_on_message: "phase (on_message now fr st) = phase st"
  by (subst on_message_only_messages) (simp add: phase_def)

lemma shape_live_flags:
  assumes "app_shape a" and "i < length (sockets (hk a))" and "ready_of (hk a) ! i \<noteq> CLOSED"
  shows "(isConnected (state (hk a)) \<or> isConnecting (state (hk a))) \<and>
         \<not> (isConnected (state (hk a)) \<and> isConnecting (state (hk a)))"
  using assms
  by (auto simp: app_shape_def Let_def all_set_conv_all_nth split: if_splits simp del: nth_ready_of)

lemma shape_open_connecting:
  assumes "app_shape a" and "i < length (sockets (hk a))" and "ready_of (hk a) ! i = CONNECTING"
  shows "isConnecting (state (hk a))"
  using assms
  by (auto simp: app_shape_def Let_def all_set_conv_all_nth only_live_def split: if_splits
           simp del: nth_ready_of)

lemma phase_connect:
  assumes shape: "app_shape a" and st: "app_step a ClickConnect = Some a'"
  shows "spec_step (phase (state (hk a))) (phase (state (hk a')))"
proof -
  let ?h = "hk a" and ?c = "panelConfig a"
  from st have m: "mounted a" and nc: "\<not> isConnected (state ?h)" and ng: "\<not> isConnecting (state ?h)"
    and ff: "fields_filled ?c"
    by (auto simp: panel_button_def connect_button_disabled_def split: if_splits)
  with shape have closed: "\<forall>r \<in> set (ready_of ?h). r = CLOSED" by (simp add: app_shape_def)
  then have nro: "\<not> ref_open ?h" by (rule all_closed_not_ref_open)
  from st m nc ng ff have a': "a' = render (a\<lparr>hk := connect ?c ?h\<rparr>)"
    by (auto simp: handleConnect_def panel_button_def connect_button_disabled_def)
  from nc ng have p: "phase (state ?h) = Idle \<or> phase (state ?h) = Failed" by (simp add: phase_def)
  show ?thesis
  proof (cases "new_websocket (ws_url ?c) ?c")
    case (Inr w)
    from connect_Inr_view [OF Inr nro] a' p show ?thesis
      by (simp add: phase_def spec_step.connect)
  next
    case (Inl e)
    from connect_Inl_view [OF Inl nro] a' p Inl nc show ?thesis
      by (simp add: phase_def spec_step.connect_fail connect_def Let_def)
  qed
qed

lemma phase_browser:
  assumes shape: "app_shape a" and en: "event_enabled (sockets (hk a)) b"
  shows "spec_step (phase (state (hk a))) (phase (state (browser_step (hk a) b)))"
proof (cases b)
  case (WsOpen i)
  with en have "i < length (sockets (hk a))" "ready_of (hk a) ! i = CONNECTING"
    by (simp_all add: event_enabled_def)
  with shape_open_connecting [OF shape] WsOpen show ?thesis
    by (simp add: phase_def spec_step.opened del: browser_step.simps)
next
  case (WsMessage i fr now)
  then show ?thesis by (simp add: on_ws_message_def phase_on_message spec_step.stay)
next
  case (WsClose i code reason failed)
  with en have "i < length (sockets (hk a))" "ready_of (hk a) ! i \<noteq> CLOSED"
    by (simp_all add: event_enabled_def)
  from shape_live_flags [OF shape this]
  have p: "phase (state (hk a)) = Connecting \<or> phase (state (hk a)) = Connected"
    by (auto simp: phase_def)
  with WsClose show ?thesis
    by (auto simp: phase_def on_close_def on_error_def Let_def intro: spec_step.closed spec_step.lost)
qed

end
