(* ===== verification/AppProperties.thy ===== *)
theory AppProperties
  imports AppRefinement
begin

text \<open>
  The properties of the whole page (ChatTester with its panel and chat view over the
  hook): the refinement of the specification's life cycle, the invariants of every
  reachable page state (exclusive flags, at most one live socket, nothing left open after
  unmounting, Connect unusable while a socket lives, the frames the page writes), and
  concrete sessions that show ChatTester's hard-coded props at work.
\<close>

section \<open>A session\<close>

text \<open>A user fills the form (the server URL keeps its default), connects, the socket
  opens, and the user sends \<open>hi\<close>.\<close>

abbreviation demo_cfg :: connection_config where
  "demo_cfg \<equiv> \<lparr>serverUrl = ''ws://localhost:8080/ws/chat'', jwtToken = ''t'', userId = ''u1'',
                recipientId = ''bob''\<rparr>"

abbreviation demo_session :: "ui_event list" where
  "demo_session \<equiv>
    [EditField JwtTokenField ''t'', EditField UserIdField ''u1'', EditField RecipientIdField ''bob'',
     ClickConnect, Net (WsOpen 0), EditMessage ''hi'', ClickSend 5]"

section \<open>Helpers\<close>

lemmas app_eval = hook_eval initial_app_def render_def apply_send_def initial_panel_config_def
  handleConnect_def fields_filled_def panel_button_def connect_button_disabled_def inputs_disabled_def
  handleSendMessage_def handleKeyPress_def send_button_disabled_def chat_input_disabled_def
  tester_recipient_def tester_current_user_def js_trim_visible

lemma app_run_reach: "app_reach a \<Longrightarrow> app_run a es = Some a' \<Longrightarrow> app_reach a'"
proof (induction es arbitrary: a)
  case Nil
  then show ?case by simp
next
  case (Cons e es)
  then show ?case by (auto intro: app_reach.step split: option.splits)
qed

lemma filter_eq_single: "distinct xs \<Longrightarrow> x \<in> set xs \<Longrightarrow> filter (\<lambda>y. y = x) xs = [x]"
  by (induction xs) (auto simp: filter_empty_conv)

lemma live_socks_only_live:
  "only_live (ready_of h) i \<Longrightarrow> ready_of h ! i \<noteq> CLOSED \<Longrightarrow> live_socks h = [i]"
proof -
  assume ol: "only_live (ready_of h) i" and live: "ready_of h ! i \<noteq> CLOSED"
  have "live_socks h = filter (\<lambda>j. j = i) [0..<length (sockets h)]"
    unfolding live_socks_def indices_where_def
  proof (rule filter_cong [OF refl])
    fix j assume "j \<in> set [0..<length (sockets h)]"
    with ol live show "(readyState (sockets h ! j) \<noteq> CLOSED) = (j = i)"
      by (auto simp: only_live_def)
  qed
  also from ol have "\<dots> = [i]" by (simp add: only_live_def filter_eq_single)
  finally show ?thesis .
qed

lemma live_socks_all_closed: "\<forall>r \<in> set (ready_of h). r = CLOSED \<Longrightarrow> live_socks h = []"
  by (simp add: live_socks_def indices_where_empty_iff ready_of_def)

lemma shape_live_socks:
  "app_shape a \<Longrightarrow> live_socks (hk a) = [] \<or> (\<exists>i. live_socks (hk a) = [i])"
  by (auto simp: app_shape_def Let_def live_socks_all_closed live_socks_only_live split: if_splits)

lemma demo_session_state:
  "\<exists>a. app_reach a \<and> mounted a \<and> isConnected (state (hk a)) \<and> \<not> isConnecting (state (hk a)) \<and>
       websocketRef (hk a) = Some 0 \<and> length (sockets (hk a)) = 1 \<and>
       readyState (sockets (hk a) ! 0) = OPEN \<and> handlerConfig (sockets (hk a) ! 0) = demo_cfg \<and>
       sent (sockets (hk a) ! 0) = [backlog_request ''u1'', chat_envelope ''hi'' ''recipient-id'' ''u1'' 5]"
proof -
  obtain a where run: "app_run initial_app demo_session = Some a"
    by (simp add: app_eval)
  have "app_reach a" using app_reach.init run by (rule app_run_reach)
  moreover from run have "mounted a \<and> isConnected (state (hk a)) \<and> \<not> isConnecting (state (hk a)) \<and>
       websocketRef (hk a) = Some 0 \<and> length (sockets (hk a)) = 1 \<and>
       readyState (sockets (hk a) ! 0) = OPEN \<and> handlerConfig (sockets (hk a) ! 0) = demo_cfg \<and>
       sent (sockets (hk a) ! 0) = [backlog_request ''u1'', chat_envelope ''hi'' ''recipient-id'' ''u1'' 5]"
    by (auto simp: app_eval)
  ultimately show ?thesis by blast
qed

section \<open>Refinement of the life cycle\<close>

text \<open>
  C19: the page refines the specification's connection life cycle: in every step from a
  reachable page state, the phase of the hook's state (idle, connecting, connected,
  failed) stays or moves along an edge the specification allows; so the page never
  shows a connection without a connect, never leaves the failed phase except by a new
  connect, and never reconnects while connected.
\<close>

theorem app_refines_spec:
  assumes "app_reach a" and "app_step a e = Some a'"
  shows "spec_step (phase (state (hk a))) (phase (state (hk a')))"
proof -
  have shape: "app_shape a" using assms(1) by (rule app_reach_shape)
  show ?thesis
  proof (cases e)
    case ClickConnect
    with phase_connect [OF shape] assms(2) show ?thesis by simp
  next
    case (Net b)
    with assms(2) have "event_enabled (sockets (hk a)) b" "a' = render (a\<lparr>hk := browser_step (hk a) b\<rparr>)"
      by (simp_all split: if_splits)
    with phase_browser [OF shape] show ?thesis by simp
  next
    case (ClickSend now)
    from app_step_send_form [of a e a' now] assms(2) ClickSend obtain r where "a' = render (apply_send r now a)"
      by blast
    then show ?thesis by (simp add: apply_send_def spec_step.stay split: option.splits)
  next
    case (KeyPress enter shift now)
    from app_step_send_form [of a e a' now] assms(2) KeyPress obtain r where "a' = render (apply_send r now a)"
      by blast
    then show ?thesis by (simp add: apply_send_def spec_step.stay split: option.splits)
  qed (use assms(2) in \<open>auto split: if_splits intro: spec_step.stay\<close>)
qed

theorem app_refines_spec_witness:
  "\<exists>a a'. app_reach a \<and> app_step a (Net (WsOpen 0)) = Some a' \<and>
          phase (state (hk a)) = Connecting \<and> phase (state (hk a')) = Connected \<and>
          spec_step (phase (state (hk a))) (phase (state (hk a')))"
proof -
  obtain a where run: "app_run initial_app (take 4 demo_session) = Some a"
    by (simp add: app_eval)
  have reach: "app_reach a" using app_reach.init run by (rule app_run_reach)
  from run obtain a' where st: "app_step a (Net (WsOpen 0)) = Some a'"
    by (auto simp: app_eval)
  from run st have "phase (state (hk a)) = Connecting \<and> phase (state (hk a')) = Connected"
    by (auto simp: app_eval phase_def)
  with reach st app_refines_spec [OF reach st] show ?thesis by blast
qed

section \<open>Invariants of the page\<close>

text \<open>
  C20: in every reachable state of the page, \<open>isConnected\<close> and \<open>isConnecting\<close> are never
  both true (the spec's "exactly one of them at a time"; the hook alone violates it, C8).
\<close>

theorem app_flags_exclusive:
  assumes "app_reach a"
  shows "\<not> (isConnected (state (hk a)) \<and> isConnecting (state (hk a)))"
  using app_reach_shape [OF assms] by (auto simp: app_shape_def Let_def split: if_splits)

theorem app_flags_exclusive_witness:
  "\<exists>a. app_reach a \<and> isConnected (state (hk a)) \<and> \<not> isConnecting (state (hk a)) \<and>
       \<not> (isConnected (state (hk a)) \<and> isConnecting (state (hk a)))"
  using demo_session_state app_flags_exclusive by blast

text \<open>
  C21: in every reachable state of the page, at most one socket is not closed: the page
  never holds two live connections (the spec's "exactly one transport handle"; the hook
  alone leaks one, C7).
\<close>

theorem app_one_live_socket:
  assumes "app_reach a"
  shows "length (live_socks (hk a)) \<le> 1"
  using shape_live_socks [OF app_reach_shape [OF assms]] by auto

theorem app_one_live_socket_witness:
  "\<exists>a. app_reach a \<and> live_socks (hk a) = [0] \<and> length (live_socks (hk a)) \<le> 1"
proof -
  from demo_session_state obtain a where reach: "app_reach a"
    and l: "length (sockets (hk a)) = 1" and o: "readyState (sockets (hk a) ! 0) = OPEN"
    by blast
  from l o have "live_socks (hk a) = [0]"
    by (simp add: live_socks_def indices_where_def)
  with reach app_one_live_socket [OF reach] show ?thesis by blast
qed


text \<open>
  C22: once the page is unmounted, no socket is connecting or open: the cleanup of the
  hook, run at unmount, leaves at most a closing socket behind (the spec's scoped-resource
  guarantee, which holds for the page although the hook alone can leak, C7).
\<close>

theorem app_unmount_quiesces:
  assumes "app_reach a" and "\<not> mounted a"
  shows "\<forall>w \<in> set (sockets (hk a)). readyState w = CLOSING \<or> readyState w = CLOSED"
proof -
  from app_reach_shape [OF assms(1)] assms(2)
  have "(\<forall>r \<in> set (ready_of (hk a)). r = CLOSED) \<or>
        (\<exists>i. only_live (ready_of (hk a)) i \<and> ready_of (hk a) ! i = CLOSING)"
    by (auto simp: app_shape_def Let_def)
  then have "\<forall>r \<in> set (ready_of (hk a)). r = CLOSING \<or> r = CLOSED"
    by (auto dest: only_live_set)
  then show ?thesis by (simp add: ready_of_def)
qed

theorem app_unmount_quiesces_witness:
  "\<exists>a. app_reach a \<and> \<not> mounted a \<and> readyState (hd (sockets (hk a))) = CLOSING \<and>
       (\<forall>w \<in> set (sockets (hk a)). readyState w = CLOSING \<or> readyState w = CLOSED)"
proof -
  obtain a where run: "app_run initial_app (demo_session @ [UnmountPage]) = Some a"
    by (simp add: app_eval)
  have reach: "app_reach a" using app_reach.init run by (rule app_run_reach)
  from run have "\<not> mounted a \<and> readyState (hd (sockets (hk a))) = CLOSING"
    by (auto simp: app_eval)
  with reach app_unmount_quiesces [OF reach] show ?thesis by blast
qed

text \<open>
  C23: while any socket of a reachable page is alive, the Connect button cannot be used
  (it is hidden while connected, disabled while connecting, gone after unmount); so the
  page never calls \<open>connect\<close> over a live socket.
\<close>

theorem app_connect_blocked_while_live:
  assumes "app_reach a" and "live_socks (hk a) \<noteq> []"
  shows "app_step a ClickConnect = None"
proof -
  have shape: "app_shape a" using assms(1) by (rule app_reach_shape)
  show ?thesis
  proof (rule ccontr)
    assume "app_step a ClickConnect \<noteq> None"
    then have "mounted a" "\<not> isConnected (state (hk a))" "\<not> isConnecting (state (hk a))"
      by (auto simp: panel_button_def connect_button_disabled_def split: if_splits)
    with shape have "\<forall>r \<in> set (ready_of (hk a)). r = CLOSED" by (simp add: app_shape_def)
    with assms(2) live_socks_all_closed show False by blast
  qed
qed

theorem app_connect_blocked_while_live_witness:
  "\<exists>a. app_reach a \<and> live_socks (hk a) = [0] \<and> app_step a ClickConnect = None"
proof -
  from demo_session_state obtain a where reach: "app_reach a"
    and l: "length (sockets (hk a)) = 1" and o: "readyState (sockets (hk a) ! 0) = OPEN"
    by blast
  from l o have live: "live_socks (hk a) = [0]"
    by (simp add: live_socks_def indices_where_def)
  then have "live_socks (hk a) \<noteq> []" by simp
  from app_connect_blocked_while_live [OF reach this] reach live show ?thesis by blast
qed

text \<open>
  C24: every chat frame a reachable page has written, on any socket (all frames after the
  backlog request), is a chat envelope addressed to \<open>"recipient-id"\<close>, whatever the
  recipient typed in the form, sent as the user of the socket's own configuration, with
  trimmed, non-blank content.
\<close>

theorem app_frames_fixed_recipient:
  assumes "app_reach a" and "w \<in> set (sockets (hk a))" and "f \<in> set (tl (sent w))"
  shows "\<exists>c t. f = chat_envelope c ''recipient-id'' (userId (handlerConfig w)) t \<and> c \<noteq> [] \<and> js_trim c = c"
  using app_reach_frames [OF assms(1)] assms(2,3)
  by (auto simp: app_frames_def sock_frames_def tester_recipient_def)

theorem app_frames_fixed_recipient_witness:
  "\<exists>a w. app_reach a \<and> w \<in> set (sockets (hk a)) \<and> recipientId (handlerConfig w) = ''bob'' \<and>
         chat_envelope ''hi'' ''recipient-id'' ''u1'' 5 \<in> set (tl (sent w)) \<and>
         (\<exists>c t. chat_envelope ''hi'' ''recipient-id'' ''u1'' 5 =
                chat_envelope c ''recipient-id'' (userId (handlerConfig w)) t \<and> c \<noteq> [] \<and> js_trim c = c)"
proof -
  from demo_session_state obtain a where reach: "app_reach a" and l: "length (sockets (hk a)) = 1"
    and c: "handlerConfig (sockets (hk a) ! 0) = demo_cfg"
    and s: "sent (sockets (hk a) ! 0) = [backlog_request ''u1'', chat_envelope ''hi'' ''recipient-id'' ''u1'' 5]"
    by blast
  let ?w = "sockets (hk a) ! 0"
  from l have w: "?w \<in> set (sockets (hk a))" by simp
  from s have f: "chat_envelope ''hi'' ''recipient-id'' ''u1'' 5 \<in> set (tl (sent ?w))" by simp
  from c have r: "recipientId (handlerConfig ?w) = ''bob''" by simp
  from app_frames_fixed_recipient [OF reach w f] reach w f r show ?thesis by blast
qed

text \<open>
  C25: every socket of a reachable page was created from a completely filled form: the
  server URL, token, user id and recipient id it was opened with are all non-empty (the
  spec's precondition of a connect attempt).
\<close>

theorem app_sockets_filled:
  assumes "app_reach a" and "w \<in> set (sockets (hk a))"
  shows "fields_filled (handlerConfig w)"
  using app_reach_frames [OF assms(1)] assms(2) by (simp add: app_frames_def sock_frames_def)

theorem app_sockets_filled_witness:
  "\<exists>a w. app_reach a \<and> w \<in> set (sockets (hk a)) \<and> fields_filled (handlerConfig w)"
proof -
  from demo_session_state obtain a where reach: "app_reach a" and l: "length (sockets (hk a)) = 1"
    by blast
  then have "sockets (hk a) ! 0 \<in> set (sockets (hk a))" by simp
  with reach app_sockets_filled [OF reach] show ?thesis by blast
qed


section \<open>ChatTester's hard-coded props\<close>

text \<open>
  C27: between a click on Disconnect and the close event the hook still reports
  \<open>isConnected\<close>, so the chat view stays on screen with its send button enabled, but
  \<open>websocketRef\<close> is already cleared: in every such state a click on Send with a
  non-blank input clears the input and only shows the "Not Connected" notice; no socket
  is written and the connection state is unchanged.
\<close>

theorem app_send_while_disconnecting:
  assumes "mounted a" and "isConnected (state (hk a))" and "websocketRef (hk a) = None"
    and "chatInput a = Some inp" and "js_trim inp \<noteq> []"
  shows "app_step a (ClickSend now) =
           Some (a\<lparr>hk := emit ''Not Connected'' ''Please connect to the server first'' True (hk a),
                   chatInput := Some []\<rparr>)"
  using assms
  by (simp add: send_button_disabled_def handleSendMessage_def apply_send_def sendMessage_def
      render_def emit_def tester_recipient_def)

theorem app_send_while_disconnecting_witness:
  "\<exists>a. app_reach a \<and> mounted a \<and> isConnected (state (hk a)) \<and> websocketRef (hk a) = None \<and>
       chatInput a = Some ''again'' \<and> js_trim ''again'' \<noteq> [] \<and>
       readyState (hd (sockets (hk a))) = CLOSING \<and>
       app_step a (ClickSend 7) =
         Some (a\<lparr>hk := emit ''Not Connected'' ''Please connect to the server first'' True (hk a),
                 chatInput := Some []\<rparr>)"
proof -
  obtain a where run: "app_run initial_app (demo_session @ [ClickDisconnect, EditMessage ''again'']) = Some a"
    by (simp add: app_eval)
  have reach: "app_reach a" using app_reach.init run by (rule app_run_reach)
  from run have m: "mounted a" and c: "isConnected (state (hk a))" and r: "websocketRef (hk a) = None"
    and i: "chatInput a = Some ''again''" and cl: "readyState (hd (sockets (hk a))) = CLOSING"
    by (auto simp: app_eval)
  have t: "js_trim ''again'' \<noteq> []" by (simp add: js_trim_visible)
  from app_send_while_disconnecting [OF m c r i t] reach m c r i t cl show ?thesis by blast
qed

section \<open>The chat view\<close>

text \<open>
  C28: the send button's \<open>disabled\<close> condition (ChatInterface line 140) is exactly the
  guard of \<open>handleSendMessage\<close>: a click on an enabled button always calls
  \<open>onSendMessage\<close>, with the trimmed input and the recipient, and the handler never does
  anything for a disabled one.
\<close>

theorem send_button_matches_handler:
  "fst (handleSendMessage input connected recipient) =
     (if send_button_disabled input connected then None else Some (js_trim input, recipient))"
  by (simp add: handleSendMessage_def send_button_disabled_def)


section \<open>The page cannot get stuck\<close>

lemma app_run_append:
  "app_run a (xs @ ys) = (case app_run a xs of None \<Rightarrow> None | Some b \<Rightarrow> app_run b ys)"
  by (induction xs arbitrary: a) (auto split: option.splits)

lemma open_step_connects:
  assumes "i < length (sockets (hk a))" and "readyState (sockets (hk a) ! i) = CONNECTING"
  shows "\<exists>a'. app_step a (Net (WsOpen i)) = Some a' \<and> isConnected (state (hk a'))"
  using assms by (simp add: event_enabled_def del: browser_step.simps)

lemma connection_config_overwrite:
  "c\<lparr>serverUrl := u, jwtToken := t, userId := i, recipientId := r\<rparr> =
   \<lparr>serverUrl = u, jwtToken = t, userId = i, recipientId = r\<rparr>"
  by (cases c) simp

lemma idle_can_connect:
  assumes m: "mounted a" and nc: "\<not> isConnected (state (hk a))" and ng: "\<not> isConnecting (state (hk a))"
    and closed: "\<forall>r \<in> set (ready_of (hk a)). r = CLOSED"
  shows "\<exists>a'. app_run a [EditField ServerUrlField ''ws://x'', EditField JwtTokenField ''t'',
                          EditField UserIdField ''u'', EditField RecipientIdField ''r'', ClickConnect,
                          Net (WsOpen (length (sockets (hk a))))] = Some a' \<and> isConnected (state (hk a'))"
proof -
  let ?cfg = "\<lparr>serverUrl = ''ws://x'', jwtToken = ''t'', userId = ''u'', recipientId = ''r''\<rparr>"
  let ?n = "length (sockets (hk a))"
  have nro: "\<not> ref_open (hk a)" using closed by (rule all_closed_not_ref_open)
  have ws: "new_websocket (ws_url ?cfg) ?cfg =
              Inr \<lparr>url = ws_url ?cfg, readyState = CONNECTING, sent = [], closeCall = None, handlerConfig = ?cfg\<rparr>"
    by (simp add: new_websocket_def url_eval ws_url_def encodeURIComponent_def uri_unreserved_def)
  let ?a1 = "render (a\<lparr>panelConfig := ?cfg, hk := connect ?cfg (hk a)\<rparr>)"
  have run1: "app_run a [EditField ServerUrlField ''ws://x'', EditField JwtTokenField ''t'',
                        EditField UserIdField ''u'', EditField RecipientIdField ''r'', ClickConnect] = Some ?a1"
    using m nc ng by (simp add: inputs_disabled_def panel_button_def connect_button_disabled_def
                                 fields_filled_def handleConnect_def connection_config_overwrite)
  from connect_Inr [OF ws, of "hk a"] nro
  have "sockets (hk ?a1) = sockets (hk a) @ [\<lparr>url = ws_url ?cfg, readyState = CONNECTING, sent = [],
                                              closeCall = None, handlerConfig = ?cfg\<rparr>]"
    by simp
  then have "?n < length (sockets (hk ?a1))" "readyState (sockets (hk ?a1) ! ?n) = CONNECTING"
    by simp_all
  from open_step_connects [OF this] obtain a' where
    step: "app_step ?a1 (Net (WsOpen ?n)) = Some a'" and c: "isConnected (state (hk a'))" by blast
  have "app_run a ([EditField ServerUrlField ''ws://x'', EditField JwtTokenField ''t'',
                    EditField UserIdField ''u'', EditField RecipientIdField ''r'', ClickConnect] @
                   [Net (WsOpen ?n)]) = Some a'"
    unfolding app_run_append run1 by (simp only: option.case app_run.simps step)
  with c show ?thesis by auto
qed


text \<open>
  C33: the page never gets stuck away from a connection: from every reachable state of
  the mounted page, some sequence of user actions and browser events (fill the form,
  click Connect, the socket opens) leads to a state in which the hook is connected.
\<close>

theorem app_can_connect:
  assumes "app_reach a" and "mounted a"
  shows "\<exists>es a'. app_run a es = Some a' \<and> isConnected (state (hk a'))"
proof -
  from app_reach_shape [OF assms(1)] assms(2) consider
      (idle) "\<not> isConnected (state (hk a))" "\<not> isConnecting (state (hk a))"
        "\<forall>r \<in> set (ready_of (hk a)). r = CLOSED"
    | (connecting) i where "only_live (ready_of (hk a)) i" "ready_of (hk a) ! i = CONNECTING"
    | (connected) "isConnected (state (hk a))"
    unfolding app_shape_def Let_def by (auto simp del: nth_ready_of)
  then show ?thesis
  proof cases
    case idle
    from idle_can_connect [OF assms(2) idle] show ?thesis by blast
  next
    case connecting
    then have "i < length (sockets (hk a))" "readyState (sockets (hk a) ! i) = CONNECTING"
      by (simp_all add: only_live_def)
    from open_step_connects [OF this] obtain a' where
      "app_step a (Net (WsOpen i)) = Some a'" "isConnected (state (hk a'))" by blast
    then have "app_run a [Net (WsOpen i)] = Some a' \<and> isConnected (state (hk a'))" by simp
    then show ?thesis by blast
  next
    case connected
    then have "app_run a [] = Some a \<and> isConnected (state (hk a))" by simp
    then show ?thesis by blast
  qed
qed

theorem app_can_connect_witness:
  "app_reach initial_app \<and> mounted initial_app \<and>
   (\<exists>es a'. app_run initial_app es = Some a' \<and> isConnected (state (hk a')))"
proof -
  have m: "mounted initial_app" by (simp add: initial_app_def)
  from app_can_connect [OF app_reach.init m] app_reach.init m show ?thesis by blast
qed

end
