(* ===== verification/ChatViews.thy ===== *)
theory ChatViews
  imports AppProperties
begin

text \<open>
  What the page puts on the screen, as data: the JSX of \<open>ConnectionPanel\<close> (badge, the
  form, the error box, the button), of \<open>ChatInterface\<close> (title, message count, the
  bubbles of the log or the empty notice, the input and its send button) and of
  \<open>ChatTester\<close> (the panel, and the chat view while connected). Rendering a value as a
  React child is modelled for the message fields the view interpolates: strings and
  numbers become text, \<open>true\<close>, \<open>false\<close>, \<open>null\<close> and \<open>undefined\<close> nothing, arrays
  their elements, and a plain object throws, which unmounts the page. Layout, classes,
  icons and the locale time format are not modelled: a bubble keeps the raw timestamp
  that \<open>formatTimestamp\<close> receives.
\<close>

section \<open>React children\<close>

definition int_str :: "int \<Rightarrow> string" where
  "int_str n = (if n < 0 then ''-'' @ nat_str (nat (- n)) else nat_str (nat n))"

fun react_text :: "jsval \<Rightarrow> js_error + string"
  and react_texts :: "jsval list \<Rightarrow> js_error + string" where
  "react_text (Str s) = Inr s"
| "react_text (Num n) = Inr (int_str n)"
| "react_text (Bool b) = Inr []"
| "react_text Null = Inr []"
| "react_text Undefined = Inr []"
| "react_text (Arr vs) = react_texts vs"
| "react_text (Obj kvs) = Inl TypeError"
| "react_texts [] = Inr []"
| "react_texts (v # vs) = js_bind (react_text v) (\<lambda>t. js_bind (react_texts vs) (\<lambda>ts. Inr (t @ ts)))"

text \<open>A value with no object inside, at any depth of arrays.\<close>

fun renderable :: "jsval \<Rightarrow> bool"
  and renderables :: "jsval list \<Rightarrow> bool" where
  "renderable (Obj kvs) = False"
| "renderable (Arr vs) = renderables vs"
| "renderable v = True"
| "renderables [] = True"
| "renderables (v # vs) = (renderable v \<and> renderables vs)"

section \<open>ChatInterface\<close>

datatype bubble_side = SentBubble | ReceivedBubble

record bubble =
  b_side :: bubble_side
  b_sender :: string
  b_clock :: bool
  b_text :: string
  b_stamp :: jsval

text \<open>One entry of \<open>messages.map\<close> (lines 84-121): the side and colours by
  \<open>isCurrentUser\<close>, the sender label (\<open>'You'\<close> or the rendered \<open>fromId\<close>), the pending
  clock, the timestamp, the rendered content.\<close>

definition view_message :: "string \<Rightarrow> message \<Rightarrow> js_error + bubble" where
  "view_message current m =
    (let own = isCurrentUser m current in
     js_bind (if own then Inr ''You'' else react_text (fromId m)) (\<lambda>sender.
     js_bind (react_text (content m)) (\<lambda>text.
       Inr \<lparr>b_side = (if own then SentBubble else ReceivedBubble), b_sender = sender,
            b_clock = shows_pending_clock m current, b_text = text, b_stamp = timestamp m\<rparr>)))"

record chat_view =
  cv_title :: string
  cv_count :: nat
  cv_badge_default :: bool
  cv_empty :: bool
  cv_bubbles :: "bubble list"
  cv_input :: string
  cv_placeholder :: string
  cv_input_disabled :: bool
  cv_send_disabled :: bool

text \<open>The returned JSX (lines 59-153).\<close>

definition chat_view :: "message list \<Rightarrow> string \<Rightarrow> string \<Rightarrow> bool \<Rightarrow> string \<Rightarrow> js_error + chat_view" where
  "chat_view ms current recipient connected input =
    js_bind (if ms = [] then Inr [] else js_map (view_message current) ms) (\<lambda>bs.
      Inr \<lparr>cv_title = ''Chat with '' @ recipient, cv_count = length ms, cv_badge_default = connected,
           cv_empty = (ms = []), cv_bubbles = bs, cv_input = input,
           cv_placeholder = (if connected then ''Type your message...'' else ''Connect to start chatting''),
           cv_input_disabled = chat_input_disabled connected,
           cv_send_disabled = send_button_disabled input connected\<rparr>)"

section \<open>ConnectionPanel\<close>

record panel_view =
  pv_badge :: badge
  pv_form :: connection_config
  pv_inputs_disabled :: bool
  pv_error :: "string option"
  pv_button :: panel_button
  pv_button_label :: string
  pv_button_disabled :: bool

text \<open>The returned JSX (lines 67-175): the Connect button reads "Connecting..." while
  connecting; the Disconnect button is never disabled.\<close>

definition panel_view :: "connection_config \<Rightarrow> bool \<Rightarrow> bool \<Rightarrow> string option \<Rightarrow> panel_view" where
  "panel_view c connected connecting e =
    \<lparr>pv_badge = getStatusBadge connected connecting, pv_form = c,
     pv_inputs_disabled = inputs_disabled connected connecting,
     pv_error = (if error_shown e then e else None),
     pv_button = panel_button connected,
     pv_button_label = (if \<not> connected then (if connecting then ''Connecting...'' else ''Connect'')
                        else ''Disconnect''),
     pv_button_disabled = (\<not> connected \<and> connect_button_disabled c connecting)\<rparr>"

section \<open>ChatTester\<close>

record page_view =
  pg_panel :: panel_view
  pg_chat :: "chat_view option"

text \<open>The returned JSX (lines 17-47): the panel always, the chat view while connected, with
  ChatTester's fixed \<open>currentUserId\<close> and \<open>recipientId\<close>. An exception while rendering is
  the \<open>Inl\<close> result.\<close>

definition page_view :: "app \<Rightarrow> js_error + page_view" where
  "page_view a =
    (let st = state (hk a);
         pv = panel_view (panelConfig a) (isConnected st) (isConnecting st) (error st)
     in if isConnected st
        then js_bind (chat_view (messages st) (tester_current_user st) tester_recipient (isConnected st)
                        (case chatInput a of None \<Rightarrow> [] | Some s \<Rightarrow> s))
               (\<lambda>cv. Inr \<lparr>pg_panel = pv, pg_chat = Some cv\<rparr>)
        else Inr \<lparr>pg_panel = pv, pg_chat = None\<rparr>)"

section \<open>Lemmas\<close>

lemma react_text_renderable:
  "renderable v \<Longrightarrow> \<exists>t. react_text v = Inr t"
  "renderables vs \<Longrightarrow> \<exists>t. react_texts vs = Inr t"
  by (induction v and vs rule: react_text_react_texts.induct) auto

lemma js_map_Inr_rel:
  assumes "\<And>x. x \<in> set xs \<Longrightarrow> \<exists>y. f x = Inr y \<and> P x y"
  shows "\<exists>ys. js_map f xs = Inr ys \<and> list_all2 P xs ys"
  using assms
proof (induction xs)
  case Nil
  then show ?case by simp
next
  case (Cons x xs)
  then obtain y ys where "f x = Inr y" "P x y" "js_map f xs = Inr ys" "list_all2 P xs ys"
    by (metis list.set_intros)
  then show ?case by simp
qed

lemma view_message_renderable:
  assumes "renderable (content m)" and "renderable (fromId m)"
  shows "\<exists>b. view_message current m = Inr b \<and> b_stamp b = timestamp m"
proof -
  from react_text_renderable(1) [OF assms(1)] obtain t where t: "react_text (content m) = Inr t" ..
  from react_text_renderable(1) [OF assms(2)] obtain f where f: "react_text (fromId m) = Inr f" ..
  from t f show ?thesis by (simp add: view_message_def Let_def)
qed

lemma react_text_Inl:
  "react_text v = Inl e \<Longrightarrow> e = TypeError"
  "react_texts vs = Inl e \<Longrightarrow> e = TypeError"
  by (induction v and vs rule: react_text_react_texts.induct) (auto simp: js_bind_def split: sum.splits)

lemma view_message_Inl: "view_message current m = Inl e \<Longrightarrow> e = TypeError"
  by (auto simp: view_message_def Let_def js_bind_def react_text_Inl split: sum.splits if_splits)

lemma view_message_Inr:
  "view_message current m = Inr b \<Longrightarrow>
   b_side b = (if isCurrentUser m current then SentBubble else ReceivedBubble) \<and>
   b_clock b = shows_pending_clock m current"
  by (auto simp: view_message_def Let_def js_bind_def split: sum.splits if_splits)

lemma view_message_object_content:
  "content m = Obj kvs \<Longrightarrow> view_message current m = Inl TypeError"
  by (auto simp: view_message_def Let_def js_bind_def dest: react_text_Inl split: sum.splits)

lemma chat_view_nth:
  assumes "chat_view ms current recipient connected input = Inr cv" and "j < length ms"
  shows "j < length (cv_bubbles cv) \<and> view_message current (ms ! j) = Inr (cv_bubbles cv ! j)"
proof -
  from assms(2) have ne: "ms \<noteq> []" by auto
  with assms(1) obtain bs where bs: "js_map (view_message current) ms = Inr bs" and cv: "cv_bubbles cv = bs"
    by (auto simp: chat_view_def js_bind_def split: sum.splits)
  from js_map_Inr_length [OF bs] js_map_Inr_nth [OF bs assms(2)] assms(2) cv show ?thesis by simp
qed

lemma chat_view_Inl:
  assumes "m \<in> set ms" and "view_message current m = Inl e"
  shows "chat_view ms current recipient connected input = Inl TypeError"
proof -
  from js_map_Inl [of m ms "view_message current" e, OF assms] obtain e' where e': "js_map (view_message current) ms = Inl e'" by blast
  from js_map_Inl_elem [OF e'] have "e' = TypeError" by (auto dest: view_message_Inl)
  with e' assms(1) show ?thesis by (auto simp: chat_view_def)
qed

lemma page_view_chat:
  assumes "page_view a = Inr pg" and "pg_chat pg = Some cv"
  shows "isConnected (state (hk a)) \<and>
         chat_view (messages (state (hk a))) ''your-user-id'' tester_recipient True
           (case chatInput a of None \<Rightarrow> [] | Some s \<Rightarrow> s) = Inr cv"
  using assms by (auto simp: page_view_def Let_def tester_current_user_def js_bind_def split: if_splits sum.splits)

lemma chatInput_render: "(chatInput (render a) \<noteq> None) = isConnected (state (hk a))"
  by (simp add: render_def)

lemma app_step_view_input:
  assumes st: "app_step a e = Some a'" and m: "mounted a'"
    and ih: "mounted a \<Longrightarrow> (chatInput a \<noteq> None) = isConnected (state (hk a))"
  shows "(chatInput a' \<noteq> None) = isConnected (state (hk a'))"
proof (cases e)
  case (EditField f v)
  with st ih show ?thesis by (auto split: if_splits)
next
  case (EditMessage v)
  with st ih show ?thesis by (auto split: if_splits)
next
  case UnmountPage
  with st m show ?thesis by (auto split: if_splits)
next
  case (ClickSend now)
  from app_step_send_form [of a e a' now] st ClickSend obtain r where "a' = render (apply_send r now a)"
    by blast
  then show ?thesis by (simp only: chatInput_render hk_render)
next
  case (KeyPress enter shift now)
  from app_step_send_form [of a e a' now] st KeyPress obtain r where "a' = render (apply_send r now a)"
    by blast
  then show ?thesis by (simp only: chatInput_render hk_render)
next
  case ClickConnect
  with st obtain x where "a' = render x" by (auto split: if_splits)
  then show ?thesis by (simp only: chatInput_render hk_render)
next
  case ClickDisconnect
  with st obtain x where "a' = render x" by (auto split: if_splits)
  then show ?thesis by (simp only: chatInput_render hk_render)
next
  case (Net b)
  with st obtain x where "a' = render x" by (auto split: if_splits)
  then show ?thesis by (simp only: chatInput_render hk_render)
qed

section \<open>Properties of the views\<close>

text \<open>
  C29: when no message of the log has an object as content or sender, the chat view
  renders: one bubble per message, in the order of the log (the bubbles carry the
  messages' timestamps in log order), under a count badge that shows the log's length.
\<close>

theorem chat_view_renders:
  assumes "\<forall>m \<in> set ms. renderable (content m) \<and> renderable (fromId m)"
  shows "\<exists>v. chat_view ms current recipient connected input = Inr v \<and> cv_count v = length ms \<and>
             map b_stamp (cv_bubbles v) = map timestamp ms"
proof -
  from assms have "\<exists>bs. js_map (view_message current) ms = Inr bs \<and>
                        list_all2 (\<lambda>m b. b_stamp b = timestamp m) ms bs"
    by (intro js_map_Inr_rel) (auto dest: view_message_renderable)
  then obtain bs where bs: "js_map (view_message current) ms = Inr bs"
    and rel: "list_all2 (\<lambda>m b. b_stamp b = timestamp m) ms bs" by blast
  from rel have "map b_stamp bs = map timestamp ms"
    by (induction rule: list_all2_induct) simp_all
  with bs show ?thesis by (cases "ms = []") (simp_all add: chat_view_def)
qed

theorem chat_view_renders_witness:
  "renderable (Num 7) \<and> renderable (Str ''u2'') \<and>
   (\<exists>v. chat_view [\<lparr>msg_id = Str ''1'', content = Num 7, fromId = Str ''u2'', toId = Str ''u1'',
                     timestamp = Str ''t0'', delivered = Bool False\<rparr>] ''your-user-id'' ''recipient-id'' True [] = Inr v \<and>
        cv_count v = 1 \<and> map b_stamp (cv_bubbles v) = [Str ''t0''])"
  using chat_view_renders [of "[\<lparr>msg_id = Str ''1'', content = Num 7, fromId = Str ''u2'', toId = Str ''u1'',
                 timestamp = Str ''t0'', delivered = Bool False\<rparr>]" "''your-user-id''" "''recipient-id''" True "[]"]
  by simp

text \<open>
  C30: a message whose \<open>content\<close> is a JSON object (\<open>normalizeMessage\<close> keeps it as it
  is) brings the whole page down once the chat view is on screen: React refuses an object
  as a child, so rendering ChatTester throws, whatever the other messages of the log are.
\<close>

theorem page_object_content_crashes:
  assumes "isConnected (state (hk a))" and "m \<in> set (messages (state (hk a)))"
    and "content m = Obj kvs"
  shows "page_view a = Inl TypeError"
proof -
  from assms(2) view_message_object_content [OF assms(3)]
  have "chat_view (messages (state (hk a))) (tester_current_user (state (hk a))) tester_recipient True
          (case chatInput a of None \<Rightarrow> [] | Some s \<Rightarrow> s) = Inl TypeError"
    by (rule chat_view_Inl)
  with assms(1) show ?thesis by (simp add: page_view_def Let_def)
qed

theorem page_object_content_crashes_witness:
  "\<exists>a. app_reach a \<and> isConnected (state (hk a)) \<and>
       last (messages (state (hk a))) \<in> set (messages (state (hk a))) \<and>
       content (last (messages (state (hk a)))) = Obj [(''text'', Str ''hi'')] \<and>
       page_view a = Inl TypeError"
proof -
  obtain a where run: "app_run initial_app
         (demo_session @ [Net (WsMessage 0 (Frame (Obj [(''type'', Str ''message''),
            (''content'', Obj [(''text'', Str ''hi'')]), (''fromId'', Str ''u2'')])) 6)])
         = Some a"
    by (simp add: app_eval on_message_def handle_frame_def normalize_message_def)
  have reach: "app_reach a" using app_reach.init run by (rule app_run_reach)
  from run have c: "isConnected (state (hk a))" by (auto simp: app_eval on_message_def handle_frame_def normalize_message_def)
  from run have ne: "messages (state (hk a)) \<noteq> []"
    by (auto simp: app_eval on_message_def handle_frame_def normalize_message_def)
  from run have o: "content (last (messages (state (hk a)))) = Obj [(''text'', Str ''hi'')]"
    by (auto simp: app_eval on_message_def handle_frame_def normalize_message_def)
  from ne have l: "last (messages (state (hk a))) \<in> set (messages (state (hk a)))" by simp
  from page_object_content_crashes [OF c l o] reach c l o show ?thesis by blast
qed

text \<open>
  C26: ChatTester passes \<open>currentUserId = "your-user-id"\<close> whenever it is connected
  (line 41), so the chat view recognises no sender but that literal: whenever the page
  renders its chat view, every message of the log whose \<open>fromId\<close> is any other string,
  the signed-in user's own id included, is drawn as a received bubble without the
  pending clock.
\<close>

theorem app_own_message_not_recognised:
  assumes "page_view a = Inr pg" and "pg_chat pg = Some cv"
    and "j < length (messages (state (hk a)))" and "fromId (messages (state (hk a)) ! j) = Str u"
    and "u \<noteq> ''your-user-id''"
  shows "j < length (cv_bubbles cv) \<and> b_side (cv_bubbles cv ! j) = ReceivedBubble \<and>
         \<not> b_clock (cv_bubbles cv ! j)"
proof -
  from page_view_chat [OF assms(1,2)] chat_view_nth [OF _ assms(3)]
  have "j < length (cv_bubbles cv) \<and>
        view_message ''your-user-id'' (messages (state (hk a)) ! j) = Inr (cv_bubbles cv ! j)"
    by blast
  with view_message_Inr assms(4,5) show ?thesis
    by (fastforce simp: isCurrentUser_def shows_pending_clock_def)
qed

theorem app_own_message_not_recognised_witness:
  "\<exists>a pg cv. app_reach a \<and> page_view a = Inr pg \<and> pg_chat pg = Some cv \<and>
       0 < length (messages (state (hk a))) \<and>
       fromId (messages (state (hk a)) ! 0) = Str (userId (handlerConfig (sockets (hk a) ! 0))) \<and>
       userId (handlerConfig (sockets (hk a) ! 0)) = ''u1'' \<and> ''u1'' \<noteq> ''your-user-id'' \<and>
       b_side (cv_bubbles cv ! 0) = ReceivedBubble"
proof -
  obtain a where run: "app_run initial_app
         (demo_session @ [Net (WsMessage 0 (Frame (Obj [(''type'', Str ''message''), (''id'', Str ''m1''),
            (''content'', Str ''hi''), (''fromId'', Str ''u1''), (''toId'', Str ''recipient-id'')])) 6)])
         = Some a"
    by (simp add: app_eval on_message_def handle_frame_def normalize_message_def)
  have reach: "app_reach a" using app_reach.init run by (rule app_run_reach)
  from run have "\<exists>pg cv. page_view a = Inr pg \<and> pg_chat pg = Some cv"
    by (auto simp: app_eval on_message_def handle_frame_def normalize_message_def isCurrentUser_def
        page_view_def chat_view_def view_message_def)
  then obtain pg cv where pv: "page_view a = Inr pg" and pc: "pg_chat pg = Some cv" by blast
  from run have l: "0 < length (messages (state (hk a)))"
    by (auto simp: app_eval on_message_def handle_frame_def normalize_message_def)
  from run have f: "fromId (messages (state (hk a)) ! 0) = Str ''u1''"
    by (auto simp: app_eval on_message_def handle_frame_def normalize_message_def)
  from run have u: "userId (handlerConfig (sockets (hk a) ! 0)) = ''u1''"
    by (auto simp: app_eval)
  have n: "''u1'' \<noteq> ''your-user-id''" by simp
  from app_own_message_not_recognised [OF pv pc l f n] reach pv pc l f u n show ?thesis by auto
qed

text \<open>
  C31: in every reachable state of the mounted page, the chat view (with its input) is
  on screen exactly while the hook reports \<open>isConnected\<close>; in particular the panel shows
  its Disconnect button exactly when the chat view is there.
\<close>

theorem app_chat_view_iff_connected:
  assumes "app_reach a" and "mounted a"
  shows "(chatInput a \<noteq> None) = isConnected (state (hk a)) \<and>
         (pv_button (panel_view (panelConfig a) (isConnected (state (hk a))) (isConnecting (state (hk a)))
            (error (state (hk a)))) = DisconnectButton) = (chatInput a \<noteq> None)"
proof -
  from assms have "(chatInput a \<noteq> None) = isConnected (state (hk a))"
  proof (induction arbitrary: rule: app_reach.induct)
    case init
    then show ?case by (simp add: initial_app_def initial_hook_def initial_chat_state_def)
  next
    case (step a e a')
    show ?case by (rule app_step_view_input [OF step.hyps(2) step.prems step.IH])
  qed
  then show ?thesis by (simp add: panel_view_def panel_button_def)
qed

theorem app_chat_view_iff_connected_witness:
  "\<exists>a. app_reach a \<and> mounted a \<and> chatInput a = Some [] \<and>
       (chatInput a \<noteq> None) = isConnected (state (hk a)) \<and>
       (pv_button (panel_view (panelConfig a) (isConnected (state (hk a))) (isConnecting (state (hk a)))
          (error (state (hk a)))) = DisconnectButton) = (chatInput a \<noteq> None)"
proof -
  obtain a where run: "app_run initial_app demo_session = Some a"
    by (simp add: app_eval)
  have reach: "app_reach a" using app_reach.init run by (rule app_run_reach)
  from run have m: "mounted a" and c: "chatInput a = Some []" by (auto simp: app_eval)
  from app_chat_view_iff_connected [OF reach m] reach m c show ?thesis by blast
qed

text \<open>
  C32: the panel's status badge is the specification's phase of the hook's state:
  "Connecting..." in the connecting phase, "Connected" in the connected phase, and
  "Disconnected" both when idle and after an error.
\<close>

theorem badge_is_phase:
  "pv_badge (panel_view c (isConnected st) (isConnecting st) e) =
     (case phase st of Connecting \<Rightarrow> BadgeConnecting | Connected \<Rightarrow> BadgeConnected
      | _ \<Rightarrow> BadgeDisconnected)"
  by (simp add: panel_view_def getStatusBadge_def phase_def)

end
