(* ===== verification/Spec2Isabelle.thy ===== *)
theory Spec2Isabelle
  imports MessageTyping ChatViews
begin

text \<open>
  \<^bold>\<open>Verification of the WebSocket chat test client.\<close>

  \<^medskip>
  \<^bold>\<open>The program.\<close> A React page (\<open>src/src/components/ChatTester.tsx\<close>) combines a
  connection form (\<open>ConnectionPanel.tsx\<close>), a chat view (\<open>ChatInterface.tsx\<close>) and the
  hook \<open>useWebSocket\<close> (\<open>src/src/hooks/useWebSocket.ts\<close>), which owns one browser
  \<open>WebSocket\<close> at a time, the connection configuration, and the state snapshot of
  \<open>src/src/types/chat.ts\<close> (connected/connecting flags, message log, error text). The
  interface calls \<open>connect\<close>, \<open>disconnect\<close> and \<open>sendMessage\<close>; the browser calls
  the handlers \<open>onopen\<close>, \<open>onmessage\<close>, \<open>onerror\<close>, \<open>onclose\<close> that \<open>connect\<close>
  attaches to each socket it creates.

  \<^medskip>
  \<^bold>\<open>Theories.\<close>
  \<^item> \<open>Prelude\<close>: type names (clock readings, socket ids), rule collections, list and
    character lemmas shared by the components.
  \<^item> \<open>JsRuntime\<close>: the JavaScript values the hook reads (JSON values and
    \<open>undefined\<close>), property reads that throw on \<open>null\<close>, truthiness and \<open>||\<close>,
    \<open>Array.prototype.map\<close> with exceptions, \<open>Number.prototype.toString\<close> and
    \<open>Date.prototype.toISOString\<close>; exceptions are the \<open>Inl\<close> side of \<open>js_error + 'a\<close>.
  \<^item> \<open>ChatTypes\<close>: the records \<open>message\<close>, \<open>connection_config\<close>, \<open>chat_state\<close>.
  \<^item> \<open>MessageStore\<close>: the \<open>onmessage\<close> reduction (\<open>normalize_message\<close>,
    \<open>handle_frame\<close>, \<open>on_message\<close>): append a \<open>message\<close>, replace the log by a
    \<open>recent_messages\<close> backlog, ignore anything else, catch every exception.
  \<^item> \<open>UriEncode\<close>: \<open>encodeURIComponent\<close> as percent-encoding of UTF-8 bytes, the
    connection URL \<open>ws_url\<close>, and the reading of the query back (the spec's URL
    convention), for the round trip.
  \<^item> \<open>Transport\<close>: the browser's socket objects: constructor (throws
    \<open>SyntaxError\<close> when the URL parser of the WHATWG URL standard, modelled as far
    as the constructor's test needs it (stripping of control characters, scheme, the
    special schemes' authority with host and port, relative URLs resolved against the
    page), rejects the URL, its scheme is not a WebSocket or HTTP scheme, or it has a
    fragment), \<open>send\<close> (throws while connecting, drops once closing), \<open>close\<close>,
    and which events the browser can deliver in which \<open>readyState\<close>.
  \<^item> \<open>UseWebSocket\<close>: the hook's state record \<open>hook\<close> (React state, the two refs, the
    created sockets with the configuration their handler closures captured, the toasts
    shown) and one definition per function and handler: \<open>connect\<close>, \<open>disconnect\<close>,
    \<open>sendMessage\<close>, \<open>on_open\<close>, \<open>on_ws_message\<close>, \<open>on_error\<close>, \<open>on_close\<close>;
    \<open>browser_step\<close> dispatches a browser event to the handlers of its socket,
    \<open>hook_step\<close> runs one API call or event (\<open>None\<close> when the browser cannot deliver it),
    \<open>hook_run\<close> a list of them.
  \<^item> \<open>HookInvariants\<close>: the reachable states \<open>hook_reach\<close> (inductive) and two
    invariants proved by rule induction: the reference names a created socket and comes
    with a configuration; every socket sends the backlog request first.
  \<^item> \<open>HookProperties\<close>: the claims about the hook (C1-C10).
  \<^item> \<open>MessageTyping\<close>: which fields of a stored message keep the declared type
    (C34).
  \<^item> \<open>Components\<close>: the logic of \<open>ConnectionPanel.tsx\<close> (form state and its
    \<open>onChange\<close> handlers, the \<open>handleConnect\<close> guard, enabled controls, shown button,
    status badge, error box) and of \<open>ChatInterface.tsx\<close> (\<open>handleSendMessage\<close>,
    \<open>handleKeyPress\<close>, enabled controls, own-message test, pending clock), with
    \<open>String.prototype.trim\<close> as the stripping of white-space byte sequences
    (\<open>strip_prefixes\<close>, a \<open>function\<close> with a termination proof by the length of the
    string) and its lemmas (idempotence, evaluation on visible ASCII ends).
  \<^item> \<open>ChatApp\<close>: the page \<open>ChatTester.tsx\<close>: the record \<open>app\<close> (hook, form, chat
    input while the chat view is mounted, mounted flag), the events \<open>ui_event\<close> (a user
    action on a control, unmounting, a browser event), \<open>app_step\<close> with the guards of the
    rendered, enabled controls, \<open>render\<close> (the chat view exists while connected), the
    reachable states \<open>app_reach\<close>.
  \<^item> \<open>AppInvariants\<close>: every page step is a hook step; the shape invariant of the
    page by rule induction (idle with all sockets closed, connecting or connected or
    disconnecting with exactly one live socket; after unmounting at most one closing
    socket).
  \<^item> \<open>AppFrames\<close>: the second page invariant: the current socket runs the remembered
    configuration, every socket comes from a filled form, every chat frame is an envelope
    to ChatTester's fixed recipient with trimmed non-blank content.
  \<^item> \<open>ConnectionSpec\<close>: the specification's life cycle as an abstract machine
    \<open>spec_step\<close> on \<open>conn_phase\<close>, and the abstraction \<open>phase\<close> of a \<open>chat_state\<close>.
  \<^item> \<open>AppRefinement\<close>, \<open>AppProperties\<close>: the per-operation facts of the
    refinement and the claims about the page (C19-C25, C27, C28, C33).
  \<^item> \<open>ChatViews\<close>: what the three components put on the screen, as data
    (\<open>panel_view\<close>, \<open>chat_view\<close> with one \<open>bubble\<close> per message, \<open>page_view\<close>), with
    React's rendering of interpolated values (\<open>react_text\<close>: an object child throws), and
    the claims about the views (C26, C29-C32).

  \<^medskip>
  \<^bold>\<open>What is proved.\<close> The backlog request is the first frame of every socket (C1);
  \<open>sendMessage\<close> writes exactly one envelope to an open current socket and nothing
  otherwise (C2, C3); close events clear or report the error by their code (C4, C5);
  \<open>connect\<close> over an open socket closes it first (C6). For every hook state, the
  theorems C7-C10 show where the hook, called in orders the interface does not use,
  departs from the spec: a socket that is still connecting survives a second
  \<open>connect\<close> and a \<open>disconnect\<close>, and its later open marks the hook connected (C7);
  \<open>connect\<close> over an open socket sets both flags (C8); the close of a replaced socket
  clears \<open>isConnected\<close> while the current socket is open, and a send still goes out on
  it (C9); when the constructor throws during a connect, the old socket stays current and
  its envelopes carry the new configuration's user id (C10). The message store appends,
  replaces and ignores frames as the spec says (C11-C15), but a single \<open>null\<close> entry
  drops a whole backlog (C13), and the id it synthesises is the receipt time (C16). The
  URL carries exactly the two credentials for any bytes (C17); when the server URL
  already has a one-component query, the token is swallowed by its first parameter (C18).
  The page, whose controls keep the hook away from the orders of C7-C9, refines the
  spec's life cycle (C19), keeps the flags exclusive (C20), holds at most one live socket
  (C21), leaves nothing connecting or open once unmounted (C22) and offers Connect only
  when no socket lives (C23); every chat frame it writes goes to the literal
  \<open>"recipient-id"\<close> (C24) from a socket opened with a filled form (C25). The
  chat view recognises no sender but the literal \<open>"your-user-id"\<close>, so the user's own
  messages are drawn as received (C26); in every state between Disconnect and the close
  event a send only shows a notice (C27). The send button's guard is the handler's guard
  (C28). The chat view renders one bubble per message in log order when no field is an
  object (C29), but any message whose content is a JSON object makes rendering the page
  throw (C30); the chat view is on screen exactly while connected (C31), and the status
  badge is the spec's phase (C32). From every reachable state of the mounted page some
  sequence of user actions and browser events connects the hook (C33). Every stored
  message has a truthy id and timestamp, while its other fields are copied unchecked
  (C34).

  \<^medskip>
  \<^bold>\<open>Modelling choices.\<close> Strings are byte lists (UTF-8), so \<open>encodeURIComponent\<close>
  cannot meet the lone surrogates on which it throws, and \<open>trim\<close> strips the UTF-8
  encodings of the white-space code points. \<open>JSON.parse\<close> is not modelled as a parser:
  an inbound frame is the value it parses to, or \<open>Malformed\<close>. Numbers are integers
  (the code only tests them for truthiness). Each event or call carries the clock
  reading \<open>Date.now()\<close> it uses; the hook reads the clock once per handler. The
  environment is free: any socket not yet closed may be closed with any code and reason,
  so the properties hold for every behaviour of server and network. React's state
  updates are applied in order, as the functional \<open>setState\<close> calls are, and a page
  step re-renders at once; the toasts are recorded, console logging is not. Nothing needs
  fuel: every definition is total by structural recursion, except \<open>strip_prefixes\<close>,
  whose recursion shortens the string.

  \<^medskip>
  \<^bold>\<open>Not modelled.\<close> The JSON parser and printer; the layout, icons, styles,
  scrolling, message keys and the locale time format of the chat view's list (a bubble
  keeps the raw timestamp); the toast library and
  React's rendering; the static documentation section of ChatTester.
\<close>

end
